theory Spec2Isabelle
  imports Complex_Main "HOL-Library.AList"
begin

section \<open>JavaScript values\<close>

text \<open>
  The screener DSL is plain JSON that reaches the validator and the compiler as
  JavaScript values. Numbers are modelled as exact rationals plus \<open>NaN\<close>
  (the claims never depend on rounding), objects as association lists in insertion
  order (the keys of a JavaScript object are distinct), and \<open>JFun\<close> stands for a
  built-in method found on the prototype chain, e.g. \<open>[].filter\<close>.
\<close>

datatype jsval =
    JUndefined
  | JNull
  | JBool bool
  | JNum rat
  | JNaN
  | JStr string
  | JArr "jsval list"
  | JObj "(string \<times> jsval) list"
  | JFun

datatype jstype = TUndefined | TObject | TBoolean | TNumber | TString | TFunction

fun typeof :: "jsval \<Rightarrow> jstype" where
  "typeof JUndefined = TUndefined"
| "typeof JNull = TObject"
| "typeof (JBool b) = TBoolean"
| "typeof (JNum r) = TNumber"
| "typeof JNaN = TNumber"
| "typeof (JStr s) = TString"
| "typeof (JArr xs) = TObject"
| "typeof (JObj kvs) = TObject"
| "typeof JFun = TFunction"

text \<open>ToBoolean: what \<open>!x\<close>, \<open>x && y\<close>, \<open>x || y\<close> and \<open>if (x)\<close> test.\<close>

fun truthy :: "jsval \<Rightarrow> bool" where
  "truthy JUndefined = False"
| "truthy JNull = False"
| "truthy (JBool b) = b"
| "truthy (JNum r) = (r \<noteq> 0)"
| "truthy JNaN = False"
| "truthy (JStr s) = (s \<noteq> [])"
| "truthy (JArr xs) = True"
| "truthy (JObj kvs) = True"
| "truthy JFun = True"

definition jor :: "jsval \<Rightarrow> jsval \<Rightarrow> jsval" where
  "jor a b = (if truthy a then a else b)"

fun isArray :: "jsval \<Rightarrow> bool" where
  "isArray (JArr xs) = True"
| "isArray v = False"

text \<open>
  Property read \<open>v.k\<close> on a value that is neither \<open>null\<close> nor \<open>undefined\<close>
  (callers guard those two, where the source would raise a TypeError). Of the names
  the services read, only \<open>filter\<close> and \<open>sort\<close> are inherited by arrays.
\<close>

fun jget :: "jsval \<Rightarrow> string \<Rightarrow> jsval" where
  "jget (JObj kvs) k = (case map_of kvs k of Some v \<Rightarrow> v | None \<Rightarrow> JUndefined)"
| "jget (JArr xs) k =
     (if k = ''length'' then JNum (of_nat (length xs))
      else if k = ''filter'' \<or> k = ''sort'' then JFun
      else JUndefined)"
| "jget (JStr s) k = (if k = ''length'' then JNum (of_nat (length s)) else JUndefined)"
| "jget v k = JUndefined"

text \<open>Assignment \<open>o.k = v\<close> and \<open>delete o.k\<close> on a plain object.\<close>

fun jset :: "jsval \<Rightarrow> string \<Rightarrow> jsval \<Rightarrow> jsval" where
  "jset (JObj kvs) k v = JObj (AList.update k v kvs)"
| "jset w k v = w"

fun jdelete :: "jsval \<Rightarrow> string \<Rightarrow> jsval" where
  "jdelete (JObj kvs) k = JObj (AList.delete k kvs)"
| "jdelete w k = w"

text \<open>Decimal rendering of an array index or a parameter number.\<close>

definition digitChar :: "nat \<Rightarrow> char" where
  "digitChar d = ''0123456789'' ! d"

fun showNat :: "nat \<Rightarrow> string" where
  "showNat n = (if n < 10 then [digitChar n] else showNat (n div 10) @ [digitChar (n mod 10)])"

declare showNat.simps [simp del]

text \<open>
  Own keys come in the order JavaScript lists them: first the keys that are array
  indices (canonical decimal numerals below \<open>2^32 - 1\<close>) in ascending order, then
  the other keys in insertion order.
\<close>

definition decimalValue :: "string \<Rightarrow> int" where
  "decimalValue s = foldl (\<lambda>n c. 10 * n + (of_char c - 48)) 0 s"

definition arrayIndexOf :: "string \<Rightarrow> int option" where
  "arrayIndexOf s =
     (if s \<noteq> [] \<and> list_all (\<lambda>c. (48::nat) \<le> of_char c \<and> of_char c \<le> (57::nat)) s
         \<and> (s = ''0'' \<or> hd s \<noteq> CHR ''0'')
         \<and> decimalValue s < 4294967295
      then Some (decimalValue s) else None)"

definition ownKeyOrder :: "string list \<Rightarrow> string list" where
  "ownKeyOrder ks =
     sort_key (\<lambda>k. the (arrayIndexOf k)) (filter (\<lambda>k. arrayIndexOf k \<noteq> None) ks)
     @ filter (\<lambda>k. arrayIndexOf k = None) ks"

fun objectKeys :: "jsval \<Rightarrow> string list" where
  "objectKeys (JObj kvs) = ownKeyOrder (map fst kvs)"
| "objectKeys (JArr xs) = map showNat [0..<length xs]"
| "objectKeys (JStr s) = map showNat [0..<length s]"
| "objectKeys v = []"

lemma set_ownKeyOrder: "set (ownKeyOrder ks) = set ks"
  by (auto simp: ownKeyOrder_def)

text \<open>
  \<open>list.includes(v)\<close> for a list of string constants: strict equality, so only a
  string can be found.
\<close>

fun jsIncludes :: "string list \<Rightarrow> jsval \<Rightarrow> bool" where
  "jsIncludes xs (JStr s) = (s \<in> set xs)"
| "jsIncludes xs v = False"

section \<open>DSL validator (validator.service.js)\<close>

definition ALLOWED_FIELDS :: "string list" where
  "ALLOWED_FIELDS =
    [''ticker'', ''name'', ''market_cap'', ''sector'', ''industry'', ''exchange'',
     ''next_earnings_date'', ''last_buyback_date'', ''promoter_holding'',
     ''open'', ''high'', ''low'', ''close'', ''volume'',
     ''revenue'', ''net_income'', ''eps'', ''operating_margin'', ''roe'', ''roa'',
     ''pe_ratio'', ''pb_ratio'', ''peg_ratio'', ''ebitda'',
     ''ebitda_margin'', ''debt_to_equity'', ''current_ratio'',
     ''total_assets'', ''total_debt'', ''free_cash_flow'', ''operating_cash_flow'',
     ''revenue_growth_yoy'', ''ebitda_growth_yoy'',
     ''debt_to_fcf'',
     ''short_term_debt'', ''long_term_debt'',
     ''cfo'', ''cfi'', ''cff'', ''capex'',
     ''eps_estimate'', ''revenue_estimate'',
     ''price_target_low'', ''price_target_avg'', ''price_target_high'']"

definition ALLOWED_OPERATORS :: "string list" where
  "ALLOWED_OPERATORS =
    [''<'', ''>'', ''<='', ''>='', ''='', ''!='', ''between'', ''in'', ''exists'', ''all_quarters'']"

definition ALLOWED_LOGICAL_OPERATORS :: "string list" where
  "ALLOWED_LOGICAL_OPERATORS = [''and'', ''or'', ''not'']"

definition ALLOWED_AGGREGATIONS :: "string list" where
  "ALLOWED_AGGREGATIONS = [''all'', ''any'', ''avg'', ''sum'', ''latest'']"

text \<open>
  The validator collects message strings; the model keeps one constructor per
  message, with the offending value where the source appends it to the text.
\<close>

datatype verror =
    DSLMustBeObject
  | MustContainFilter
  | FilterMustBeObject
  | LogicalMustContainArray string
  | InvalidConditionInFilter
  | UnknownFilterOperator string
  | MustHaveField
  | InvalidField jsval
  | MustHaveOperator
  | InvalidOperator jsval
  | MustHaveValue
  | CrossFieldValueNotAllowed jsval
  | BetweenRequiresTwoValues
  | InRequiresArray
  | ExistsRequiresBoolean
  | PeriodMustBeObject
  | PeriodTypeMustBeLastNQuarters
  | PeriodNOutOfRange
  | InvalidPeriodAggregation jsval
  | SortMustBeArray
  | SortItemMustHaveField
  | InvalidSortField jsval
  | InvalidSortDirection jsval
  | LimitOutOfRange

text \<open>
  What the services throw: a TypeError of the runtime, or one of the compiler's own
  \<open>Error\<close>s with the offending value. \<open>NotModelled\<close> marks the few inputs on
  which the model does not follow JavaScript (see the compiler); it is not a throw.
\<close>

datatype jserror =
    TypeError
  | UnknownFieldError jsval
  | UnknownComparisonFieldError jsval
  | UnsupportedOperatorError jsval
  | NotModelled

text \<open>\<open>_isCondition\<close>: the validator also asks for \<open>typeof obj === 'object'\<close>.\<close>

definition isCondition :: "jsval \<Rightarrow> bool" where
  "isCondition obj \<longleftrightarrow>
     truthy obj \<and> typeof obj = TObject \<and> truthy (jget obj ''field'') \<and> truthy (jget obj ''operator'')"

text \<open>The \<open>period\<close> block of \<open>_validateCondition\<close> (source lines 167-182).\<close>

definition periodErrors :: "jsval \<Rightarrow> verror list" where
  "periodErrors p =
     (if typeof p \<noteq> TObject then [PeriodMustBeObject]
      else
        (if \<not> truthy (jget p ''type'') \<or> jget p ''type'' \<noteq> JStr ''last_n_quarters''
         then [PeriodTypeMustBeLastNQuarters] else [])
        @ (if \<not> truthy (jget p ''n'') \<or> typeof (jget p ''n'') \<noteq> TNumber
              \<or> (case jget p ''n'' of JNum r \<Rightarrow> r < 1 \<or> r > 20 | _ \<Rightarrow> False)
           then [PeriodNOutOfRange] else [])
        @ (if truthy (jget p ''aggregation'') \<and> \<not> jsIncludes ALLOWED_AGGREGATIONS (jget p ''aggregation'')
           then [InvalidPeriodAggregation (jget p ''aggregation'')] else []))"

text \<open>The value-shape chain of \<open>_validateCondition\<close> (source lines 148-164).\<close>

definition valueShapeErrors :: "jsval \<Rightarrow> verror list" where
  "valueShapeErrors condition =
     (let value = jget condition ''value''; operator = jget condition ''operator'' in
      if truthy (jget condition ''value_is_field'') then
        (if typeof value \<noteq> TString \<or> \<not> jsIncludes ALLOWED_FIELDS value
         then [CrossFieldValueNotAllowed value] else [])
      else if operator = JStr ''between'' then
        (if \<not> isArray value \<or> jget value ''length'' \<noteq> JNum 2
         then [BetweenRequiresTwoValues] else [])
      else if operator = JStr ''in'' then
        (if \<not> isArray value then [InRequiresArray] else [])
      else if operator = JStr ''exists'' then
        (if typeof value \<noteq> TBoolean then [ExistsRequiresBoolean] else [])
      else [])"

text \<open>
  \<open>_validateCondition\<close> returns the errors; it also rewrites a legacy
  \<open>timeframe\<close> into a \<open>period\<close> in place, so the model returns the condition
  as it is left behind.
\<close>

definition validateCondition :: "jsval \<Rightarrow> verror list \<times> jsval" where
  "validateCondition condition =
     (let field = jget condition ''field'';
          operator = jget condition ''operator'';
          value = jget condition ''value'';
          period = jget condition ''period'';
          timeframe = jget condition ''timeframe'';
          errors =
            (if \<not> truthy field then [MustHaveField]
             else if \<not> jsIncludes ALLOWED_FIELDS field then [InvalidField field] else [])
            @ (if \<not> truthy operator then [MustHaveOperator]
               else if \<not> jsIncludes ALLOWED_OPERATORS operator then [InvalidOperator operator] else [])
            @ (if value = JUndefined \<and> operator \<noteq> JStr ''exists'' then [MustHaveValue] else [])
            @ valueShapeErrors condition
            @ (if truthy period then periodErrors period else [])
      in
      if truthy timeframe \<and> \<not> truthy period then
        (errors,
         jdelete
           (jset condition ''period''
              (JObj [(''type'', JStr ''last_n_quarters''),
                     (''n'', jor (jget timeframe ''period'') (JNum 1)),
                     (''aggregation'', jor (jget timeframe ''aggregation'') (JStr ''all''))]))
           ''timeframe'')
      else (errors, condition))"

lemma jget_size:
  "jget f k = JArr xs \<Longrightarrow> x \<in> set xs \<Longrightarrow> size x < size f"
proof (cases f)
  case (JObj kvs)
  assume g: "jget f k = JArr xs" and x: "x \<in> set xs"
  from g JObj have "map_of kvs k = Some (JArr xs)"
    by (simp split: option.splits)
  then have "(k, JArr xs) \<in> set kvs" by (rule map_of_SomeD)
  then have "size (JArr xs) < size (JObj kvs)"
    by (induction kvs) auto
  moreover from x have "size x < size (JArr xs)"
    by (induction xs) auto
  ultimately show ?thesis using JObj by simp
qed (auto split: if_splits)

function validateFilter :: "jsval \<Rightarrow> verror list \<times> jsval" where
  "validateFilter node =
     (if \<not> truthy node \<or> typeof node \<noteq> TObject then ([FilterMustBeObject], node)
      else
        foldl
          (\<lambda>(errors, flt) key.
             if key \<in> set ALLOWED_LOGICAL_OPERATORS then
               (case jget node key of
                  JArr conds \<Rightarrow>
                    (let rs = map (\<lambda>condition.
                                 if isCondition condition then validateCondition condition
                                 else if typeof condition = TObject then validateFilter condition
                                 else ([InvalidConditionInFilter], condition)) conds
                     in (errors @ concat (map fst rs), jset flt key (JArr (map snd rs))))
                | _ \<Rightarrow> (errors @ [LogicalMustContainArray key], flt))
             else (errors @ [UnknownFilterOperator key], flt))
          ([], node) (objectKeys node))"
  by pat_completeness auto
termination
  by (relation "measure size") (auto dest: jget_size)

declare validateFilter.simps [simp del]

text \<open>\<open>String.prototype.toLowerCase\<close> and \<open>toUpperCase\<close> on ASCII text.\<close>

definition lowerChar :: "char \<Rightarrow> char" where
  "lowerChar c =
     (case map_of (zip ''ABCDEFGHIJKLMNOPQRSTUVWXYZ'' ''abcdefghijklmnopqrstuvwxyz'') c of
        Some l \<Rightarrow> l
      | None \<Rightarrow> c)"

definition upperChar :: "char \<Rightarrow> char" where
  "upperChar c =
     (case map_of (zip ''abcdefghijklmnopqrstuvwxyz'' ''ABCDEFGHIJKLMNOPQRSTUVWXYZ'') c of
        Some u \<Rightarrow> u
      | None \<Rightarrow> c)"

definition toLowerCase :: "string \<Rightarrow> string" where
  "toLowerCase s = map lowerChar s"

definition toUpperCase :: "string \<Rightarrow> string" where
  "toUpperCase s = map upperChar s"

text \<open>
  \<open>_validateSort\<close>. Reading \<open>sortItem.field\<close> of a \<open>null\<close> item, and calling
  \<open>toLowerCase\<close> on a truthy direction that is not a string, raise a TypeError.
\<close>

definition validateSortItem :: "jsval \<Rightarrow> jserror + verror list" where
  "validateSortItem sortItem =
     (if sortItem = JNull \<or> sortItem = JUndefined then Inl TypeError
      else
        (let fieldErrors =
               (if \<not> truthy (jget sortItem ''field'') then [SortItemMustHaveField]
                else if \<not> jsIncludes ALLOWED_FIELDS (jget sortItem ''field'')
                then [InvalidSortField (jget sortItem ''field'')] else [])
         in if truthy (jget sortItem ''direction'') then
              (case jget sortItem ''direction'' of
                 JStr d \<Rightarrow>
                   Inr (fieldErrors @
                        (if toLowerCase d \<notin> set [''asc'', ''desc'']
                         then [InvalidSortDirection (JStr d)] else []))
               | _ \<Rightarrow> Inl TypeError)
            else Inr fieldErrors))"

fun validateSortItems :: "jsval list \<Rightarrow> jserror + verror list" where
  "validateSortItems [] = Inr []"
| "validateSortItems (sortItem # rest) =
     (case validateSortItem sortItem of
        Inl e \<Rightarrow> Inl e
      | Inr errs \<Rightarrow>
          (case validateSortItems rest of Inl e \<Rightarrow> Inl e | Inr more \<Rightarrow> Inr (errs @ more)))"

definition validateSort :: "jsval \<Rightarrow> jserror + verror list" where
  "validateSort sortv =
     (case sortv of JArr items \<Rightarrow> validateSortItems items | _ \<Rightarrow> Inr [SortMustBeArray])"

text \<open>\<open>_validateLimit\<close>: every comparison with \<open>NaN\<close> is false.\<close>

definition validateLimit :: "jsval \<Rightarrow> verror list" where
  "validateLimit limit =
     (if typeof limit \<noteq> TNumber \<or> (case limit of JNum r \<Rightarrow> r < 1 \<or> r > 1000 | _ \<Rightarrow> False)
      then [LimitOutOfRange] else [])"

record vresult =
  valid :: bool
  errors :: "verror list"
  sanitizedDSL :: jsval

text \<open>
  \<open>validate\<close>. The DSL object is the one the caller holds, so the rewriting done by
  \<open>_validateCondition\<close> shows in \<open>sanitizedDSL\<close>.
\<close>

definition validate :: "jsval \<Rightarrow> jserror + vresult" where
  "validate dsl =
     (if \<not> truthy dsl \<or> typeof dsl \<noteq> TObject then
        Inr \<lparr>valid = False, errors = [DSLMustBeObject], sanitizedDSL = JNull\<rparr>
      else if \<not> truthy (jget dsl ''filter'') then
        Inr \<lparr>valid = False, errors = [MustContainFilter], sanitizedDSL = JNull\<rparr>
      else
        (let (filterErrors, filter') = validateFilter (jget dsl ''filter'');
             dsl' = jset dsl ''filter'' filter'
         in case (if truthy (jget dsl ''sort'') then validateSort (jget dsl ''sort'') else Inr []) of
              Inl e \<Rightarrow> Inl e
            | Inr sortErrors \<Rightarrow>
                (let limitErrors =
                       (if jget dsl ''limit'' \<noteq> JUndefined then validateLimit (jget dsl ''limit'') else []);
                     errs = filterErrors @ sortErrors @ limitErrors
                 in Inr \<lparr>valid = (errs = []), errors = errs,
                         sanitizedDSL = (if errs = [] then dsl' else JNull)\<rparr>)))"

section \<open>Screener compiler (compiler.service.js)\<close>

record fieldInfo =
  table :: string
  column :: string
  derived :: bool
  sql :: "(string \<Rightarrow> string) option"

definition plainField :: "string \<Rightarrow> string \<Rightarrow> string \<times> fieldInfo" where
  "plainField t c = (c, \<lparr>table = t, column = c, derived = False, sql = None\<rparr>)"

definition FIELD_TABLE_MAP :: "(string \<times> fieldInfo) list" where
  "FIELD_TABLE_MAP =
     map (plainField ''companies'')
       [''ticker'', ''name'', ''market_cap'', ''sector'', ''industry'', ''exchange'',
        ''next_earnings_date'', ''last_buyback_date'', ''promoter_holding'']
     @ map (plainField ''price_history'') [''open'', ''high'', ''low'', ''close'', ''volume'']
     @ map (plainField ''fundamentals_quarterly'')
       [''revenue'', ''net_income'', ''eps'', ''operating_margin'', ''roe'', ''roa'',
        ''pe_ratio'', ''pb_ratio'', ''peg_ratio'', ''ebitda'', ''ebitda_margin'',
        ''debt_to_equity'', ''current_ratio'', ''total_assets'', ''total_debt'',
        ''free_cash_flow'', ''operating_cash_flow'', ''revenue_growth_yoy'', ''ebitda_growth_yoy'']
     @ map (plainField ''debt_profile'') [''short_term_debt'', ''long_term_debt'']
     @ map (plainField ''cashflow_statements'') [''cfo'', ''cfi'', ''cff'', ''capex'']
     @ map (plainField ''analyst_estimates'')
       [''eps_estimate'', ''revenue_estimate'', ''price_target_low'', ''price_target_avg'',
        ''price_target_high'']
     @ [(''debt_to_fcf'',
         \<lparr>table = ''fundamentals_quarterly'', column = ''debt_to_fcf'', derived = True,
          sql = Some (\<lambda>alias. ''('' @ alias @ ''.total_debt::numeric / NULLIF('' @ alias
                          @ ''.free_cash_flow::numeric, 0))'')\<rparr>)]"

definition PERIOD_CAPABLE_TABLES :: "string list" where
  "PERIOD_CAPABLE_TABLES = [''fundamentals_quarterly'']"

text \<open>
  Names every object literal inherits from \<open>Object.prototype\<close>. A lookup such as
  \<open>FIELD_TABLE_MAP[name]\<close> with one of them finds a built-in instead of
  \<open>undefined\<close>; what the compiler then builds from it is outside the model
  (\<open>NotModelled\<close>), as is the text of a non-string value spliced into the SQL.
  The validator lets neither through.
\<close>

definition objectPrototypeNames :: "string list" where
  "objectPrototypeNames =
     [''constructor'', ''toString'', ''toLocaleString'', ''valueOf'', ''hasOwnProperty'',
      ''isPrototypeOf'', ''propertyIsEnumerable'', ''__proto__'', ''__defineGetter__'',
      ''__defineSetter__'', ''__lookupGetter__'', ''__lookupSetter__'']"

datatype 'a lookup = Found 'a | Missing | BuiltIn

definition lookupField :: "jsval \<Rightarrow> fieldInfo lookup" where
  "lookupField key =
     (case key of
        JStr s \<Rightarrow>
          (case map_of FIELD_TABLE_MAP s of
             Some info \<Rightarrow> Found info
           | None \<Rightarrow> if s \<in> set objectPrototypeNames then BuiltIn else Missing)
      | JArr xs \<Rightarrow> BuiltIn
      | JFun \<Rightarrow> BuiltIn
      | _ \<Rightarrow> Missing)"

record compilerContext =
  params :: "jsval list"
  paramCounter :: nat
  requiredTables :: "string list"
  periodSubqueries :: "string list"

text \<open>\<open>Set.prototype.add\<close> on a set kept in insertion order.\<close>

definition setAdd :: "string \<Rightarrow> string list \<Rightarrow> string list" where
  "setAdd x xs = (if x \<in> set xs then xs else xs @ [x])"

definition addTable :: "string \<Rightarrow> compilerContext \<Rightarrow> compilerContext" where
  "addTable t ctx = ctx\<lparr>requiredTables := setAdd t (requiredTables ctx)\<rparr>"

text \<open>\<open>Array.prototype.join\<close> on strings.\<close>

fun joinWith :: "string \<Rightarrow> string list \<Rightarrow> string" where
  "joinWith sep [] = []"
| "joinWith sep [x] = x"
| "joinWith sep (x # y # ys) = x @ sep @ joinWith sep (y # ys)"

definition getTableAlias :: "string \<Rightarrow> string" where
  "getTableAlias tableName =
     (case map_of [(''companies'', ''c''), (''fundamentals_quarterly'', ''fq''),
                   (''price_history'', ''ph''), (''debt_profile'', ''dp''),
                   (''cashflow_statements'', ''cs''), (''analyst_estimates'', ''ae'')] tableName of
        Some a \<Rightarrow> if a = [] then tableName else a
      | None \<Rightarrow> tableName)"

text \<open>\<open>_invertOperator\<close>: \<open>map[op] || op\<close>.\<close>

definition invertOperator :: "jsval \<Rightarrow> jsval" where
  "invertOperator op =
     (case op of
        JStr s \<Rightarrow>
          (case map_of [(''>'', ''<=''), (''<'', ''>=''), (''>='', ''<''), (''<='', ''>''),
                        (''='', ''!=''), (''!='', ''='')] s of
             Some inverted \<Rightarrow> JStr inverted
           | None \<Rightarrow> if s \<in> set objectPrototypeNames then JFun else op)
      | _ \<Rightarrow> op)"

text \<open>Reading \<open>v[i]\<close>; \<open>null\<close> and \<open>undefined\<close> raise a TypeError.\<close>

definition jindex :: "jsval \<Rightarrow> nat \<Rightarrow> jserror + jsval" where
  "jindex v i =
     (case v of
        JUndefined \<Rightarrow> Inl TypeError
      | JNull \<Rightarrow> Inl TypeError
      | JArr xs \<Rightarrow> Inr (if i < length xs then xs ! i else JUndefined)
      | JStr s \<Rightarrow> Inr (if i < length s then JStr [s ! i] else JUndefined)
      | JObj kvs \<Rightarrow> Inr (jget v (showNat i))
      | _ \<Rightarrow> Inr JUndefined)"

definition placeholder :: "nat \<Rightarrow> string" where
  "placeholder n = ''$'' @ showNat n"

definition comparisonOperators :: "string list" where
  "comparisonOperators = [''<'', ''>'', ''<='', ''>='', ''='', ''!='']"

definition compileOperator :: "string \<Rightarrow> jsval \<Rightarrow> compilerContext \<Rightarrow> jserror + string \<times> compilerContext" where
  "compileOperator colRef condition ctx =
     (let operator = jget condition ''operator''; value = jget condition ''value'';
          n = paramCounter ctx in
      case operator of
        JStr op \<Rightarrow>
          if op \<in> set comparisonOperators then
            Inr (colRef @ '' '' @ op @ '' '' @ placeholder n,
                 ctx\<lparr>params := params ctx @ [value], paramCounter := n + 1\<rparr>)
          else if op = ''between'' then
            (case jindex value 0 of
               Inl e \<Rightarrow> Inl e
             | Inr lo \<Rightarrow>
                 (case jindex value 1 of
                    Inl e \<Rightarrow> Inl e
                  | Inr hi \<Rightarrow>
                      Inr (colRef @ '' BETWEEN '' @ placeholder n @ '' AND '' @ placeholder (n + 1),
                           ctx\<lparr>params := params ctx @ [lo, hi], paramCounter := n + 2\<rparr>)))
          else if op = ''in'' then
            (case value of
               JArr xs \<Rightarrow>
                 Inr (colRef @ '' IN ('' @ joinWith '', '' (map (\<lambda>i. placeholder (n + i)) [0..<length xs])
                        @ '')'',
                      ctx\<lparr>params := params ctx @ xs, paramCounter := n + length xs\<rparr>)
             | _ \<Rightarrow> Inl TypeError)
          else if op = ''exists'' then
            Inr (if truthy value then colRef @ '' IS NOT NULL'' else colRef @ '' IS NULL'', ctx)
          else Inl (UnsupportedOperatorError operator)
      | _ \<Rightarrow> Inl (UnsupportedOperatorError operator))"

text \<open>
  \<open>_compilePeriodCondition\<close>. The destructuring default \<open>aggregation = 'all'\<close>
  applies when the property is \<open>undefined\<close> only.
\<close>

definition lastRowsSubquery :: "string \<Rightarrow> string \<Rightarrow> string \<Rightarrow> string list" where
  "lastRowsSubquery col nParam subAlias =
     [''    SELECT '' @ col @ '' FROM fundamentals_quarterly'',
      ''    WHERE ticker = c.ticker AND '' @ col @ '' IS NOT NULL'',
      ''    ORDER BY id DESC LIMIT '' @ nParam,
      ''  ) '' @ subAlias]"

definition compilePeriodCondition ::
  "jsval \<Rightarrow> fieldInfo \<Rightarrow> compilerContext \<Rightarrow> jserror + string \<times> compilerContext" where
  "compilePeriodCondition condition fieldInfo ctx =
     (let period = jget condition ''period'';
          n = jget period ''n'';
          aggregation = (if jget period ''aggregation'' = JUndefined then JStr ''all''
                         else jget period ''aggregation'');
          col = column fieldInfo;
          op = jget condition ''operator'';
          value = jget condition ''value'';
          k = paramCounter ctx;
          subAlias = ''pq_'' @ showNat k
      in
      if aggregation = JStr ''all'' then
        (case invertOperator op of
           JStr invertedOp \<Rightarrow>
             Inr (joinWith '' ''
                    ([''NOT EXISTS ('', ''  SELECT 1 FROM (''] @
                     lastRowsSubquery col (placeholder (k + 1)) subAlias @
                     [''  WHERE '' @ subAlias @ ''.'' @ col @ '' '' @ invertedOp @ '' '' @ placeholder k,
                      '')'']),
                  ctx\<lparr>params := params ctx @ [value, n], paramCounter := k + 2\<rparr>)
         | _ \<Rightarrow> Inl NotModelled)
      else if aggregation = JStr ''any'' then
        (case op of
           JStr opText \<Rightarrow>
             Inr (joinWith '' ''
                    ([''EXISTS ('', ''  SELECT 1 FROM (''] @
                     lastRowsSubquery col (placeholder (k + 1)) subAlias @
                     [''  WHERE '' @ subAlias @ ''.'' @ col @ '' '' @ opText @ '' '' @ placeholder k,
                      '')'']),
                  ctx\<lparr>params := params ctx @ [value, n], paramCounter := k + 2\<rparr>)
         | _ \<Rightarrow> Inl NotModelled)
      else if aggregation = JStr ''avg'' \<or> aggregation = JStr ''sum'' then
        (case (op, aggregation) of
           (JStr opText, JStr agg) \<Rightarrow>
             Inr (joinWith '' ''
                    ([''('', ''  SELECT '' @ toUpperCase agg @ ''('' @ subAlias @ ''.'' @ col @ '') FROM (''] @
                     lastRowsSubquery col (placeholder k) subAlias @
                     ['') '' @ opText @ '' '' @ placeholder (k + 1)]),
                  ctx\<lparr>params := params ctx @ [n, value], paramCounter := k + 2\<rparr>)
         | _ \<Rightarrow> Inl NotModelled)
      else
        compileOperator (getTableAlias (table fieldInfo) @ ''.'' @ col) condition
          (addTable (table fieldInfo) ctx))"

definition fqSubRef :: "string \<Rightarrow> string" where
  "fqSubRef col =
     ''(SELECT fq_sub.'' @ col @ '' FROM fundamentals_quarterly fq_sub''
     @ '' WHERE fq_sub.ticker = c.ticker AND fq_sub.'' @ col @ '' IS NOT NULL''
     @ '' ORDER BY fq_sub.id DESC LIMIT 1)''"

definition compileCondition :: "jsval \<Rightarrow> compilerContext \<Rightarrow> jserror + string \<times> compilerContext" where
  "compileCondition condition ctx =
     (let field = jget condition ''field''; operator = jget condition ''operator'';
          value = jget condition ''value'' in
      case lookupField field of
        Missing \<Rightarrow> Inl (UnknownFieldError field)
      | BuiltIn \<Rightarrow> Inl NotModelled
      | Found fieldInfo \<Rightarrow>
          (let colRef = getTableAlias (table fieldInfo) @ ''.'' @ column fieldInfo in
           if truthy (jget condition ''value_is_field'') then
             (case lookupField value of
                Missing \<Rightarrow> Inl (UnknownComparisonFieldError value)
              | BuiltIn \<Rightarrow> Inl NotModelled
              | Found otherFieldInfo \<Rightarrow>
                  (case operator of
                     JStr op \<Rightarrow>
                       Inr (colRef @ '' '' @ op @ '' ''
                              @ getTableAlias (table otherFieldInfo) @ ''.'' @ column otherFieldInfo,
                            addTable (table otherFieldInfo) (addTable (table fieldInfo) ctx))
                   | _ \<Rightarrow> Inl NotModelled))
           else if jsIncludes [''sector'', ''exchange'', ''industry''] field then
             compileOperator colRef condition (addTable (table fieldInfo) ctx)
           else if jsIncludes [''last_buyback_date'', ''next_earnings_date''] field
                   \<and> operator = JStr ''exists'' then
             Inr (if truthy value then colRef @ '' IS NOT NULL'' else colRef @ '' IS NULL'',
                  addTable (table fieldInfo) ctx)
           else if derived fieldInfo then
             (case sql fieldInfo of
                Some derivedSql \<Rightarrow>
                  compileOperator (derivedSql (getTableAlias (table fieldInfo))) condition
                    (addTable (table fieldInfo) ctx)
              | None \<Rightarrow> Inl TypeError)
           else if truthy (jget condition ''period'') \<and> table fieldInfo \<in> set PERIOD_CAPABLE_TABLES then
             compilePeriodCondition condition fieldInfo ctx
           else if table fieldInfo = ''fundamentals_quarterly'' then
             compileOperator (fqSubRef (column fieldInfo)) condition (addTable (table fieldInfo) ctx)
           else compileOperator colRef condition (addTable (table fieldInfo) ctx)))"

text \<open>The compiler's own \<open>_isCondition\<close>: \<open>obj && obj.field && obj.operator\<close>.\<close>

definition isConditionC :: "jsval \<Rightarrow> bool" where
  "isConditionC obj \<longleftrightarrow> truthy obj \<and> truthy (jget obj ''field'') \<and> truthy (jget obj ''operator'')"

lemma jget_smaller:
  "k \<noteq> ''length'' \<Longrightarrow> jget f k \<noteq> JUndefined \<Longrightarrow> size (jget f k) < size f"
proof (cases f)
  case (JObj kvs)
  assume "jget f k \<noteq> JUndefined"
  with JObj obtain v where m: "map_of kvs k = Some v" and g: "jget f k = v"
    by (auto split: option.splits)
  from m have "(k, v) \<in> set kvs" by (rule map_of_SomeD)
  then have "size v < size (JObj kvs)" by (induction kvs) auto
  with g JObj show ?thesis by simp
qed (auto split: if_splits)

text \<open>
  \<open>_compileFilter\<close> and \<open>_compileLogical\<close>; \<open>compileItems\<close> is the
  \<open>conditions.map(...)\<close> of \<open>_compileLogical\<close>, run left to right on one context.
\<close>

function compileFilter :: "jsval \<Rightarrow> compilerContext \<Rightarrow> jserror + string \<times> compilerContext"
  and compileItems :: "jsval list \<Rightarrow> compilerContext \<Rightarrow> jserror + string list \<times> compilerContext" where
  "compileFilter node ctx =
     (if \<not> truthy node then Inr (''1=1'', ctx)
      else if truthy (jget node ''and'') then
        (case jget node ''and'' of
           JArr conditions \<Rightarrow>
             (case compileItems conditions ctx of
                Inl e \<Rightarrow> Inl e
              | Inr (compiled, ctx') \<Rightarrow> Inr (joinWith '' AND '' compiled, ctx'))
         | _ \<Rightarrow> Inl TypeError)
      else if truthy (jget node ''or'') then
        (case jget node ''or'' of
           JArr conditions \<Rightarrow>
             (case compileItems conditions ctx of
                Inl e \<Rightarrow> Inl e
              | Inr (compiled, ctx') \<Rightarrow> Inr (''('' @ joinWith '' OR '' compiled @ '')'', ctx'))
         | _ \<Rightarrow> Inl TypeError)
      else if truthy (jget node ''not'') then
        (case (if isConditionC (jget node ''not'') then compileCondition (jget node ''not'') ctx
               else compileFilter (jget node ''not'') ctx) of
           Inl e \<Rightarrow> Inl e
         | Inr (inner, ctx') \<Rightarrow> Inr (''NOT ('' @ inner @ '')'', ctx'))
      else Inr (''1=1'', ctx))"
| "compileItems [] ctx = Inr ([], ctx)"
| "compileItems (cond # rest) ctx =
     (case (if isConditionC cond then compileCondition cond ctx
            else (case compileFilter cond ctx of
                    Inl e \<Rightarrow> Inl e
                  | Inr (inner, ctx') \<Rightarrow> Inr (''('' @ inner @ '')'', ctx'))) of
        Inl e \<Rightarrow> Inl e
      | Inr (text, ctx1) \<Rightarrow>
          (case compileItems rest ctx1 of
             Inl e \<Rightarrow> Inl e
           | Inr (texts, ctx2) \<Rightarrow> Inr (text # texts, ctx2)))"
  by pat_completeness auto
termination
proof (relation "measure (\<lambda>x. case x of Inl (node, ctx) \<Rightarrow> 2 * size node
                                     | Inr (items, ctx) \<Rightarrow> 2 * size_list size items + 1)",
       goal_cases)
  case 1
  show ?case by simp
next
  case (2 node ctx conditions)
  then have "size (jget node ''and'') < size node" by (intro jget_smaller) auto
  with 2 show ?case by simp
next
  case (3 node ctx conditions)
  then have "size (jget node ''or'') < size node" by (intro jget_smaller) auto
  with 3 show ?case by simp
next
  case (4 node ctx)
  then have "size (jget node ''not'') < size node" by (intro jget_smaller) auto
  then show ?case by simp
next
  case (5 cond rest ctx)
  show ?case by simp
next
  case (6 cond rest ctx)
  show ?case by simp
qed

declare compileFilter.simps [simp del]

definition lateralJoin :: "string \<Rightarrow> string \<Rightarrow> string \<Rightarrow> string" where
  "lateralJoin tableName orderColumn alias =
     ''LEFT JOIN LATERAL (\<newline>'' @
     ''  SELECT * FROM '' @ tableName @ ''\<newline>'' @
     ''  WHERE ticker = c.ticker\<newline>'' @
     ''  ORDER BY '' @ orderColumn @ '' DESC\<newline>'' @
     ''  LIMIT 1\<newline>'' @
     '') '' @ alias @ '' ON true''"

text \<open>\<open>_generateJoins\<close>: five \<open>if (requiredTables.has(...))\<close> blocks in this order.\<close>

definition generateJoins :: "string list \<Rightarrow> string" where
  "generateJoins required =
     joinWith ''\<newline>''
       ((if ''fundamentals_quarterly'' \<in> set required
         then [lateralJoin ''fundamentals_quarterly'' ''id'' ''fq''] else [])
        @ (if ''price_history'' \<in> set required
           then [lateralJoin ''price_history'' ''time'' ''ph''] else [])
        @ (if ''debt_profile'' \<in> set required
           then [lateralJoin ''debt_profile'' ''id'' ''dp''] else [])
        @ (if ''cashflow_statements'' \<in> set required
           then [lateralJoin ''cashflow_statements'' ''id'' ''cs''] else [])
        @ (if ''analyst_estimates'' \<in> set required
           then [lateralJoin ''analyst_estimates'' ''estimate_date'' ''ae''] else []))"

text \<open>
  \<open>_compileSort\<close>. An unknown field leaves \<open>fi\<close> undefined and \<open>fi.table\<close>
  raises; so does \<open>toUpperCase\<close> on a direction that is not a string.
\<close>

definition compileSortItem :: "jsval \<Rightarrow> jserror + string" where
  "compileSortItem s =
     (if s = JNull \<or> s = JUndefined then Inl TypeError
      else
        (case lookupField (jget s ''field'') of
           Missing \<Rightarrow> Inl TypeError
         | BuiltIn \<Rightarrow> Inl NotModelled
         | Found fi \<Rightarrow>
             (case jor (jget s ''direction'') (JStr ''ASC'') of
                JStr dir \<Rightarrow>
                  Inr (getTableAlias (table fi) @ ''.'' @ column fi @ '' '' @ toUpperCase dir
                       @ '' NULLS LAST'')
              | _ \<Rightarrow> Inl TypeError)))"

fun compileSortItems :: "jsval list \<Rightarrow> jserror + string list" where
  "compileSortItems [] = Inr []"
| "compileSortItems (s # rest) =
     (case compileSortItem s of
        Inl e \<Rightarrow> Inl e
      | Inr text \<Rightarrow>
          (case compileSortItems rest of Inl e \<Rightarrow> Inl e | Inr texts \<Rightarrow> Inr (text # texts)))"

definition compileSort :: "jsval \<Rightarrow> jserror + string" where
  "compileSort sortv =
     (case compileSortItems (case sortv of JArr items \<Rightarrow> items | _ \<Rightarrow> [sortv]) of
        Inl e \<Rightarrow> Inl e
      | Inr texts \<Rightarrow> Inr (joinWith '', '' texts))"

text \<open>The helper \<open>_fq\<close> of \<open>compile\<close> and the array of lines it joins.\<close>

definition fqColumn :: "string \<Rightarrow> string" where
  "fqColumn col =
     ''  COALESCE(fq.'' @ col @ '', (SELECT _f.'' @ col
     @ '' FROM fundamentals_quarterly _f WHERE _f.ticker = c.ticker AND _f.''
     @ col @ '' IS NOT NULL ORDER BY _f.id DESC LIMIT 1)) AS '' @ col @ '',''"

definition sqlLines :: "string \<Rightarrow> string \<Rightarrow> string \<Rightarrow> string \<Rightarrow> nat \<Rightarrow> string list" where
  "sqlLines joins periodJoins whereClause orderBy counter =
     [''SELECT DISTINCT'',
      ''  c.ticker,'',
      ''  c.name,'',
      ''  c.sector,'',
      ''  c.industry,'',
      ''  c.exchange,'',
      ''  c.market_cap,'',
      ''  c.promoter_holding,'',
      ''  c.next_earnings_date,'',
      ''  c.last_buyback_date,'']
     @ map fqColumn
         [''pe_ratio'', ''pb_ratio'', ''roe'', ''roa'', ''revenue'', ''net_income'', ''eps'',
          ''operating_margin'', ''ebitda_margin'', ''peg_ratio'', ''ebitda'', ''debt_to_equity'',
          ''current_ratio'', ''total_debt'', ''total_assets'', ''free_cash_flow'',
          ''operating_cash_flow'', ''revenue_growth_yoy'']
     @ [''  COALESCE(fq.ebitda_growth_yoy, (SELECT _f.ebitda_growth_yoy FROM fundamentals_quarterly _f WHERE _f.ticker = c.ticker AND _f.ebitda_growth_yoy IS NOT NULL ORDER BY _f.id DESC LIMIT 1)) AS ebitda_growth_yoy,'',
        ''  ph.close AS current_price,'',
        ''  ph.open,'',
        ''  ph.high,'',
        ''  ph.low,'',
        ''  ph.volume'',
        ''FROM companies c'',
        joins,
        periodJoins,
        ''WHERE '' @ whereClause,
        ''ORDER BY '' @ orderBy,
        ''LIMIT '' @ placeholder counter]"

record compileResult =
  resultSql :: string
  resultParams :: "jsval list"
  resultTables :: "string list"

definition initialContext :: compilerContext where
  "initialContext =
     \<lparr>params = [], paramCounter = 1, requiredTables = [''companies''], periodSubqueries = []\<rparr>"

text \<open>
  \<open>compile\<close>; \<open>.filter(Boolean)\<close> drops the empty strings among the lines.
  The result keeps the source's \<open>sql\<close>, \<open>params\<close> and \<open>requiredTables\<close>.
\<close>

definition compile :: "jsval \<Rightarrow> jserror + compileResult" where
  "compile dsl =
     (if dsl = JNull \<or> dsl = JUndefined then Inl TypeError
      else
        (case compileFilter (jget dsl ''filter'') initialContext of
           Inl e \<Rightarrow> Inl e
         | Inr (whereClause, ctx) \<Rightarrow>
             (let ctx1 = addTable ''fundamentals_quarterly'' (addTable ''price_history'' ctx);
                  joins = generateJoins (requiredTables ctx1);
                  periodJoins = joinWith ''\<newline>      '' (periodSubqueries ctx1)
              in case (if truthy (jget dsl ''sort'') then compileSort (jget dsl ''sort'')
                       else Inr ''c.market_cap DESC NULLS LAST'') of
                   Inl e \<Rightarrow> Inl e
                 | Inr orderBy \<Rightarrow>
                     Inr \<lparr>resultSql =
                            joinWith ''\<newline>''
                              (filter (\<lambda>line. line \<noteq> [])
                                 (sqlLines joins periodJoins whereClause orderBy (paramCounter ctx1))),
                          resultParams = params ctx1 @ [jor (jget dsl ''limit'') (JNum 100)],
                          resultTables = requiredTables ctx1\<rparr>)))"

section \<open>Alert processor (alertProcessor.js)\<close>

text \<open>
  The evaluator compares and converts values the way the JavaScript runtime does.
  Comparisons of numbers, \<open>null\<close>, \<open>undefined\<close> and booleans are modelled; what
  the runtime does with strings, arrays and objects (parsing a string as a number,
  comparing two strings, turning a value into a property key or a date) is taken as
  a parameter, so every result below holds whatever the runtime does there.
  \<open>toDouble\<close> is the rounding of an exact result to the nearest double, which
  every arithmetic operation of the runtime ends with.

  The same record says which statements the database refuses: \<open>selectFails\<close> for
  the SELECT of a cycle at a given time, \<open>insertFails\<close> for the INSERT of a
  notification, \<open>updateFails\<close> for the UPDATE of the subscription with a given id
  at a given time. A refused statement rejects the promise the processor awaits.
\<close>

record jsRuntime =
  numberOf :: "jsval \<Rightarrow> rat option"
  compareOther :: "string \<Rightarrow> jsval \<Rightarrow> jsval \<Rightarrow> bool"
  propertyKeyOf :: "jsval \<Rightarrow> string"
  memberOf :: "jsval \<Rightarrow> string \<Rightarrow> jsval"
  dateMillis :: "jsval \<Rightarrow> rat option"
  toDouble :: "rat \<Rightarrow> rat"
  selectFails :: "rat \<Rightarrow> bool"
  insertFails :: "nat \<Rightarrow> rat \<Rightarrow> bool"
  updateFails :: "nat \<Rightarrow> rat \<Rightarrow> bool"

text \<open>\<open>Number(v)\<close>; \<open>None\<close> from the runtime is \<open>NaN\<close>.\<close>

definition toNumber :: "jsRuntime \<Rightarrow> jsval \<Rightarrow> jsval" where
  "toNumber rt v =
     (case v of
        JUndefined \<Rightarrow> JNaN
      | JNull \<Rightarrow> JNum 0
      | JBool b \<Rightarrow> JNum (if b then 1 else 0)
      | JNum r \<Rightarrow> JNum r
      | JNaN \<Rightarrow> JNaN
      | _ \<Rightarrow> (case numberOf rt v of Some r \<Rightarrow> JNum r | None \<Rightarrow> JNaN))"

fun numericOperand :: "jsval \<Rightarrow> bool" where
  "numericOperand JUndefined = True"
| "numericOperand JNull = True"
| "numericOperand (JBool b) = True"
| "numericOperand (JNum r) = True"
| "numericOperand JNaN = True"
| "numericOperand v = False"

definition numericTest :: "string \<Rightarrow> rat \<Rightarrow> rat \<Rightarrow> bool" where
  "numericTest op x y =
     (if op = ''>'' then x > y else if op = ''>='' then x \<ge> y
      else if op = ''<'' then x < y else if op = ''<='' then x \<le> y else False)"

text \<open>The relational operators \<open>a > b\<close>, \<open>a >= b\<close>, \<open>a < b\<close>, \<open>a <= b\<close>.\<close>

definition jsRelational :: "jsRuntime \<Rightarrow> string \<Rightarrow> jsval \<Rightarrow> jsval \<Rightarrow> bool" where
  "jsRelational rt op a b =
     (if numericOperand a \<and> numericOperand b then
        (case (toNumber rt a, toNumber rt b) of
           (JNum x, JNum y) \<Rightarrow> numericTest op x y
         | _ \<Rightarrow> False)
      else compareOther rt op a b)"

text \<open>
  Strict equality \<open>a === b\<close> of a fetched value and a value of the alert's
  condition: two distinct objects are never equal.
\<close>

fun jsStrictEquals :: "jsval \<Rightarrow> jsval \<Rightarrow> bool" where
  "jsStrictEquals (JNum x) (JNum y) = (x = y)"
| "jsStrictEquals (JStr x) (JStr y) = (x = y)"
| "jsStrictEquals (JBool x) (JBool y) = (x = y)"
| "jsStrictEquals JNull JNull = True"
| "jsStrictEquals JUndefined JUndefined = True"
| "jsStrictEquals a b = False"

definition checkPriceThreshold :: "jsRuntime \<Rightarrow> jsval \<Rightarrow> jsval \<Rightarrow> bool" where
  "checkPriceThreshold rt condition currentPrice =
     (let operator = jget condition ''operator'';
          value = jget condition ''value'';
          threshold_percent = jget condition ''threshold_percent'' in
      if truthy threshold_percent \<and> \<not> truthy value then False
      else if \<not> truthy value then False
      else if operator = JStr ''>'' then jsRelational rt ''>'' currentPrice value
      else if operator = JStr ''>='' then jsRelational rt ''>='' currentPrice value
      else if operator = JStr ''<'' then jsRelational rt ''<'' currentPrice value
      else if operator = JStr ''<='' then jsRelational rt ''<='' currentPrice value
      else if operator = JStr ''='' then jsStrictEquals currentPrice value
      else False)"

definition msPerDay :: rat where
  "msPerDay = 1000 * 60 * 60 * 24"

text \<open>
  \<open>checkEarningsUpcoming\<close> and \<open>checkBuybackAnnounced\<close>; \<open>today\<close> is the
  clock read by \<open>new Date()\<close>, in milliseconds. An invalid date makes the
  difference \<open>NaN\<close>, and both comparisons false. The subtraction and the
  division are operations on doubles, each rounded; \<open>Math.ceil\<close> and
  \<open>Math.floor\<close> are exact.
\<close>

definition checkEarningsUpcoming :: "jsRuntime \<Rightarrow> rat \<Rightarrow> jsval \<Rightarrow> jsval \<Rightarrow> bool" where
  "checkEarningsUpcoming rt today condition nextEarningsDate =
     (if \<not> truthy (jget condition ''days_before'') then False
      else
        (case dateMillis rt nextEarningsDate of
           None \<Rightarrow> False
         | Some targetDate \<Rightarrow>
             (let diffTime = toDouble rt (targetDate - today);
                  diffDays = of_int (ceiling (toDouble rt (diffTime / msPerDay))) in
              diffDays \<ge> (0::rat) \<and> jsRelational rt ''<='' (JNum diffDays) (jget condition ''days_before''))))"

definition checkBuybackAnnounced :: "jsRuntime \<Rightarrow> rat \<Rightarrow> jsval \<Rightarrow> jsval \<Rightarrow> bool" where
  "checkBuybackAnnounced rt today condition lastBuybackDate =
     (if \<not> truthy (jget condition ''days_lookback'') then False
      else
        (case dateMillis rt lastBuybackDate of
           None \<Rightarrow> False
         | Some eventDate \<Rightarrow>
             (let diffTime = toDouble rt (today - eventDate);
                  diffDays = of_int (floor (toDouble rt (diffTime / msPerDay))) in
              diffDays \<ge> (0::rat) \<and> jsRelational rt ''<='' (JNum diffDays) (jget condition ''days_lookback''))))"

text \<open>\<open>fundamentals[fundamental_metric]\<close>, a read with a computed key.\<close>

definition computedMember :: "jsRuntime \<Rightarrow> jsval \<Rightarrow> jsval \<Rightarrow> jsval" where
  "computedMember rt obj key =
     (let k = (case key of JStr s \<Rightarrow> s | _ \<Rightarrow> propertyKeyOf rt key) in
      case obj of
        JObj kvs \<Rightarrow>
          (case map_of kvs k of
             Some v \<Rightarrow> v
           | None \<Rightarrow> if k \<in> set objectPrototypeNames then JFun else JUndefined)
      | _ \<Rightarrow> memberOf rt obj k)"

definition checkFundamentalCondition :: "jsRuntime \<Rightarrow> jsval \<Rightarrow> jsval \<Rightarrow> bool" where
  "checkFundamentalCondition rt condition fundamentals =
     (let fundamental_metric = jget condition ''fundamental_metric'';
          fundamental_operator = jget condition ''fundamental_operator'';
          fundamental_value = jget condition ''fundamental_value'' in
      if \<not> truthy fundamental_metric \<or> \<not> truthy fundamental_value \<or> \<not> truthy fundamentals
      then False
      else
        (case toNumber rt (computedMember rt fundamentals fundamental_metric) of
           JNum actualValue \<Rightarrow>
             (case toNumber rt fundamental_value of
                JNum targetValue \<Rightarrow>
                  if fundamental_operator = JStr ''above'' then actualValue > targetValue
                  else if fundamental_operator = JStr ''below'' then actualValue < targetValue
                  else if fundamental_operator = JStr ''equals'' then actualValue = targetValue
                  else False
              | _ \<Rightarrow> False)
         | _ \<Rightarrow> False))"

text \<open>
  A row of \<open>alert_subscriptions\<close> and a row of \<open>notifications\<close>. Timestamps are
  milliseconds; the \<open>ticker\<close> column is a text or NULL. Texts built by string
  interpolation are kept as their parts.
\<close>

record alertRow =
  alert_id :: nat
  user_id :: jsval
  ticker :: "string option"
  alert_name :: jsval
  alert_type :: jsval
  condition_json :: jsval
  is_active :: bool
  last_triggered :: "rat option"
  trigger_count :: nat
  last_evaluated :: "rat option"

datatype triggerMessage =
    NoMessage
  | PriceReached jsval
  | EarningsComingUpOn jsval
  | BuybackAnnouncedOn jsval
  | FundamentalIs string jsval jsval jsval

record notification =
  n_user_id :: jsval
  n_alert_id :: nat
  n_ticker :: "string option"
  notification_type :: string
  title :: jsval
  message :: triggerMessage
  data_json :: jsval
  triggered_at :: rat

record database =
  alert_subscriptions :: "alertRow list"
  notifications :: "notification list"

text \<open>
  \<open>triggerAlert\<close>: the INSERT of \<open>createNotification\<close> is awaited, then the
  UPDATE of the row with this id is awaited; \<open>now\<close> is the database's \<open>NOW()\<close>.
  Either statement can be refused, and \<open>triggerAlert\<close> then throws: a refused
  INSERT leaves the database as it was, a refused UPDATE leaves the notification in
  the log and the subscription as it was. The result says whether it threw, and gives
  the database as it is left.
\<close>

definition markTriggered :: "rat \<Rightarrow> alertRow \<Rightarrow> alertRow" where
  "markTriggered now row =
     row\<lparr>last_triggered := Some now, trigger_count := trigger_count row + 1,
         last_evaluated := Some now\<rparr>"

definition updateTriggered :: "rat \<Rightarrow> nat \<Rightarrow> alertRow list \<Rightarrow> alertRow list" where
  "updateTriggered now aid rows =
     map (\<lambda>row. if alert_id row = aid then markTriggered now row else row) rows"

definition createNotification :: "rat \<Rightarrow> alertRow \<Rightarrow> triggerMessage \<Rightarrow> jsval \<Rightarrow> notification" where
  "createNotification now alert triggerMessage quote =
     \<lparr>n_user_id = user_id alert, n_alert_id = alert_id alert, n_ticker = ticker alert,
      notification_type = ''alert_triggered'', title = alert_name alert,
      message = triggerMessage,
      data_json = JObj [(''price'', jget quote ''price''), (''change'', jget quote ''changePercent'')],
      triggered_at = now\<rparr>"

definition triggerAlert ::
  "jsRuntime \<Rightarrow> rat \<Rightarrow> alertRow \<Rightarrow> triggerMessage \<Rightarrow> jsval \<Rightarrow> database \<Rightarrow> bool \<times> database" where
  "triggerAlert rt now alert triggerMessage quote db =
     (if insertFails rt (alert_id alert) now then (True, db)
      else
        (let inserted = db\<lparr>notifications := notifications db @
                                 [createNotification now alert triggerMessage quote]\<rparr>
         in if updateFails rt (alert_id alert) now then (True, inserted)
            else (False,
                  inserted\<lparr>alert_subscriptions :=
                              updateTriggered now (alert_id alert) (alert_subscriptions inserted)\<rparr>)))"

text \<open>
  The \<open>switch\<close> of \<open>evaluateAlert\<close>: whether the alert triggered and with which
  message. \<open>metricName.toUpperCase()\<close> raises when the metric is not a string; the
  surrounding \<open>catch\<close> logs it and nothing is triggered. The same \<open>catch\<close> logs
  what \<open>triggerAlert\<close> throws, so \<open>evaluateAlert\<close> never throws.
\<close>

definition alertDecision ::
  "jsRuntime \<Rightarrow> rat \<Rightarrow> alertRow \<Rightarrow> jsval \<Rightarrow> jsval \<Rightarrow> jsval \<Rightarrow> jserror + bool \<times> triggerMessage" where
  "alertDecision rt now alert quote metadata fundamentals =
     (let condition = jor (condition_json alert) (JObj []); ty = alert_type alert in
      if ty = JStr ''price_threshold'' \<or> ty = JStr ''price_below_buy_price'' then
        (if truthy quote
         then Inr (checkPriceThreshold rt condition (jget quote ''price''), PriceReached (jget quote ''price''))
         else Inr (False, NoMessage))
      else if ty = JStr ''price_vs_analyst'' then Inr (False, NoMessage)
      else if ty = JStr ''earnings_upcoming'' then
        (if truthy metadata \<and> truthy (jget metadata ''next_earnings_date'')
         then Inr (checkEarningsUpcoming rt now condition (jget metadata ''next_earnings_date''),
                   EarningsComingUpOn (jget metadata ''next_earnings_date''))
         else Inr (False, NoMessage))
      else if ty = JStr ''buyback_announced'' then
        (if truthy metadata \<and> truthy (jget metadata ''last_buyback_date'')
         then Inr (checkBuybackAnnounced rt now condition (jget metadata ''last_buyback_date''),
                   BuybackAnnouncedOn (jget metadata ''last_buyback_date''))
         else Inr (False, NoMessage))
      else if ty = JStr ''fundamental_condition'' then
        (if truthy fundamentals then
           (case jor (jget condition ''fundamental_metric'') (JStr ''Metric'') of
              JStr metricName \<Rightarrow>
                Inr (checkFundamentalCondition rt condition fundamentals,
                     FundamentalIs (toUpperCase metricName)
                       (computedMember rt fundamentals (jget condition ''fundamental_metric''))
                       (jget condition ''fundamental_operator'') (jget condition ''fundamental_value''))
            | _ \<Rightarrow> Inl TypeError)
         else Inr (False, NoMessage))
      else Inr (False, NoMessage))"

definition evaluateAlert ::
  "jsRuntime \<Rightarrow> rat \<Rightarrow> alertRow \<Rightarrow> jsval \<Rightarrow> jsval \<Rightarrow> jsval \<Rightarrow> database \<Rightarrow> database" where
  "evaluateAlert rt now alert quote metadata fundamentals db =
     (case alertDecision rt now alert quote metadata fundamentals of
        Inl e \<Rightarrow> db
      | Inr (triggered, msg) \<Rightarrow>
          if triggered then
            (let dataJson = (if truthy quote
                             then JObj [(''price'', jget quote ''price''), (''change'', jget quote ''changePercent'')]
                             else JObj []);
                 dataJson' = (if truthy fundamentals then jset dataJson ''fundamentals'' fundamentals
                              else dataJson)
             in snd (triggerAlert rt now alert msg dataJson' db))
          else db)"

text \<open>
  The working set of a cycle: the rows the SELECT of \<open>processAlerts\<close> returns at
  time \<open>now\<close>, with \<open>INTERVAL '1 day'\<close> as \<open>msPerDay\<close>.
\<close>

definition workingSet :: "rat \<Rightarrow> database \<Rightarrow> alertRow list" where
  "workingSet now db =
     filter (\<lambda>a. is_active a \<and>
                 (case last_triggered a of None \<Rightarrow> True | Some t \<Rightarrow> t < now - msPerDay))
       (alert_subscriptions db)"

text \<open>
  The \<open>reduce\<close> that groups the alerts by ticker (an alert whose ticker is NULL or
  empty is dropped), with the groups in the order \<open>Object.entries\<close> lists them.
  The accumulator is a plain object: for a ticker that names a member of
  \<open>Object.prototype\<close> the test \<open>!acc[alert.ticker]\<close> finds the inherited member,
  no array is created, and \<open>push\<close> raises a TypeError.
\<close>

definition hasTicker :: "alertRow \<Rightarrow> bool" where
  "hasTicker a = (case ticker a of Some s \<Rightarrow> s \<noteq> [] | None \<Rightarrow> False)"

definition tickerOf :: "alertRow \<Rightarrow> string" where
  "tickerOf a = (case ticker a of Some s \<Rightarrow> s | None \<Rightarrow> [])"

definition alertsByTicker :: "alertRow list \<Rightarrow> jserror + (string \<times> alertRow list) list" where
  "alertsByTicker alerts =
     (let withTicker = filter hasTicker alerts in
      if list_ex (\<lambda>a. tickerOf a \<in> set objectPrototypeNames) withTicker then Inl TypeError
      else
        Inr (map (\<lambda>t. (t, filter (\<lambda>a. tickerOf a = t) withTicker))
               (ownKeyOrder (rev (remdups (rev (map tickerOf withTicker)))))))"

text \<open>
  The loop of \<open>processAlerts\<close> over one ticker. \<open>fetch\<close> gives, for a ticker, the
  quote, the metadata and the fundamentals, each \<open>null\<close> when its request failed;
  \<open>now\<close> is the time at which the alerts of the cycle are evaluated.
\<close>

definition processTicker ::
  "jsRuntime \<Rightarrow> rat \<Rightarrow> (string \<Rightarrow> jsval \<times> jsval \<times> jsval) \<Rightarrow> database \<Rightarrow> string \<times> alertRow list \<Rightarrow> database" where
  "processTicker rt now fetch db entry =
     (case fetch (fst entry) of
        (quote, metadata, fundamentals) \<Rightarrow>
          if \<not> truthy quote \<and> \<not> truthy metadata \<and> \<not> truthy fundamentals then db
          else foldl (\<lambda>d alert. evaluateAlert rt now alert quote metadata fundamentals d) db (snd entry))"

text \<open>
  \<open>processAlerts\<close> is an \<open>async\<close> function. It awaits its SELECT, and what it
  does next (steps 2 and 3 of the source, \<open>processSelected\<close> here) works on the rows
  that SELECT returned, whatever has become of them in the database since. An error
  of the grouping is caught by the outer \<open>catch\<close>, and the cycle ends.
\<close>

definition processSelected ::
  "jsRuntime \<Rightarrow> (string \<Rightarrow> jsval \<times> jsval \<times> jsval) \<Rightarrow> rat \<Rightarrow> alertRow list \<Rightarrow> database \<Rightarrow> database" where
  "processSelected rt fetch now alerts db =
     (case alertsByTicker alerts of
        Inl e \<Rightarrow> db
      | Inr groups \<Rightarrow> foldl (processTicker rt now fetch) db groups)"

text \<open>
  \<open>start\<close> calls \<open>processAlerts()\<close> once and then from \<open>setInterval\<close>, every
  \<open>checkInterval\<close> = 60000 ms. Neither call is awaited, and nothing records that a
  cycle is under way (\<open>isRunning\<close> guards \<open>start\<close> only): a cycle that is still
  waiting for its data when the timer fires again runs alongside the next one.

  The processor is therefore a database and the cycles in flight, each with the rows
  its SELECT returned. \<open>Tick now\<close> is a call of \<open>processAlerts\<close> whose SELECT is
  answered at time \<open>now\<close>; a refused SELECT is caught and ends the cycle, and
  so does a SELECT that returns no row.
  \<open>Resume i now\<close> is the \<open>i\<close>-th cycle in flight receiving its data and
  evaluating its alerts at time \<open>now\<close>. Between a \<open>Tick\<close> and its \<open>Resume\<close>
  the cycle is suspended at an \<open>await\<close>. The source has more points of suspension
  (one per ticker and one per statement), so every run below is a run of the source,
  and the source has further runs.
\<close>

datatype action = Tick rat | Resume nat rat

definition checkInterval :: rat where
  "checkInterval = 60000"

fun step ::
  "jsRuntime \<Rightarrow> (string \<Rightarrow> jsval \<times> jsval \<times> jsval) \<Rightarrow> database \<times> alertRow list list \<Rightarrow> action \<Rightarrow>
     database \<times> alertRow list list" where
  "step rt fetch (db, inFlight) (Tick now) =
     (if selectFails rt now then (db, inFlight)
      else
        (let alerts = workingSet now db in
         if alerts = [] then (db, inFlight) else (db, inFlight @ [alerts])))"
| "step rt fetch (db, inFlight) (Resume i now) =
     (if i < length inFlight
      then (processSelected rt fetch now (inFlight ! i) db, take i inFlight @ drop (Suc i) inFlight)
      else (db, inFlight))"

definition start ::
  "jsRuntime \<Rightarrow> (string \<Rightarrow> jsval \<times> jsval \<times> jsval) \<Rightarrow> action list \<Rightarrow> database \<Rightarrow> database \<times> alertRow list list" where
  "start rt fetch actions db = foldl (step rt fetch) (db, []) actions"
section \<open>Regular expressions\<close>

text \<open>
  The translator works with JavaScript regular expressions. They are modelled by a
  backtracking matcher with the priorities of the language: alternatives left to
  right, greedy repetition longest first, lazy repetition shortest first, and no
  empty iteration of a repetition. Texts are ASCII.
\<close>

datatype regex =
    Chr char
  | CharSet "char \<Rightarrow> bool"
  | Eps
  | Seq regex regex
  | Alt regex regex
  | Star bool regex
  | Group nat regex
  | WordBoundary
  | LineStart
  | LineEnd

text \<open>\<open>Star True\<close> is greedy (\<open>r*\<close>), \<open>Star False\<close> is lazy (\<open>r*?\<close>).\<close>

definition isDigit :: "char \<Rightarrow> bool" where
  "isDigit c \<longleftrightarrow> (48::nat) \<le> of_char c \<and> of_char c \<le> (57::nat)"

definition isSpace :: "char \<Rightarrow> bool" where
  "isSpace c \<longleftrightarrow> of_char c = (32::nat) \<or> ((9::nat) \<le> of_char c \<and> of_char c \<le> (13::nat))"

definition isWordChar :: "char \<Rightarrow> bool" where
  "isWordChar c \<longleftrightarrow>
     isDigit c \<or> ((65::nat) \<le> of_char c \<and> of_char c \<le> (90::nat))
     \<or> ((97::nat) \<le> of_char c \<and> of_char c \<le> (122::nat)) \<or> c = CHR ''_''"

definition isDot :: "char \<Rightarrow> bool" where
  "isDot c \<longleftrightarrow> of_char c \<noteq> (10::nat) \<and> of_char c \<noteq> (13::nat)"

text \<open>
  A state of the matcher: the text before the position (reversed), the text from the
  position on, and the captures so far (latest first).
\<close>

type_synonym mstate = "string \<times> string \<times> (nat \<times> string) list"

definition capture :: "nat \<Rightarrow> mstate \<Rightarrow> mstate \<Rightarrow> mstate" where
  "capture n st0 st1 =
     (case (st0, st1) of
        ((pre, rest, caps), (pre', rest', caps')) \<Rightarrow>
          (pre', rest', (n, take (length rest - length rest') rest) # caps'))"

definition atWordBoundary :: "mstate \<Rightarrow> bool" where
  "atWordBoundary st =
     (case st of
        (pre, rest, caps) \<Rightarrow>
          (case pre of [] \<Rightarrow> False | a # as \<Rightarrow> isWordChar a)
          \<noteq> (case rest of [] \<Rightarrow> False | b # bs \<Rightarrow> isWordChar b))"

fun starK ::
  "bool \<Rightarrow> ((mstate \<Rightarrow> 'r option) \<Rightarrow> mstate \<Rightarrow> 'r option) \<Rightarrow> nat \<Rightarrow> (mstate \<Rightarrow> 'r option)
     \<Rightarrow> mstate \<Rightarrow> 'r option" where
  "starK greedy body 0 k st = k st"
| "starK greedy body (Suc n) k st =
     (if greedy then
        (case body (\<lambda>st'. if length (fst (snd st')) < length (fst (snd st))
                           then starK greedy body n k st' else None) st of
           Some r \<Rightarrow> Some r
         | None \<Rightarrow> k st)
      else
        (case k st of
           Some r \<Rightarrow> Some r
         | None \<Rightarrow> body (\<lambda>st'. if length (fst (snd st')) < length (fst (snd st))
                                then starK greedy body n k st' else None) st))"

text \<open>
  \<open>matchK r ci k st\<close>: match \<open>r\<close> at the position of \<open>st\<close>, then go on
  with \<open>k\<close>; \<open>ci\<close> is the flag \<open>i\<close>. An iteration of a repetition consumes
  at least one character, so the length of the remaining text bounds their number.
\<close>

primrec matchK :: "regex \<Rightarrow> bool \<Rightarrow> (mstate \<Rightarrow> 'r option) \<Rightarrow> mstate \<Rightarrow> 'r option" where
  "matchK (Chr c) ci k st =
     (case st of
        (pre, rest, caps) \<Rightarrow>
          (case rest of
             [] \<Rightarrow> None
           | x # xs \<Rightarrow>
               if (if ci then lowerChar x = lowerChar c else x = c) then k (x # pre, xs, caps)
               else None))"
| "matchK (CharSet p) ci k st =
     (case st of
        (pre, rest, caps) \<Rightarrow>
          (case rest of
             [] \<Rightarrow> None
           | x # xs \<Rightarrow> if p x then k (x # pre, xs, caps) else None))"
| "matchK Eps ci k st = k st"
| "matchK (Seq a b) ci k st = matchK a ci (matchK b ci k) st"
| "matchK (Alt a b) ci k st =
     (case matchK a ci k st of Some r \<Rightarrow> Some r | None \<Rightarrow> matchK b ci k st)"
| "matchK (Star greedy a) ci k st =
     starK greedy (matchK a ci) (length (fst (snd st))) k st"
| "matchK (Group n a) ci k st = matchK a ci (\<lambda>st'. k (capture n st st')) st"
| "matchK WordBoundary ci k st = (if atWordBoundary st then k st else None)"
| "matchK LineStart ci k st = (if fst st = [] then k st else None)"
| "matchK LineEnd ci k st = (if fst (snd st) = [] then k st else None)"

definition matchAt :: "regex \<Rightarrow> bool \<Rightarrow> string \<Rightarrow> string \<Rightarrow> mstate option" where
  "matchAt r ci pre rest = matchK r ci Some (pre, rest, [])"

text \<open>
  \<open>regex.exec(text)\<close> without the flag \<open>g\<close>: the first position, from the left,
  where the expression matches. The result gives the text before the match (reversed)
  and the state after it.
\<close>

fun searchFrom :: "regex \<Rightarrow> bool \<Rightarrow> string \<Rightarrow> string \<Rightarrow> (string \<times> string \<times> mstate) option" where
  "searchFrom r ci pre [] =
     (case matchAt r ci pre [] of Some st \<Rightarrow> Some (pre, [], st) | None \<Rightarrow> None)"
| "searchFrom r ci pre (x # xs) =
     (case matchAt r ci pre (x # xs) of
        Some st \<Rightarrow> Some (pre, x # xs, st)
      | None \<Rightarrow> searchFrom r ci (x # pre) xs)"

definition regexTest :: "regex \<Rightarrow> bool \<Rightarrow> string \<Rightarrow> bool" where
  "regexTest r ci text = (searchFrom r ci [] text \<noteq> None)"

text \<open>
  \<open>text.match(regex)\<close> without \<open>g\<close>: the matched text and the captures;
  \<open>groupOf\<close> reads \<open>match[n]\<close>, \<open>None\<close> being \<open>undefined\<close>.
\<close>

definition regexMatch :: "regex \<Rightarrow> bool \<Rightarrow> string \<Rightarrow> (string \<times> (nat \<times> string) list) option" where
  "regexMatch r ci text =
     (case searchFrom r ci [] text of
        None \<Rightarrow> None
      | Some (pre, rest, (pre', rest', caps)) \<Rightarrow>
          Some (take (length rest - length rest') rest, caps))"

definition groupOf :: "(string \<times> (nat \<times> string) list) \<Rightarrow> nat \<Rightarrow> string option" where
  "groupOf m n = map_of (snd m) n"

text \<open>A replacement text: literal parts and references \<open>$n\<close> to captures.\<close>

datatype rpart = Lit string | Ref nat

definition expand :: "rpart list \<Rightarrow> (nat \<times> string) list \<Rightarrow> string" where
  "expand parts caps =
     concat (map (\<lambda>p. case p of Lit s \<Rightarrow> s
                             | Ref n \<Rightarrow> (case map_of caps n of Some s \<Rightarrow> s | None \<Rightarrow> [])) parts)"

text \<open>\<open>text.replace(regex, replacement)\<close> without \<open>g\<close>: the first match only.\<close>

definition replaceFirst :: "regex \<Rightarrow> bool \<Rightarrow> rpart list \<Rightarrow> string \<Rightarrow> string" where
  "replaceFirst r ci parts text =
     (case searchFrom r ci [] text of
        None \<Rightarrow> text
      | Some (pre, rest, (pre', rest', caps)) \<Rightarrow> rev pre @ expand parts caps @ rest')"

text \<open>
  \<open>text.replace(regex, replacement)\<close> with \<open>g\<close>: every match from left to right,
  the search going on where the last match ended, one character further after an empty
  match. \<open>skip\<close> counts the characters still inside the last match.
\<close>

fun replaceAllFrom :: "regex \<Rightarrow> bool \<Rightarrow> rpart list \<Rightarrow> string \<Rightarrow> string \<Rightarrow> nat \<Rightarrow> string" where
  "replaceAllFrom r ci parts pre [] skip =
     (if skip > 0 then []
      else (case matchAt r ci pre [] of
              Some (pre', rest', caps) \<Rightarrow> expand parts caps
            | None \<Rightarrow> []))"
| "replaceAllFrom r ci parts pre (x # xs) skip =
     (if skip > 0 then replaceAllFrom r ci parts (x # pre) xs (skip - 1)
      else
        (case matchAt r ci pre (x # xs) of
           None \<Rightarrow> x # replaceAllFrom r ci parts (x # pre) xs 0
         | Some (pre', rest', caps) \<Rightarrow>
             (let consumed = Suc (length xs) - length rest' in
              if consumed = 0 then expand parts caps @ x # replaceAllFrom r ci parts (x # pre) xs 0
              else expand parts caps @ replaceAllFrom r ci parts (x # pre) xs (consumed - 1))))"

definition replaceAll :: "regex \<Rightarrow> bool \<Rightarrow> rpart list \<Rightarrow> string \<Rightarrow> string" where
  "replaceAll r ci parts text = replaceAllFrom r ci parts [] text 0"

text \<open>
  \<open>text.split(regex)\<close> for an expression without capture groups. \<open>piece\<close> is
  the current piece, reversed; an empty match at the start of a piece is passed over.
\<close>

fun splitFrom :: "regex \<Rightarrow> bool \<Rightarrow> string \<Rightarrow> string \<Rightarrow> nat \<Rightarrow> string \<Rightarrow> string list" where
  "splitFrom r ci pre [] skip piece = [rev piece]"
| "splitFrom r ci pre (x # xs) skip piece =
     (if skip > 0 then splitFrom r ci (x # pre) xs (skip - 1) piece
      else
        (case matchAt r ci pre (x # xs) of
           None \<Rightarrow> splitFrom r ci (x # pre) xs 0 (x # piece)
         | Some (pre', rest', caps) \<Rightarrow>
             (let consumed = Suc (length xs) - length rest' in
              if consumed = 0 then
                (if piece = [] then splitFrom r ci (x # pre) xs 0 (x # piece)
                 else rev piece # splitFrom r ci (x # pre) xs 0 [x])
              else rev piece # splitFrom r ci (x # pre) xs (consumed - 1) [])))"

definition regexSplit :: "regex \<Rightarrow> bool \<Rightarrow> string \<Rightarrow> string list" where
  "regexSplit r ci text =
     (if text = [] then (if matchAt r ci [] [] = None then [[]] else [])
      else splitFrom r ci [] text 0 [])"

text \<open>Building blocks for writing the expressions of the source.\<close>

definition str :: "string \<Rightarrow> regex" where
  "str s = foldr (\<lambda>c r. Seq (Chr c) r) s Eps"

definition cat :: "regex list \<Rightarrow> regex" where
  "cat rs = foldr Seq rs Eps"

fun alts :: "regex list \<Rightarrow> regex" where
  "alts [] = Eps"
| "alts [r] = r"
| "alts (r # rs) = Alt r (alts rs)"

definition opt :: "regex \<Rightarrow> regex" where
  "opt r = Alt r Eps"

definition plus :: "regex \<Rightarrow> regex" where
  "plus r = Seq r (Star True r)"

definition lazyPlus :: "regex \<Rightarrow> regex" where
  "lazyPlus r = Seq r (Star False r)"

definition spaces :: regex where
  "spaces = Star True (CharSet isSpace)"

definition spaces1 :: regex where
  "spaces1 = plus (CharSet isSpace)"

definition digits1 :: regex where
  "digits1 = plus (CharSet isDigit)"

text \<open>\<open>String.prototype.trim\<close> and \<open>includes\<close>.\<close>

definition trim :: "string \<Rightarrow> string" where
  "trim s = rev (dropWhile isSpace (rev (dropWhile isSpace s)))"

fun hasPrefix :: "string \<Rightarrow> string \<Rightarrow> bool" where
  "hasPrefix [] s = True"
| "hasPrefix (p # ps) [] = False"
| "hasPrefix (p # ps) (c # cs) = (p = c \<and> hasPrefix ps cs)"

fun strIncludes :: "string \<Rightarrow> string \<Rightarrow> bool" where
  "strIncludes [] sub = (sub = [])"
| "strIncludes (c # cs) sub = (hasPrefix sub (c # cs) \<or> strIncludes cs sub)"

section \<open>Natural-language translator (marketController.js)\<close>

definition METRIC_MAP :: "(string \<times> string) list" where
  "METRIC_MAP =
    [(''pe'', ''pe_ratio''), (''pe ratio'', ''pe_ratio''), (''p/e'', ''pe_ratio''),
     (''p/e ratio'', ''pe_ratio''), (''price to earnings'', ''pe_ratio''),
     (''pb'', ''pb_ratio''), (''pb ratio'', ''pb_ratio''), (''p/b'', ''pb_ratio''),
     (''p/b ratio'', ''pb_ratio''), (''price to book'', ''pb_ratio''),
     (''peg'', ''peg_ratio''), (''peg ratio'', ''peg_ratio''),
     (''eps'', ''eps''), (''earnings per share'', ''eps''),
     (''roe'', ''roe''), (''return on equity'', ''roe''),
     (''roa'', ''roa''), (''return on assets'', ''roa''),
     (''operating margin'', ''operating_margin''), (''ebitda margin'', ''ebitda_margin''),
     (''ebitda'', ''ebitda''),
     (''revenue'', ''revenue''), (''sales'', ''revenue''),
     (''net income'', ''net_income''), (''net profit'', ''net_income''),
     (''profit'', ''net_income''), (''earnings'', ''net_income''),
     (''revenue growth'', ''revenue_growth_yoy''), (''revenue growth yoy'', ''revenue_growth_yoy''),
     (''sales growth'', ''revenue_growth_yoy''),
     (''ebitda growth'', ''ebitda_growth_yoy''), (''ebitda growth yoy'', ''ebitda_growth_yoy''),
     (''debt to equity'', ''debt_to_equity''), (''debt equity'', ''debt_to_equity''),
     (''debt-to-equity'', ''debt_to_equity''), (''d/e'', ''debt_to_equity''),
     (''d/e ratio'', ''debt_to_equity''),
     (''current ratio'', ''current_ratio''), (''total debt'', ''total_debt''),
     (''total assets'', ''total_assets''),
     (''free cash flow'', ''free_cash_flow''), (''fcf'', ''free_cash_flow''),
     (''operating cash flow'', ''operating_cash_flow''), (''ocf'', ''operating_cash_flow''),
     (''debt to free cash flow'', ''debt_to_fcf''), (''debt to fcf'', ''debt_to_fcf''),
     (''debt to free cash flow ratio'', ''debt_to_fcf''), (''debt/fcf'', ''debt_to_fcf''),
     (''market cap'', ''market_cap''), (''market capitalisation'', ''market_cap''),
     (''market capitalization'', ''market_cap''), (''mcap'', ''market_cap''),
     (''promoter holding'', ''promoter_holding''), (''promoter holdings'', ''promoter_holding''),
     (''current price'', ''close''), (''price'', ''close''), (''stock price'', ''close''),
     (''short term debt'', ''short_term_debt''), (''long term debt'', ''long_term_debt''),
     (''capex'', ''capex''), (''cfo'', ''cfo''), (''cfi'', ''cfi''), (''cff'', ''cff''),
     (''eps estimate'', ''eps_estimate''), (''revenue estimate'', ''revenue_estimate''),
     (''price target'', ''price_target_avg''), (''target price'', ''price_target_avg''),
     (''analyst target price'', ''price_target_avg''), (''analyst target'', ''price_target_avg''),
     (''price target low'', ''price_target_low''), (''price target high'', ''price_target_high'')]"

definition GROWTH_FIELD_MAP :: "(string \<times> string) list" where
  "GROWTH_FIELD_MAP =
    [(''revenue'', ''revenue_growth_yoy''), (''sales'', ''revenue_growth_yoy''),
     (''revenue_growth_yoy'', ''revenue_growth_yoy''),
     (''ebitda'', ''ebitda_growth_yoy''), (''ebitda_growth_yoy'', ''ebitda_growth_yoy'')]"

definition SECTOR_ALIASES :: "(string \<times> string) list" where
  "SECTOR_ALIASES =
    [(''it'', ''Technology''), (''information technology'', ''Technology''),
     (''tech'', ''Technology''), (''technology'', ''Technology''),
     (''banking'', ''Financial Services''), (''finance'', ''Financial Services''),
     (''financial'', ''Financial Services''), (''financial services'', ''Financial Services''),
     (''pharma'', ''Healthcare''), (''pharmaceutical'', ''Healthcare''),
     (''healthcare'', ''Healthcare''),
     (''energy'', ''Energy''), (''oil'', ''Energy''), (''oil and gas'', ''Energy''),
     (''consumer'', ''Consumer Cyclical''), (''consumer cyclical'', ''Consumer Cyclical''),
     (''consumer defensive'', ''Consumer Defensive''), (''fmcg'', ''Consumer Defensive''),
     (''basic materials'', ''Basic Materials''), (''materials'', ''Basic Materials''),
     (''industrials'', ''Industrials''), (''industrial'', ''Industrials''),
     (''real estate'', ''Real Estate''), (''realty'', ''Real Estate''),
     (''utilities'', ''Utilities''),
     (''communication'', ''Communication Services''),
     (''communication services'', ''Communication Services''),
     (''telecom'', ''Communication Services'')]"

definition EXCHANGE_ALIASES :: "(string \<times> string) list" where
  "EXCHANGE_ALIASES = [(''nse'', ''NSI''), (''bse'', ''BSE''), (''nyse'', ''NYQ''), (''nasdaq'', ''NMS'')]"

text \<open>A keyword of \<open>INDUSTRY_KEYWORDS\<close> maps to one industry or to an array of them.\<close>

definition INDUSTRY_KEYWORDS :: "(string \<times> string list) list" where
  "INDUSTRY_KEYWORDS =
    [(''semiconductor'', [''Semiconductor Equipment & Materials'']),
     (''software'', [''Software - Application'', ''Software - Infrastructure'']),
     (''banking'', [''Banks - Regional'']),
     (''insurance'', [''Insurance - Life'', ''Insurance - Diversified'',
                      ''Insurance - Property & Casualty'']),
     (''auto'', [''Auto Manufacturers'', ''Auto Parts'']),
     (''steel'', [''Steel'']),
     (''cement'', [''Building Materials'']),
     (''telecom'', [''Telecom Services''])]"

definition UNIT_MULTIPLIERS :: "(string \<times> rat) list" where
  "UNIT_MULTIPLIERS =
    [(''crore'', 10000000), (''crores'', 10000000), (''cr'', 10000000),
     (''lakh'', 100000), (''lakhs'', 100000), (''l'', 100000),
     (''billion'', 1000000000), (''b'', 1000000000),
     (''million'', 1000000), (''m'', 1000000),
     (''thousand'', 1000), (''k'', 1000),
     (''trillion'', 1000000000000), (''t'', 1000000000000)]"

definition condition3 :: "jsval \<Rightarrow> string \<Rightarrow> jsval \<Rightarrow> jsval" where
  "condition3 field operator value =
     JObj [(''field'', field), (''operator'', JStr operator), (''value'', value)]"

text \<open>Plural endings: \<open>stocks?\<close>, \<open>companies?\<close>, \<open>shares?\<close> and the like.\<close>

definition plural :: "string \<Rightarrow> regex" where
  "plural s = Seq (str s) (opt (Chr CHR ''s''))"

definition stocksCompaniesShares :: "regex list" where
  "stocksCompaniesShares = [plural ''stock'', plural ''companie'', plural ''share'']"

text \<open>
  \<open>extractSector\<close>. The alias is escaped before it enters the pattern, so it
  stands for itself:
  \<open>\<bullet>b alias \<bullet>b \<bullet>s* (?:sector|stocks?|companies?|shares?)?\<close> with flag \<open>i\<close>.
\<close>

definition sectorPattern :: "string \<Rightarrow> regex" where
  "sectorPattern alias =
     cat [WordBoundary, str alias, WordBoundary, spaces,
          opt (alts (str ''sector'' # stocksCompaniesShares))]"

definition extractSector :: "string \<Rightarrow> jsval" where
  "extractSector query =
     (case List.find (\<lambda>(alias, sector). regexTest (sectorPattern alias) True query) SECTOR_ALIASES of
        Some (alias, sector) \<Rightarrow> condition3 (JStr ''sector'') ''='' (JStr sector)
      | None \<Rightarrow> JNull)"

definition exchangePattern :: "string \<Rightarrow> regex" where
  "exchangePattern alias =
     cat [WordBoundary, str alias, WordBoundary, spaces,
          opt (alts [str ''listed'', plural ''stock'', plural ''companie'', str ''exchange''])]"

definition extractExchange :: "string \<Rightarrow> jsval" where
  "extractExchange query =
     (case List.find (\<lambda>(alias, exchange). regexTest (exchangePattern alias) True query) EXCHANGE_ALIASES of
        Some (alias, exchange) \<Rightarrow> condition3 (JStr ''exchange'') ''='' (JStr exchange)
      | None \<Rightarrow> JNull)"

text \<open>\<open>extractIndustry\<close> returns the list of conditions to push (none for \<open>null\<close>).\<close>

definition extractIndustry :: "string \<Rightarrow> jsval list" where
  "extractIndustry query =
     (let matchedIndustries =
            concat (map snd (filter (\<lambda>(keyword, industries). strIncludes query keyword) INDUSTRY_KEYWORDS))
      in if length matchedIndustries = 1 then
           [condition3 (JStr ''industry'') ''='' (JStr (hd matchedIndustries))]
         else if length matchedIndustries > 1 then
           [condition3 (JStr ''industry'') ''in'' (JArr (map JStr matchedIndustries))]
         else [])"

text \<open>
  \<open>extractCrossFieldComparison\<close>:
  \<open>(?:current\<bullet>s+)?price\<bullet>s+(?:is\<bullet>s+)?(?:below|under|less than|lower than)\<bullet>s+(?:analyst\<bullet>s+)?target\<bullet>s*(?:price)?\<close>
  and the same with \<open>above|over|greater than|higher than\<close>.
\<close>

definition priceVsTarget :: "string list \<Rightarrow> regex" where
  "priceVsTarget words =
     cat [opt (cat [str ''current'', spaces1]), str ''price'', spaces1,
          opt (cat [str ''is'', spaces1]), alts (map str words), spaces1,
          opt (cat [str ''analyst'', spaces1]), str ''target'', spaces, opt (str ''price'')]"

definition crossField :: "string \<Rightarrow> jsval" where
  "crossField operator =
     JObj [(''field'', JStr ''close''), (''operator'', JStr operator),
           (''value'', JStr ''price_target_avg''), (''value_is_field'', JBool True)]"

definition extractCrossFieldComparison :: "string \<Rightarrow> jsval" where
  "extractCrossFieldComparison query =
     (if regexMatch (priceVsTarget [''below'', ''under'', ''less than'', ''lower than'']) True query \<noteq> None
      then crossField ''<''
      else if regexMatch (priceVsTarget [''above'', ''over'', ''greater than'', ''higher than'']) True query
                \<noteq> None
      then crossField ''>''
      else JNull)"

text \<open>\<open>extractBuyback\<close>: \<open>buyback|buy\<bullet>s*back\<close>.\<close>

definition extractBuyback :: "string \<Rightarrow> jsval" where
  "extractBuyback query =
     (if regexTest (Alt (str ''buyback'') (cat [str ''buy'', spaces, str ''back''])) True query
      then condition3 (JStr ''last_buyback_date'') ''exists'' (JBool True)
      else JNull)"

text \<open>
  \<open>findMetricField\<close>: the phrase in lower case, every character outside
  \<open>[a-z0-9/ ]\<close> turned into a space, runs of white space into one space, trimmed;
  then the direct lookup and the longest key contained in the phrase (the sort is
  stable). The result is a field name, \<open>null\<close>, or the built-in that the lookup of
  \<open>constructor\<close> finds on the prototype of \<open>METRIC_MAP\<close>.
\<close>

definition metricChar :: "char \<Rightarrow> bool" where
  "metricChar c \<longleftrightarrow>
     ((97::nat) \<le> of_char c \<and> of_char c \<le> (122::nat)) \<or> isDigit c \<or> c = CHR ''/'' \<or> c = CHR '' ''"

definition normalizePhrase :: "string \<Rightarrow> string" where
  "normalizePhrase phrase =
     trim (replaceAll spaces1 False [Lit '' '']
             (replaceAll (CharSet (\<lambda>c. \<not> metricChar c)) False [Lit '' ''] (toLowerCase phrase)))"

definition findMetricField :: "string \<Rightarrow> jsval" where
  "findMetricField phrase =
     (let normalized = normalizePhrase phrase in
      case map_of METRIC_MAP normalized of
        Some field \<Rightarrow> JStr field
      | None \<Rightarrow>
          if normalized \<in> set objectPrototypeNames then JFun
          else
            (case List.find (\<lambda>key. strIncludes normalized key)
                    (sort_key (\<lambda>key. - int (length key)) (map fst METRIC_MAP)) of
               Some key \<Rightarrow> (case map_of METRIC_MAP key of Some field \<Rightarrow> JStr field | None \<Rightarrow> JNull)
             | None \<Rightarrow> JNull))"

text \<open>
  \<open>normalizeOperator\<close>: \<open>opMap[op.toLowerCase().trim()] || op\<close>. It is called
  on the operator the comparison pattern has captured, which names no member of the
  prototype of \<open>opMap\<close>.
\<close>

definition normalizeOperator :: "string \<Rightarrow> string" where
  "normalizeOperator op =
     (case map_of
             [(''<'', ''<''), (''>'', ''>''), (''<='', ''<=''), (''>='', ''>=''), (''='', ''=''),
              (''!='', ''!=''),
              (''is'', ''=''), (''equal'', ''=''), (''equal to'', ''=''),
              (''below'', ''<''), (''under'', ''<''), (''less than'', ''<''),
              (''above'', ''>''), (''over'', ''>''), (''greater than'', ''>''), (''more than'', ''>''),
              (''at least'', ''>=''), (''no less than'', ''>=''),
              (''at most'', ''<=''), (''no more than'', ''<='')]
             (trim (toLowerCase op)) of
        Some sqlOp \<Rightarrow> sqlOp
      | None \<Rightarrow> op)"

text \<open>
  \<open>parseInt\<close> of a run of digits and \<open>parseFloat\<close> of a text made of digits and
  dots (what the patterns capture): the longest prefix \<open>digits[.digits]\<close> or
  \<open>.digits\<close>, \<open>NaN\<close> when it holds no digit. The value is the exact
  decimal; the runtime rounds it, and its product with a unit multiplier, to a double.
\<close>

definition digitsValue :: "string \<Rightarrow> rat" where
  "digitsValue s = of_int (decimalValue s)"

definition parseInt :: "string \<Rightarrow> jsval" where
  "parseInt s =
     (let ds = takeWhile isDigit s in if ds = [] then JNaN else JNum (digitsValue ds))"

definition parseFloat :: "string \<Rightarrow> jsval" where
  "parseFloat s =
     (let whole = takeWhile isDigit s;
          rest = dropWhile isDigit s;
          frac = (case rest of [] \<Rightarrow> [] | c # cs \<Rightarrow> if c = CHR ''.'' then takeWhile isDigit cs else [])
      in if whole = [] \<and> frac = [] then JNaN
         else JNum (digitsValue whole + digitsValue frac / 10 ^ length frac))"

text \<open>The period clause \<open>(?:\<bullet>s+(?:in|for|over)\<bullet>s+(?:the\<bullet>s+)?last\<bullet>s+(\<bullet>d+)\<bullet>s+(quarters?|years?|months?))\<close>.\<close>

definition periodClause :: "nat \<Rightarrow> nat \<Rightarrow> regex list" where
  "periodClause countGroup unitGroup =
     [spaces1, alts [str ''in'', str ''for'', str ''over''], spaces1,
      opt (cat [str ''the'', spaces1]), str ''last'', spaces1,
      Group countGroup digits1, spaces1,
      Group unitGroup (alts [plural ''quarter'', plural ''year'', plural ''month''])]"

definition periodAll :: "jsval \<Rightarrow> jsval \<Rightarrow> jsval" where
  "periodAll n aggregation =
     JObj [(''type'', JStr ''last_n_quarters''), (''n'', n), (''aggregation'', aggregation)]"

definition positivePattern :: regex where
  "positivePattern =
     cat [LineStart, str ''positive'', spaces1, Group 1 (lazyPlus (CharSet isDot)),
          opt (cat (periodClause 2 3)), LineEnd]"

definition growingPattern :: regex where
  "growingPattern =
     cat [LineStart, Group 1 (alts [str ''increasing'', str ''growing'', str ''rising'']), spaces1,
          Group 2 (lazyPlus (CharSet isDot)),
          opt (cat [spaces1, alts [cat [str ''year'', spaces1, str ''over'', spaces1, str ''year''],
                                   str ''yoy'', str ''y-o-y'']]),
          opt (cat (periodClause 3 4)), LineEnd]"

definition operatorWords :: "string list" where
  "operatorWords =
     [''!=='', ''!='', ''<='', ''>='', ''<'', ''>'', ''='', ''below'', ''above'', ''under'', ''over'',
      ''at least'', ''at most'', ''less than'', ''greater than'', ''more than'', ''equal to'',
      ''equal'', ''is'']"

definition unitWords :: "regex list" where
  "unitWords =
     [plural ''crore'', str ''cr'', plural ''lakh'', str ''l'', str ''billion'', str ''b'',
      str ''million'', str ''m'', str ''thousand'', str ''k'', str ''trillion'', str ''t'']"

definition comparisonPattern :: regex where
  "comparisonPattern =
     cat [Group 1 (lazyPlus (CharSet isDot)), spaces,
          Group 2 (alts (map str operatorWords)), spaces,
          Group 3 (plus (CharSet (\<lambda>c. isDigit c \<or> c = CHR '','' \<or> c = CHR ''.''))), spaces,
          Group 4 (opt (Chr CHR ''%'')), spaces,
          opt (Group 5 (alts unitWords)),
          opt (cat (periodClause 6 7 @ [opt (cat [spaces1, Group 8 (plus (CharSet isWordChar))])]))]"

text \<open>The three preamble-stripping replacements at the head of \<open>parseCondition\<close>.\<close>

definition verbs :: regex where
  "verbs = alts (map str [''show'', ''find'', ''get'', ''list'', ''display'', ''give'', ''search''])"

definition stripConditionPreamble :: "string \<Rightarrow> string" where
  "stripConditionPreamble s =
     trim
       (replaceFirst (cat [LineStart, alts [str ''with'', str ''where'', str ''having''], spaces1]) True []
          (replaceFirst
             (cat [LineStart, alts stocksCompaniesShares, spaces1,
                   alts (map str [''with'', ''where'', ''having'', ''whose'', ''that have'']), spaces1])
             True []
             (replaceFirst
                (cat [LineStart, verbs, spaces1, opt (cat [str ''me'', spaces1]),
                      opt (cat [str ''all'', spaces1]), alts stocksCompaniesShares, spaces1,
                      alts (map str [''with'', ''where'', ''having'', ''whose'', ''that have'']), spaces1])
                True [] s)))"

text \<open>
  \<open>parseCondition\<close>: \<open>Inr JNull\<close> is the \<open>null\<close> of the source. Calling
  \<open>includes\<close> on the built-in found for \<open>constructor\<close> raises a TypeError, and the
  text of the built-in joined to \<open>_growth_yoy\<close> is not modelled.
\<close>

definition withPeriod :: "jsval \<Rightarrow> string option \<Rightarrow> jsval" where
  "withPeriod cond count =
     (case count of
        None \<Rightarrow> cond
      | Some digits \<Rightarrow>
          if digits = [] then cond
          else jset cond ''period'' (periodAll (parseInt digits) (JStr ''all'')))"

definition parseStandard :: "string \<Rightarrow> jsval" where
  "parseStandard cleanStr =
     (case regexMatch comparisonPattern True cleanStr of
        None \<Rightarrow> JNull
      | Some m \<Rightarrow>
          (let metricPhrase = trim (the (groupOf m 1));
               operatorStr = trim (the (groupOf m 2));
               rawValue = filter (\<lambda>c. c \<noteq> CHR '','') (the (groupOf m 3));
               parsed = parseFloat rawValue;
               unitStr = (case groupOf m 5 of
                            None \<Rightarrow> None
                          | Some u \<Rightarrow> if u = [] then None else Some (toLowerCase u));
               scaled = (case unitStr of
                           None \<Rightarrow> parsed
                         | Some u \<Rightarrow>
                             (case map_of UNIT_MULTIPLIERS u of
                                Some mult \<Rightarrow> (case parsed of JNum v \<Rightarrow> JNum (v * mult) | _ \<Rightarrow> parsed)
                              | None \<Rightarrow> parsed));
               field = findMetricField metricPhrase
           in if \<not> truthy field then JNull
              else
                (let value = (case scaled of
                                JNum v \<Rightarrow> if jsIncludes [''promoter_holding''] field \<and> v > 1
                                          then JNum (v / 100) else scaled
                              | _ \<Rightarrow> scaled);
                     condition = condition3 field (normalizeOperator operatorStr) value;
                     periodCount = (case groupOf m 6 of
                                      None \<Rightarrow> JNull
                                    | Some d \<Rightarrow> if d = [] then JNull else parseInt d);
                     periodUnit = (case groupOf m 7 of
                                     None \<Rightarrow> JNull
                                   | Some u \<Rightarrow>
                                       if u = [] then JNull
                                       else JStr (replaceFirst (Seq (Chr CHR ''s'') LineEnd) False []
                                                    (toLowerCase u)));
                     aggregation = (case groupOf m 8 of
                                      None \<Rightarrow> JNull
                                    | Some a \<Rightarrow> if a = [] then JNull else JStr (toLowerCase a))
                 in if truthy periodCount \<and> truthy periodUnit
                    then jset condition ''period'' (periodAll periodCount (jor aggregation (JStr ''all'')))
                    else condition)))"

definition parseStandalone :: "string \<Rightarrow> jserror + jsval" where
  "parseStandalone cleanStr =
     (let standaloneGrowthField = findMetricField cleanStr in
      if truthy standaloneGrowthField \<and> regexMatch (CharSet isDigit) False cleanStr = None then
        (case standaloneGrowthField of
           JStr field \<Rightarrow>
             if strIncludes field ''growth'' then Inr (condition3 (JStr field) ''>'' (JNum 0))
             else (case map_of GROWTH_FIELD_MAP field of
                     Some growth \<Rightarrow> Inr (condition3 (JStr growth) ''>'' (JNum 0))
                   | None \<Rightarrow> Inr (parseStandard cleanStr))
         | _ \<Rightarrow> Inl TypeError)
      else Inr (parseStandard cleanStr))"

definition parseGrowing :: "string \<Rightarrow> jserror + jsval" where
  "parseGrowing cleanStr =
     (case regexMatch growingPattern True cleanStr of
        None \<Rightarrow> parseStandalone cleanStr
      | Some m \<Rightarrow>
          (case findMetricField (trim (the (groupOf m 2))) of
             JStr baseField \<Rightarrow>
               Inr (withPeriod
                      (condition3
                         (JStr (case map_of GROWTH_FIELD_MAP baseField of
                                  Some growth \<Rightarrow> growth
                                | None \<Rightarrow> baseField @ ''_growth_yoy''))
                         ''>'' (JNum 0))
                      (groupOf m 3))
           | JFun \<Rightarrow> Inl NotModelled
           | _ \<Rightarrow> parseStandalone cleanStr))"

definition parseCondition :: "string \<Rightarrow> jserror + jsval" where
  "parseCondition conditionStr =
     (let cleanStr = stripConditionPreamble conditionStr in
      case regexMatch positivePattern True cleanStr of
        None \<Rightarrow> parseGrowing cleanStr
      | Some m \<Rightarrow>
          (let field = findMetricField (trim (the (groupOf m 1))) in
           if truthy field then Inr (withPeriod (condition3 field ''>'' (JNum 0)) (groupOf m 2))
           else parseGrowing cleanStr))"

text \<open>
  \<open>parseAndConditions\<close>: \<open>between X and Y\<close> is protected from the split on
  commas and \<open>and\<close>, and restored in each part.
\<close>

definition decimalNumber :: regex where
  "decimalNumber = cat [digits1, opt (cat [Chr CHR ''.'', digits1])]"

definition betweenProtect :: regex where
  "betweenProtect =
     cat [str ''between'', spaces1, Group 1 decimalNumber, spaces1, str ''and'', spaces1,
          Group 2 decimalNumber]"

definition andSeparator :: regex where
  "andSeparator = cat [spaces, alts [cat [Chr CHR '','', spaces], cat [spaces1, str ''and'', spaces1]]]"

definition betweenPattern :: regex where
  "betweenPattern =
     cat [Group 1 (lazyPlus (CharSet isDot)), spaces1, str ''between'', spaces1,
          Group 2 decimalNumber, spaces1, str ''and'', spaces1, Group 3 decimalNumber]"

definition parsePart :: "string \<Rightarrow> jserror + jsval list" where
  "parsePart part =
     (let restoredPart = trim (replaceAll (str ''_AND_'') False [Lit '' and ''] part) in
      if restoredPart = [] then Inr []
      else
        (case regexMatch betweenPattern True restoredPart of
           Some m \<Rightarrow>
             (let field = findMetricField (trim (the (groupOf m 1))) in
              if truthy field
              then Inr [condition3 field ''>='' (parseFloat (the (groupOf m 2))),
                        condition3 field ''<='' (parseFloat (the (groupOf m 3)))]
              else Inr [])
         | None \<Rightarrow>
             (case parseCondition restoredPart of
                Inl e \<Rightarrow> Inl e
              | Inr condition \<Rightarrow> Inr (if truthy condition then [condition] else []))))"

fun parseParts :: "string list \<Rightarrow> jserror + jsval list" where
  "parseParts [] = Inr []"
| "parseParts (part # rest) =
     (case parsePart part of
        Inl e \<Rightarrow> Inl e
      | Inr conds \<Rightarrow>
          (case parseParts rest of Inl e \<Rightarrow> Inl e | Inr others \<Rightarrow> Inr (conds @ others)))"

definition parseAndConditions :: "string \<Rightarrow> jserror + jsval list" where
  "parseAndConditions query =
     parseParts
       (regexSplit andSeparator True
          (replaceAll betweenProtect True [Lit ''between '', Ref 1, Lit ''_AND_'', Ref 2] query))"

text \<open>\<open>parseOrConditions\<close>: split on \<open>\<bullet>s+or\<bullet>s+\<close>.\<close>

fun parseOrParts :: "string list \<Rightarrow> jserror + jsval list" where
  "parseOrParts [] = Inr []"
| "parseOrParts (part # rest) =
     (case parseAndConditions (trim part) of
        Inl e \<Rightarrow> Inl e
      | Inr andConds \<Rightarrow>
          (case parseOrParts rest of
             Inl e \<Rightarrow> Inl e
           | Inr others \<Rightarrow>
               Inr ((if length andConds > 1 then [JObj [(''and'', JArr andConds)]]
                     else if length andConds = 1 then [hd andConds] else []) @ others)))"

definition orSeparator :: regex where
  "orSeparator = cat [spaces1, str ''or'', spaces1]"

definition parseOrConditions :: "string \<Rightarrow> jserror + jsval list" where
  "parseOrConditions query =
     (case parseOrParts (regexSplit orSeparator True query) of
        Inl e \<Rightarrow> Inl e
      | Inr conditions \<Rightarrow>
          Inr (if length conditions > 1 then [JObj [(''or'', JArr conditions)]] else conditions))"

text \<open>
  \<open>extractMetricConditions\<close>: eight replacements isolate the conditions (groups whose
  captures are not used are written without a number), then \<open>trim\<close>.
\<close>

definition sectorWords :: "string list" where
  "sectorWords =
     [''it'', ''information technology'', ''tech'', ''technology'', ''banking'', ''finance'',
      ''pharma'', ''healthcare'', ''energy'', ''consumer'', ''fmcg'', ''industrial'',
      ''real estate'', ''utilities'', ''telecom'', ''communication'']"

definition cleanMetricQuery :: "string \<Rightarrow> string" where
  "cleanMetricQuery query =
     trim
      (replaceAll
         (Alt (Seq LineStart (plus (CharSet (\<lambda>c. isSpace c \<or> c = CHR '',''))))
              (Seq (plus (CharSet (\<lambda>c. isSpace c \<or> c = CHR '',''))) LineEnd)) False []
      (replaceAll
         (cat [WordBoundary,
               alts (map str [''whose'', ''that have'', ''that'', ''with'', ''where'', ''having'']),
               WordBoundary]) True [Lit '','']
      (replaceAll
         (cat [WordBoundary, opt (cat [str ''that'', spaces1, str ''have'', spaces1]),
               str ''announced'', spaces1, str ''stock'', spaces, plural ''buyback'', spaces1,
               str ''recently'', WordBoundary]) True []
      (replaceAll
         (cat [WordBoundary, alts [str ''semiconductor'', str ''software''], spaces,
               opt (alts [plural ''companie'', plural ''stock'']), WordBoundary]) True []
      (replaceAll
         (cat [WordBoundary, alts (map str [''nse'', ''bse'', ''nyse'', ''nasdaq'']), spaces,
               opt (alts [str ''listed'', plural ''stock'', plural ''companie'', str ''exchange'']),
               WordBoundary]) True []
      (replaceAll
         (cat [WordBoundary, alts (map str sectorWords), spaces,
               opt (alts (str ''sector'' # stocksCompaniesShares)), WordBoundary]) True []
      (replaceFirst
         (cat [LineStart, alts stocksCompaniesShares, spaces1, opt (cat [str ''from'', spaces1])])
         True []
      (replaceFirst
         (cat [LineStart, verbs, spaces1, opt (cat [str ''me'', spaces1]),
               opt (cat [str ''all'', spaces1])]) True [] query))))))))"

definition extractMetricConditions :: "string \<Rightarrow> jserror + jsval list" where
  "extractMetricConditions query =
     (let cleanQuery = cleanMetricQuery query in
      if cleanQuery = [] then Inr []
      else if regexTest orSeparator True cleanQuery then parseOrConditions cleanQuery
      else parseAndConditions cleanQuery)"

text \<open>
  \<open>translateNLToDSL\<close>, on a query that is a string. Lower case, white space and
  the classes of the expressions are modelled on ASCII texts; a query with another
  character is marked \<open>NotModelled\<close>.
\<close>

definition isAscii :: "char \<Rightarrow> bool" where
  "isAscii c \<longleftrightarrow> of_char c < (128::nat)"

definition translateNLToDSL :: "string \<Rightarrow> jserror + jsval" where
  "translateNLToDSL query =
     (if \<not> list_all isAscii query then Inl NotModelled else
      let normalizedQuery = trim (toLowerCase query);
          sectorCondition = extractSector normalizedQuery;
          exchangeCondition = extractExchange normalizedQuery;
          industryConditions = extractIndustry normalizedQuery;
          crossFieldCondition = extractCrossFieldComparison normalizedQuery;
          buybackCondition = extractBuyback normalizedQuery
      in case extractMetricConditions normalizedQuery of
           Inl e \<Rightarrow> Inl e
         | Inr metricConditions \<Rightarrow>
             (let conditions =
                    (if truthy sectorCondition then [sectorCondition] else [])
                    @ (if truthy exchangeCondition then [exchangeCondition] else [])
                    @ industryConditions
                    @ (if truthy crossFieldCondition then [crossFieldCondition] else [])
                    @ (if truthy buybackCondition then [buybackCondition] else [])
                    @ metricConditions
              in if length conditions > 0
                 then Inr (JObj [(''filter'', JObj [(''and'', JArr conditions)])])
                 else Inr (JObj [(''filter'', JObj [])])))"

section \<open>Notions used to state the properties\<close>


text \<open>Builders for the DSL trees of the examples.\<close>

definition cmp :: "string \<Rightarrow> string \<Rightarrow> jsval \<Rightarrow> jsval" where
  "cmp f op v = JObj [(''field'', JStr f), (''operator'', JStr op), (''value'', v)]"

definition dslOf :: "jsval \<Rightarrow> jsval" where
  "dslOf f = JObj [(''filter'', f)]"

definition cmpPeriod :: "string \<Rightarrow> string \<Rightarrow> jsval \<Rightarrow> jsval \<Rightarrow> jsval" where
  "cmpPeriod f op v p =
     JObj [(''field'', JStr f), (''operator'', JStr op), (''value'', v), (''period'', p)]"

definition periodOf :: "string \<Rightarrow> rat \<Rightarrow> string \<Rightarrow> jsval" where
  "periodOf ty n agg = JObj [(''type'', JStr ty), (''n'', JNum n), (''aggregation'', JStr agg)]"











text \<open>
  The rate limit on a log of notifications: two notifications of the same alert are
  more than one day apart, the later one later in the log.
\<close>

fun spaced :: "notification list \<Rightarrow> bool" where
  "spaced [] = True"
| "spaced (n # ns) =
     (list_all (\<lambda>m. n_alert_id m \<noteq> n_alert_id n \<or> triggered_at n + msPerDay < triggered_at m) ns
      \<and> spaced ns)"
text \<open>
  The logical inverse of a comparison operator, as the specification tabulates it, and
  the plain (not derived) columns of \<open>fundamentals_quarterly\<close>.
\<close>

definition logicalInverse :: "string \<Rightarrow> string" where
  "logicalInverse op =
     (if op = ''>'' then ''<='' else if op = ''<'' then ''>='' else if op = ''>='' then ''<''
      else if op = ''<='' then ''>'' else if op = ''='' then ''!='' else if op = ''!='' then ''=''
      else op)"

definition fqColumns :: "string list" where
  "fqColumns = map fst (filter (\<lambda>(name, info). table info = ''fundamentals_quarterly'' \<and> \<not> derived info) FIELD_TABLE_MAP)"

text \<open>
  A runtime, a subscription and fetched data for the examples. The runtime refuses
  no statement, and the examples use whole numbers only, which are doubles.
  \<open>refusingRuntime\<close> is the same runtime with a database that refuses every
  UPDATE of a subscription.
\<close>

definition plainRuntime :: jsRuntime where
  "plainRuntime =
     \<lparr>numberOf = (\<lambda>v. None), compareOther = (\<lambda>op a b. False), propertyKeyOf = (\<lambda>v. []),
      memberOf = (\<lambda>v k. JUndefined), dateMillis = (\<lambda>v. None), toDouble = (\<lambda>r. r),
      selectFails = (\<lambda>now. False), insertFails = (\<lambda>aid now. False),
      updateFails = (\<lambda>aid now. False)\<rparr>"

definition refusingRuntime :: jsRuntime where
  "refusingRuntime = plainRuntime\<lparr>updateFails := (\<lambda>aid now. True)\<rparr>"

definition peAlert :: alertRow where
  "peAlert =
     \<lparr>alert_id = 1, user_id = JNum 7, ticker = Some ''TCS'', alert_name = JStr ''cheap'',
      alert_type = JStr ''fundamental_condition'',
      condition_json = JObj [(''fundamental_metric'', JStr ''pe_ratio''),
                             (''fundamental_operator'', JStr ''below''),
                             (''fundamental_value'', JNum 20)],
      is_active = True, last_triggered = None, trigger_count = 0, last_evaluated = None\<rparr>"

definition peFetch :: "string \<Rightarrow> jsval \<times> jsval \<times> jsval" where
  "peFetch t = (JNull, JNull, JObj [(''pe_ratio'', JNum 18)])"

definition zeroPriceAlert :: alertRow where
  "zeroPriceAlert =
     \<lparr>alert_id = 2, user_id = JNum 7, ticker = Some ''TCS'', alert_name = JStr ''any price'',
      alert_type = JStr ''price_threshold'',
      condition_json = JObj [(''operator'', JStr ''>''), (''value'', JNum 0)],
      is_active = True, last_triggered = None, trigger_count = 0, last_evaluated = None\<rparr>"


subsection \<open>What a pattern consumes\<close>

text \<open>
  \<open>hasChar P w\<close>: some character of \<open>w\<close> satisfies \<open>P\<close>.
  \<open>delivers Q r ci\<close>: whenever the pattern \<open>r\<close> matches, the text it has consumed
  satisfies \<open>Q\<close>, and the continuation has succeeded on what remains.
\<close>

definition hasChar :: "(char \<Rightarrow> bool) \<Rightarrow> string \<Rightarrow> bool" where
  "hasChar P w = list_ex P w"

definition delivers :: "(string \<Rightarrow> bool) \<Rightarrow> regex \<Rightarrow> bool \<Rightarrow> bool" where
  "delivers Q r ci \<longleftrightarrow>
     (\<forall>k st res. matchK r ci k st = Some (res::mstate) \<longrightarrow>
        (\<exists>st' w. k st' = Some res \<and> fst (snd st) = w @ fst (snd st') \<and> Q w))"
section \<open>Properties of the validator\<close>

lemma validateCondition_errors:
  "fst (validateCondition c) =
     (if \<not> truthy (jget c ''field'') then [MustHaveField]
      else if \<not> jsIncludes ALLOWED_FIELDS (jget c ''field'') then [InvalidField (jget c ''field'')] else [])
     @ (if \<not> truthy (jget c ''operator'') then [MustHaveOperator]
        else if \<not> jsIncludes ALLOWED_OPERATORS (jget c ''operator'') then [InvalidOperator (jget c ''operator'')] else [])
     @ (if jget c ''value'' = JUndefined \<and> jget c ''operator'' \<noteq> JStr ''exists'' then [MustHaveValue] else [])
     @ valueShapeErrors c
     @ (if truthy (jget c ''period'') then periodErrors (jget c ''period'') else [])"
  by (simp add: validateCondition_def Let_def)

lemma validateFilter_JObj:
  "validateFilter (JObj kvs) =
     foldl
       (\<lambda>(errors, flt) key.
          if key \<in> set ALLOWED_LOGICAL_OPERATORS then
            (case jget (JObj kvs) key of
               JArr conds \<Rightarrow>
                 (let rs = map (\<lambda>condition.
                              if isCondition condition then validateCondition condition
                              else if typeof condition = TObject then validateFilter condition
                              else ([InvalidConditionInFilter], condition)) conds
                  in (errors @ concat (map fst rs), jset flt key (JArr (map snd rs))))
             | _ \<Rightarrow> (errors @ [LogicalMustContainArray key], flt))
          else (errors @ [UnknownFilterOperator key], flt))
       ([], JObj kvs) (ownKeyOrder (map fst kvs))"
  by (subst validateFilter.simps) simp

lemma allowed_field_nonempty: "f \<in> set ALLOWED_FIELDS \<Longrightarrow> f \<noteq> []"
  by (auto simp: ALLOWED_FIELDS_def)

lemma comparisonOperators_props:
  "op \<in> set comparisonOperators \<Longrightarrow>
     op \<in> set ALLOWED_OPERATORS \<and> op \<noteq> [] \<and> op \<noteq> ''between'' \<and> op \<noteq> ''in'' \<and> op \<noteq> ''exists''"
  by (auto simp: comparisonOperators_def ALLOWED_OPERATORS_def)

lemma comparison_condition_ok:
  assumes "f \<in> set ALLOWED_FIELDS" and "op \<in> set comparisonOperators"
  shows "validateCondition (cmp f op (JNum v)) = ([], cmp f op (JNum v))"
    and "isCondition (cmp f op (JNum v))"
  using allowed_field_nonempty[OF assms(1)] comparisonOperators_props[OF assms(2)] assms(1)
  by (simp_all add: validateCondition_def cmp_def valueShapeErrors_def isCondition_def)

lemma periodErrors_empty_iff:
  "typeof p = TObject \<Longrightarrow>
   periodErrors p = [] \<longleftrightarrow>
     jget p ''type'' = JStr ''last_n_quarters'' \<and>
     (\<exists>r. jget p ''n'' = JNum r \<and> 1 \<le> r \<and> r \<le> 20) \<and>
     (truthy (jget p ''aggregation'') \<longrightarrow> jsIncludes ALLOWED_AGGREGATIONS (jget p ''aggregation''))"
  by (cases "jget p ''n''") (auto simp: periodErrors_def)









section \<open>Properties of the compiler\<close>

lemma fqColumns_eq: "fqColumns = [''revenue'', ''net_income'', ''eps'', ''operating_margin'', ''roe'', ''roa'',
        ''pe_ratio'', ''pb_ratio'', ''peg_ratio'', ''ebitda'', ''ebitda_margin'',
        ''debt_to_equity'', ''current_ratio'', ''total_assets'', ''total_debt'',
        ''free_cash_flow'', ''operating_cash_flow'', ''revenue_growth_yoy'', ''ebitda_growth_yoy'']"
  by (simp add: fqColumns_def FIELD_TABLE_MAP_def plainField_def)

lemma map_of_plain:
  "f \<in> set cs \<Longrightarrow> map_of (map (plainField t) cs @ rest) f = Some \<lparr>table = t, column = f, derived = False, sql = None\<rparr>"
  by (induction cs) (auto simp: plainField_def)

lemma map_of_plain_miss:
  "f \<notin> set cs \<Longrightarrow> map_of (map (plainField t) cs @ rest) f = map_of rest f"
  by (induction cs) (auto simp: plainField_def)

lemma lookup_fq:
  assumes "f \<in> set fqColumns"
  shows "lookupField (JStr f) = Found \<lparr>table = ''fundamentals_quarterly'', column = f, derived = False, sql = None\<rparr>"
proof -
  have 1: "f \<notin> set [''ticker'', ''name'', ''market_cap'', ''sector'', ''industry'', ''exchange'',
        ''next_earnings_date'', ''last_buyback_date'', ''promoter_holding'']"
    using assms unfolding fqColumns_eq by auto
  have 2: "f \<notin> set [''open'', ''high'', ''low'', ''close'', ''volume'']"
    using assms unfolding fqColumns_eq by auto
  have 3: "f \<in> set [''revenue'', ''net_income'', ''eps'', ''operating_margin'', ''roe'', ''roa'',
        ''pe_ratio'', ''pb_ratio'', ''peg_ratio'', ''ebitda'', ''ebitda_margin'',
        ''debt_to_equity'', ''current_ratio'', ''total_assets'', ''total_debt'',
        ''free_cash_flow'', ''operating_cash_flow'', ''revenue_growth_yoy'', ''ebitda_growth_yoy'']"
    using assms unfolding fqColumns_eq by simp
  show ?thesis
    unfolding lookupField_def FIELD_TABLE_MAP_def
    by (simp only: jsval.case map_of_plain_miss[OF 1] map_of_plain_miss[OF 2] map_of_plain[OF 3] option.case)
qed

lemma invert_comparison:
  "op \<in> set comparisonOperators \<Longrightarrow> invertOperator (JStr op) = JStr (logicalInverse op)"
  by (auto simp: comparisonOperators_def invertOperator_def logicalInverse_def)

section \<open>Properties of the alert processor\<close>

lemma zero_value_object:
  assumes "jget cj k = JNum 0" and "k \<noteq> ''length''"
  shows "jor cj (JObj []) = cj"
  using assms by (cases cj) (auto simp: jor_def split: if_splits)
section \<open>Evaluating the translator\<close>

text \<open>The character classes on the printable ASCII characters.\<close>

lemma wordChar_facts:
  "\<not> isWordChar CHR '' ''"
  "\<not> isWordChar CHR ''!''"
  "\<not> isWordChar CHR ''#''"
  "\<not> isWordChar CHR ''$''"
  "\<not> isWordChar CHR ''%''"
  "\<not> isWordChar CHR ''&''"
  "\<not> isWordChar CHR ''(''"
  "\<not> isWordChar CHR '')''"
  "\<not> isWordChar CHR ''*''"
  "\<not> isWordChar CHR ''+''"
  "\<not> isWordChar CHR '',''"
  "\<not> isWordChar CHR ''-''"
  "\<not> isWordChar CHR ''.''"
  "\<not> isWordChar CHR ''/''"
  "isWordChar CHR ''0''"
  "isWordChar CHR ''1''"
  "isWordChar CHR ''2''"
  "isWordChar CHR ''3''"
  "isWordChar CHR ''4''"
  "isWordChar CHR ''5''"
  "isWordChar CHR ''6''"
  "isWordChar CHR ''7''"
  "isWordChar CHR ''8''"
  "isWordChar CHR ''9''"
  "\<not> isWordChar CHR '':''"
  "\<not> isWordChar CHR '';''"
  "\<not> isWordChar CHR ''<''"
  "\<not> isWordChar CHR ''=''"
  "\<not> isWordChar CHR ''>''"
  "\<not> isWordChar CHR ''?''"
  "\<not> isWordChar CHR ''@''"
  "isWordChar CHR ''A''"
  "isWordChar CHR ''B''"
  "isWordChar CHR ''C''"
  "isWordChar CHR ''D''"
  "isWordChar CHR ''E''"
  "isWordChar CHR ''F''"
  "isWordChar CHR ''G''"
  "isWordChar CHR ''H''"
  "isWordChar CHR ''I''"
  "isWordChar CHR ''J''"
  "isWordChar CHR ''K''"
  "isWordChar CHR ''L''"
  "isWordChar CHR ''M''"
  "isWordChar CHR ''N''"
  "isWordChar CHR ''O''"
  "isWordChar CHR ''P''"
  "isWordChar CHR ''Q''"
  "isWordChar CHR ''R''"
  "isWordChar CHR ''S''"
  "isWordChar CHR ''T''"
  "isWordChar CHR ''U''"
  "isWordChar CHR ''V''"
  "isWordChar CHR ''W''"
  "isWordChar CHR ''X''"
  "isWordChar CHR ''Y''"
  "isWordChar CHR ''Z''"
  "\<not> isWordChar CHR ''[''"
  "\<not> isWordChar CHR '']''"
  "\<not> isWordChar CHR ''^''"
  "isWordChar CHR ''_''"
  "isWordChar CHR ''a''"
  "isWordChar CHR ''b''"
  "isWordChar CHR ''c''"
  "isWordChar CHR ''d''"
  "isWordChar CHR ''e''"
  "isWordChar CHR ''f''"
  "isWordChar CHR ''g''"
  "isWordChar CHR ''h''"
  "isWordChar CHR ''i''"
  "isWordChar CHR ''j''"
  "isWordChar CHR ''k''"
  "isWordChar CHR ''l''"
  "isWordChar CHR ''m''"
  "isWordChar CHR ''n''"
  "isWordChar CHR ''o''"
  "isWordChar CHR ''p''"
  "isWordChar CHR ''q''"
  "isWordChar CHR ''r''"
  "isWordChar CHR ''s''"
  "isWordChar CHR ''t''"
  "isWordChar CHR ''u''"
  "isWordChar CHR ''v''"
  "isWordChar CHR ''w''"
  "isWordChar CHR ''x''"
  "isWordChar CHR ''y''"
  "isWordChar CHR ''z''"
  "\<not> isWordChar CHR ''{''"
  "\<not> isWordChar CHR ''|''"
  "\<not> isWordChar CHR ''}''"
  "\<not> isWordChar CHR ''~''"
  by (simp_all add: isWordChar_def isDigit_def)

lemma space_facts:
  "isSpace CHR '' ''"
  "\<not> isSpace CHR ''!''"
  "\<not> isSpace CHR ''#''"
  "\<not> isSpace CHR ''$''"
  "\<not> isSpace CHR ''%''"
  "\<not> isSpace CHR ''&''"
  "\<not> isSpace CHR ''(''"
  "\<not> isSpace CHR '')''"
  "\<not> isSpace CHR ''*''"
  "\<not> isSpace CHR ''+''"
  "\<not> isSpace CHR '',''"
  "\<not> isSpace CHR ''-''"
  "\<not> isSpace CHR ''.''"
  "\<not> isSpace CHR ''/''"
  "\<not> isSpace CHR ''0''"
  "\<not> isSpace CHR ''1''"
  "\<not> isSpace CHR ''2''"
  "\<not> isSpace CHR ''3''"
  "\<not> isSpace CHR ''4''"
  "\<not> isSpace CHR ''5''"
  "\<not> isSpace CHR ''6''"
  "\<not> isSpace CHR ''7''"
  "\<not> isSpace CHR ''8''"
  "\<not> isSpace CHR ''9''"
  "\<not> isSpace CHR '':''"
  "\<not> isSpace CHR '';''"
  "\<not> isSpace CHR ''<''"
  "\<not> isSpace CHR ''=''"
  "\<not> isSpace CHR ''>''"
  "\<not> isSpace CHR ''?''"
  "\<not> isSpace CHR ''@''"
  "\<not> isSpace CHR ''A''"
  "\<not> isSpace CHR ''B''"
  "\<not> isSpace CHR ''C''"
  "\<not> isSpace CHR ''D''"
  "\<not> isSpace CHR ''E''"
  "\<not> isSpace CHR ''F''"
  "\<not> isSpace CHR ''G''"
  "\<not> isSpace CHR ''H''"
  "\<not> isSpace CHR ''I''"
  "\<not> isSpace CHR ''J''"
  "\<not> isSpace CHR ''K''"
  "\<not> isSpace CHR ''L''"
  "\<not> isSpace CHR ''M''"
  "\<not> isSpace CHR ''N''"
  "\<not> isSpace CHR ''O''"
  "\<not> isSpace CHR ''P''"
  "\<not> isSpace CHR ''Q''"
  "\<not> isSpace CHR ''R''"
  "\<not> isSpace CHR ''S''"
  "\<not> isSpace CHR ''T''"
  "\<not> isSpace CHR ''U''"
  "\<not> isSpace CHR ''V''"
  "\<not> isSpace CHR ''W''"
  "\<not> isSpace CHR ''X''"
  "\<not> isSpace CHR ''Y''"
  "\<not> isSpace CHR ''Z''"
  "\<not> isSpace CHR ''[''"
  "\<not> isSpace CHR '']''"
  "\<not> isSpace CHR ''^''"
  "\<not> isSpace CHR ''_''"
  "\<not> isSpace CHR ''a''"
  "\<not> isSpace CHR ''b''"
  "\<not> isSpace CHR ''c''"
  "\<not> isSpace CHR ''d''"
  "\<not> isSpace CHR ''e''"
  "\<not> isSpace CHR ''f''"
  "\<not> isSpace CHR ''g''"
  "\<not> isSpace CHR ''h''"
  "\<not> isSpace CHR ''i''"
  "\<not> isSpace CHR ''j''"
  "\<not> isSpace CHR ''k''"
  "\<not> isSpace CHR ''l''"
  "\<not> isSpace CHR ''m''"
  "\<not> isSpace CHR ''n''"
  "\<not> isSpace CHR ''o''"
  "\<not> isSpace CHR ''p''"
  "\<not> isSpace CHR ''q''"
  "\<not> isSpace CHR ''r''"
  "\<not> isSpace CHR ''s''"
  "\<not> isSpace CHR ''t''"
  "\<not> isSpace CHR ''u''"
  "\<not> isSpace CHR ''v''"
  "\<not> isSpace CHR ''w''"
  "\<not> isSpace CHR ''x''"
  "\<not> isSpace CHR ''y''"
  "\<not> isSpace CHR ''z''"
  "\<not> isSpace CHR ''{''"
  "\<not> isSpace CHR ''|''"
  "\<not> isSpace CHR ''}''"
  "\<not> isSpace CHR ''~''"
  by (simp_all add: isSpace_def)

lemma digit_facts:
  "\<not> isDigit CHR '' ''"
  "\<not> isDigit CHR ''!''"
  "\<not> isDigit CHR ''#''"
  "\<not> isDigit CHR ''$''"
  "\<not> isDigit CHR ''%''"
  "\<not> isDigit CHR ''&''"
  "\<not> isDigit CHR ''(''"
  "\<not> isDigit CHR '')''"
  "\<not> isDigit CHR ''*''"
  "\<not> isDigit CHR ''+''"
  "\<not> isDigit CHR '',''"
  "\<not> isDigit CHR ''-''"
  "\<not> isDigit CHR ''.''"
  "\<not> isDigit CHR ''/''"
  "isDigit CHR ''0''"
  "isDigit CHR ''1''"
  "isDigit CHR ''2''"
  "isDigit CHR ''3''"
  "isDigit CHR ''4''"
  "isDigit CHR ''5''"
  "isDigit CHR ''6''"
  "isDigit CHR ''7''"
  "isDigit CHR ''8''"
  "isDigit CHR ''9''"
  "\<not> isDigit CHR '':''"
  "\<not> isDigit CHR '';''"
  "\<not> isDigit CHR ''<''"
  "\<not> isDigit CHR ''=''"
  "\<not> isDigit CHR ''>''"
  "\<not> isDigit CHR ''?''"
  "\<not> isDigit CHR ''@''"
  "\<not> isDigit CHR ''A''"
  "\<not> isDigit CHR ''B''"
  "\<not> isDigit CHR ''C''"
  "\<not> isDigit CHR ''D''"
  "\<not> isDigit CHR ''E''"
  "\<not> isDigit CHR ''F''"
  "\<not> isDigit CHR ''G''"
  "\<not> isDigit CHR ''H''"
  "\<not> isDigit CHR ''I''"
  "\<not> isDigit CHR ''J''"
  "\<not> isDigit CHR ''K''"
  "\<not> isDigit CHR ''L''"
  "\<not> isDigit CHR ''M''"
  "\<not> isDigit CHR ''N''"
  "\<not> isDigit CHR ''O''"
  "\<not> isDigit CHR ''P''"
  "\<not> isDigit CHR ''Q''"
  "\<not> isDigit CHR ''R''"
  "\<not> isDigit CHR ''S''"
  "\<not> isDigit CHR ''T''"
  "\<not> isDigit CHR ''U''"
  "\<not> isDigit CHR ''V''"
  "\<not> isDigit CHR ''W''"
  "\<not> isDigit CHR ''X''"
  "\<not> isDigit CHR ''Y''"
  "\<not> isDigit CHR ''Z''"
  "\<not> isDigit CHR ''[''"
  "\<not> isDigit CHR '']''"
  "\<not> isDigit CHR ''^''"
  "\<not> isDigit CHR ''_''"
  "\<not> isDigit CHR ''a''"
  "\<not> isDigit CHR ''b''"
  "\<not> isDigit CHR ''c''"
  "\<not> isDigit CHR ''d''"
  "\<not> isDigit CHR ''e''"
  "\<not> isDigit CHR ''f''"
  "\<not> isDigit CHR ''g''"
  "\<not> isDigit CHR ''h''"
  "\<not> isDigit CHR ''i''"
  "\<not> isDigit CHR ''j''"
  "\<not> isDigit CHR ''k''"
  "\<not> isDigit CHR ''l''"
  "\<not> isDigit CHR ''m''"
  "\<not> isDigit CHR ''n''"
  "\<not> isDigit CHR ''o''"
  "\<not> isDigit CHR ''p''"
  "\<not> isDigit CHR ''q''"
  "\<not> isDigit CHR ''r''"
  "\<not> isDigit CHR ''s''"
  "\<not> isDigit CHR ''t''"
  "\<not> isDigit CHR ''u''"
  "\<not> isDigit CHR ''v''"
  "\<not> isDigit CHR ''w''"
  "\<not> isDigit CHR ''x''"
  "\<not> isDigit CHR ''y''"
  "\<not> isDigit CHR ''z''"
  "\<not> isDigit CHR ''{''"
  "\<not> isDigit CHR ''|''"
  "\<not> isDigit CHR ''}''"
  "\<not> isDigit CHR ''~''"
  by (simp_all add: isDigit_def)

lemma dot_facts:
  "isDot CHR '' ''"
  "isDot CHR ''!''"
  "isDot CHR ''#''"
  "isDot CHR ''$''"
  "isDot CHR ''%''"
  "isDot CHR ''&''"
  "isDot CHR ''(''"
  "isDot CHR '')''"
  "isDot CHR ''*''"
  "isDot CHR ''+''"
  "isDot CHR '',''"
  "isDot CHR ''-''"
  "isDot CHR ''.''"
  "isDot CHR ''/''"
  "isDot CHR ''0''"
  "isDot CHR ''1''"
  "isDot CHR ''2''"
  "isDot CHR ''3''"
  "isDot CHR ''4''"
  "isDot CHR ''5''"
  "isDot CHR ''6''"
  "isDot CHR ''7''"
  "isDot CHR ''8''"
  "isDot CHR ''9''"
  "isDot CHR '':''"
  "isDot CHR '';''"
  "isDot CHR ''<''"
  "isDot CHR ''=''"
  "isDot CHR ''>''"
  "isDot CHR ''?''"
  "isDot CHR ''@''"
  "isDot CHR ''A''"
  "isDot CHR ''B''"
  "isDot CHR ''C''"
  "isDot CHR ''D''"
  "isDot CHR ''E''"
  "isDot CHR ''F''"
  "isDot CHR ''G''"
  "isDot CHR ''H''"
  "isDot CHR ''I''"
  "isDot CHR ''J''"
  "isDot CHR ''K''"
  "isDot CHR ''L''"
  "isDot CHR ''M''"
  "isDot CHR ''N''"
  "isDot CHR ''O''"
  "isDot CHR ''P''"
  "isDot CHR ''Q''"
  "isDot CHR ''R''"
  "isDot CHR ''S''"
  "isDot CHR ''T''"
  "isDot CHR ''U''"
  "isDot CHR ''V''"
  "isDot CHR ''W''"
  "isDot CHR ''X''"
  "isDot CHR ''Y''"
  "isDot CHR ''Z''"
  "isDot CHR ''[''"
  "isDot CHR '']''"
  "isDot CHR ''^''"
  "isDot CHR ''_''"
  "isDot CHR ''a''"
  "isDot CHR ''b''"
  "isDot CHR ''c''"
  "isDot CHR ''d''"
  "isDot CHR ''e''"
  "isDot CHR ''f''"
  "isDot CHR ''g''"
  "isDot CHR ''h''"
  "isDot CHR ''i''"
  "isDot CHR ''j''"
  "isDot CHR ''k''"
  "isDot CHR ''l''"
  "isDot CHR ''m''"
  "isDot CHR ''n''"
  "isDot CHR ''o''"
  "isDot CHR ''p''"
  "isDot CHR ''q''"
  "isDot CHR ''r''"
  "isDot CHR ''s''"
  "isDot CHR ''t''"
  "isDot CHR ''u''"
  "isDot CHR ''v''"
  "isDot CHR ''w''"
  "isDot CHR ''x''"
  "isDot CHR ''y''"
  "isDot CHR ''z''"
  "isDot CHR ''{''"
  "isDot CHR ''|''"
  "isDot CHR ''}''"
  "isDot CHR ''~''"
  by (simp_all add: isDot_def)

lemma lower_facts:
  "lowerChar CHR '' '' = CHR '' ''"
  "lowerChar CHR ''!'' = CHR ''!''"
  "lowerChar CHR ''#'' = CHR ''#''"
  "lowerChar CHR ''$'' = CHR ''$''"
  "lowerChar CHR ''%'' = CHR ''%''"
  "lowerChar CHR ''&'' = CHR ''&''"
  "lowerChar CHR ''('' = CHR ''(''"
  "lowerChar CHR '')'' = CHR '')''"
  "lowerChar CHR ''*'' = CHR ''*''"
  "lowerChar CHR ''+'' = CHR ''+''"
  "lowerChar CHR '','' = CHR '',''"
  "lowerChar CHR ''-'' = CHR ''-''"
  "lowerChar CHR ''.'' = CHR ''.''"
  "lowerChar CHR ''/'' = CHR ''/''"
  "lowerChar CHR ''0'' = CHR ''0''"
  "lowerChar CHR ''1'' = CHR ''1''"
  "lowerChar CHR ''2'' = CHR ''2''"
  "lowerChar CHR ''3'' = CHR ''3''"
  "lowerChar CHR ''4'' = CHR ''4''"
  "lowerChar CHR ''5'' = CHR ''5''"
  "lowerChar CHR ''6'' = CHR ''6''"
  "lowerChar CHR ''7'' = CHR ''7''"
  "lowerChar CHR ''8'' = CHR ''8''"
  "lowerChar CHR ''9'' = CHR ''9''"
  "lowerChar CHR '':'' = CHR '':''"
  "lowerChar CHR '';'' = CHR '';''"
  "lowerChar CHR ''<'' = CHR ''<''"
  "lowerChar CHR ''='' = CHR ''=''"
  "lowerChar CHR ''>'' = CHR ''>''"
  "lowerChar CHR ''?'' = CHR ''?''"
  "lowerChar CHR ''@'' = CHR ''@''"
  "lowerChar CHR ''A'' = CHR ''a''"
  "lowerChar CHR ''B'' = CHR ''b''"
  "lowerChar CHR ''C'' = CHR ''c''"
  "lowerChar CHR ''D'' = CHR ''d''"
  "lowerChar CHR ''E'' = CHR ''e''"
  "lowerChar CHR ''F'' = CHR ''f''"
  "lowerChar CHR ''G'' = CHR ''g''"
  "lowerChar CHR ''H'' = CHR ''h''"
  "lowerChar CHR ''I'' = CHR ''i''"
  "lowerChar CHR ''J'' = CHR ''j''"
  "lowerChar CHR ''K'' = CHR ''k''"
  "lowerChar CHR ''L'' = CHR ''l''"
  "lowerChar CHR ''M'' = CHR ''m''"
  "lowerChar CHR ''N'' = CHR ''n''"
  "lowerChar CHR ''O'' = CHR ''o''"
  "lowerChar CHR ''P'' = CHR ''p''"
  "lowerChar CHR ''Q'' = CHR ''q''"
  "lowerChar CHR ''R'' = CHR ''r''"
  "lowerChar CHR ''S'' = CHR ''s''"
  "lowerChar CHR ''T'' = CHR ''t''"
  "lowerChar CHR ''U'' = CHR ''u''"
  "lowerChar CHR ''V'' = CHR ''v''"
  "lowerChar CHR ''W'' = CHR ''w''"
  "lowerChar CHR ''X'' = CHR ''x''"
  "lowerChar CHR ''Y'' = CHR ''y''"
  "lowerChar CHR ''Z'' = CHR ''z''"
  "lowerChar CHR ''['' = CHR ''[''"
  "lowerChar CHR '']'' = CHR '']''"
  "lowerChar CHR ''^'' = CHR ''^''"
  "lowerChar CHR ''_'' = CHR ''_''"
  "lowerChar CHR ''a'' = CHR ''a''"
  "lowerChar CHR ''b'' = CHR ''b''"
  "lowerChar CHR ''c'' = CHR ''c''"
  "lowerChar CHR ''d'' = CHR ''d''"
  "lowerChar CHR ''e'' = CHR ''e''"
  "lowerChar CHR ''f'' = CHR ''f''"
  "lowerChar CHR ''g'' = CHR ''g''"
  "lowerChar CHR ''h'' = CHR ''h''"
  "lowerChar CHR ''i'' = CHR ''i''"
  "lowerChar CHR ''j'' = CHR ''j''"
  "lowerChar CHR ''k'' = CHR ''k''"
  "lowerChar CHR ''l'' = CHR ''l''"
  "lowerChar CHR ''m'' = CHR ''m''"
  "lowerChar CHR ''n'' = CHR ''n''"
  "lowerChar CHR ''o'' = CHR ''o''"
  "lowerChar CHR ''p'' = CHR ''p''"
  "lowerChar CHR ''q'' = CHR ''q''"
  "lowerChar CHR ''r'' = CHR ''r''"
  "lowerChar CHR ''s'' = CHR ''s''"
  "lowerChar CHR ''t'' = CHR ''t''"
  "lowerChar CHR ''u'' = CHR ''u''"
  "lowerChar CHR ''v'' = CHR ''v''"
  "lowerChar CHR ''w'' = CHR ''w''"
  "lowerChar CHR ''x'' = CHR ''x''"
  "lowerChar CHR ''y'' = CHR ''y''"
  "lowerChar CHR ''z'' = CHR ''z''"
  "lowerChar CHR ''{'' = CHR ''{''"
  "lowerChar CHR ''|'' = CHR ''|''"
  "lowerChar CHR ''}'' = CHR ''}''"
  "lowerChar CHR ''~'' = CHR ''~''"
  by (simp_all add: lowerChar_def)

lemma metricChar_facts:
  "metricChar CHR '' ''"
  "\<not> metricChar CHR ''!''"
  "\<not> metricChar CHR ''#''"
  "\<not> metricChar CHR ''$''"
  "\<not> metricChar CHR ''%''"
  "\<not> metricChar CHR ''&''"
  "\<not> metricChar CHR ''(''"
  "\<not> metricChar CHR '')''"
  "\<not> metricChar CHR ''*''"
  "\<not> metricChar CHR ''+''"
  "\<not> metricChar CHR '',''"
  "\<not> metricChar CHR ''-''"
  "\<not> metricChar CHR ''.''"
  "metricChar CHR ''/''"
  "metricChar CHR ''0''"
  "metricChar CHR ''1''"
  "metricChar CHR ''2''"
  "metricChar CHR ''3''"
  "metricChar CHR ''4''"
  "metricChar CHR ''5''"
  "metricChar CHR ''6''"
  "metricChar CHR ''7''"
  "metricChar CHR ''8''"
  "metricChar CHR ''9''"
  "\<not> metricChar CHR '':''"
  "\<not> metricChar CHR '';''"
  "\<not> metricChar CHR ''<''"
  "\<not> metricChar CHR ''=''"
  "\<not> metricChar CHR ''>''"
  "\<not> metricChar CHR ''?''"
  "\<not> metricChar CHR ''@''"
  "\<not> metricChar CHR ''A''"
  "\<not> metricChar CHR ''B''"
  "\<not> metricChar CHR ''C''"
  "\<not> metricChar CHR ''D''"
  "\<not> metricChar CHR ''E''"
  "\<not> metricChar CHR ''F''"
  "\<not> metricChar CHR ''G''"
  "\<not> metricChar CHR ''H''"
  "\<not> metricChar CHR ''I''"
  "\<not> metricChar CHR ''J''"
  "\<not> metricChar CHR ''K''"
  "\<not> metricChar CHR ''L''"
  "\<not> metricChar CHR ''M''"
  "\<not> metricChar CHR ''N''"
  "\<not> metricChar CHR ''O''"
  "\<not> metricChar CHR ''P''"
  "\<not> metricChar CHR ''Q''"
  "\<not> metricChar CHR ''R''"
  "\<not> metricChar CHR ''S''"
  "\<not> metricChar CHR ''T''"
  "\<not> metricChar CHR ''U''"
  "\<not> metricChar CHR ''V''"
  "\<not> metricChar CHR ''W''"
  "\<not> metricChar CHR ''X''"
  "\<not> metricChar CHR ''Y''"
  "\<not> metricChar CHR ''Z''"
  "\<not> metricChar CHR ''[''"
  "\<not> metricChar CHR '']''"
  "\<not> metricChar CHR ''^''"
  "\<not> metricChar CHR ''_''"
  "metricChar CHR ''a''"
  "metricChar CHR ''b''"
  "metricChar CHR ''c''"
  "metricChar CHR ''d''"
  "metricChar CHR ''e''"
  "metricChar CHR ''f''"
  "metricChar CHR ''g''"
  "metricChar CHR ''h''"
  "metricChar CHR ''i''"
  "metricChar CHR ''j''"
  "metricChar CHR ''k''"
  "metricChar CHR ''l''"
  "metricChar CHR ''m''"
  "metricChar CHR ''n''"
  "metricChar CHR ''o''"
  "metricChar CHR ''p''"
  "metricChar CHR ''q''"
  "metricChar CHR ''r''"
  "metricChar CHR ''s''"
  "metricChar CHR ''t''"
  "metricChar CHR ''u''"
  "metricChar CHR ''v''"
  "metricChar CHR ''w''"
  "metricChar CHR ''x''"
  "metricChar CHR ''y''"
  "metricChar CHR ''z''"
  "\<not> metricChar CHR ''{''"
  "\<not> metricChar CHR ''|''"
  "\<not> metricChar CHR ''}''"
  "\<not> metricChar CHR ''~''"
  by (simp_all add: metricChar_def isDigit_def)

lemmas regex_eval = matchAt_def regexTest_def regexMatch_def cat_def str_def opt_def plus_def lazyPlus_def
  spaces_def spaces1_def digits1_def plural_def atWordBoundary_def capture_def
  wordChar_facts space_facts digit_facts dot_facts lower_facts


subsection \<open>Patterns that need a character of a given kind\<close>

text \<open>
  A pattern that must consume a character of some kind has no match in a text that holds no
  character of that kind.
\<close>

lemma deliversI:
  assumes "\<And>k st res. matchK r ci k st = Some (res::mstate) \<Longrightarrow>
             \<exists>st' w. k st' = Some res \<and> fst (snd st) = w @ fst (snd st') \<and> Q w"
  shows "delivers Q r ci"
  using assms unfolding delivers_def by blast

lemma deliversD:
  assumes "delivers Q r ci" and "matchK r ci k st = Some (res::mstate)"
  obtains st' w where "k st' = Some res" "fst (snd st) = w @ fst (snd st')" "Q w"
  using assms unfolding delivers_def by blast

lemma delivers_mono:
  assumes "delivers Q r ci" and "\<And>w. Q w \<Longrightarrow> Q' w"
  shows "delivers Q' r ci"
  using assms unfolding delivers_def by blast

lemma delivers_seq:
  assumes a: "delivers Q1 a ci" and b: "delivers Q2 b ci"
  shows "delivers (\<lambda>w. \<exists>u v. w = u @ v \<and> Q1 u \<and> Q2 v) (Seq a b) ci"
proof (rule deliversI)
  fix k st and res :: mstate
  assume "matchK (Seq a b) ci k st = Some res"
  then have "matchK a ci (matchK b ci k) st = Some res" by simp
  from deliversD[OF a this] obtain st1 u where
    1: "matchK b ci k st1 = Some res" "fst (snd st) = u @ fst (snd st1)" "Q1 u" by blast
  from deliversD[OF b 1(1)] obtain st2 v where
    2: "k st2 = Some res" "fst (snd st1) = v @ fst (snd st2)" "Q2 v" by blast
  from 1 2 have "fst (snd st) = (u @ v) @ fst (snd st2)" by simp
  with 1 2 show "\<exists>st' w. k st' = Some res \<and> fst (snd st) = w @ fst (snd st')
                   \<and> (\<exists>u v. w = u @ v \<and> Q1 u \<and> Q2 v)"
    by blast
qed

lemma delivers_starK:
  assumes a: "delivers (\<lambda>w. True) a ci"
  shows "starK g (matchK a ci) n k st = Some (res::mstate) \<Longrightarrow>
         \<exists>st' w. k st' = Some res \<and> fst (snd st) = w @ fst (snd st')"
proof (induction n arbitrary: st)
  case 0
  then show ?case by (intro exI[of _ st] exI[of _ "[]"]) simp
next
  case (Suc n)
  let ?K = "\<lambda>st'. if length (fst (snd st')) < length (fst (snd st))
                    then starK g (matchK a ci) n k st' else None"
  from Suc.prems have "matchK a ci ?K st = Some res \<or> k st = Some res"
    by (auto split: if_splits option.splits)
  then show ?case
  proof
    assume "matchK a ci ?K st = Some res"
    from deliversD[OF a this] obtain st1 u where
      1: "?K st1 = Some res" "fst (snd st) = u @ fst (snd st1)" by blast
    from 1(1) have "starK g (matchK a ci) n k st1 = Some res" by (auto split: if_splits)
    from Suc.IH[OF this] obtain st2 v where
      2: "k st2 = Some res" "fst (snd st1) = v @ fst (snd st2)" by blast
    from 1 2 have "fst (snd st) = (u @ v) @ fst (snd st2)" by simp
    with 2 show ?thesis by blast
  next
    assume "k st = Some res"
    then show ?thesis by (intro exI[of _ st] exI[of _ "[]"]) simp
  qed
qed

lemma delivers_stay:
  assumes "\<And>k st. matchK r ci k st = (if c st then k st else (None :: mstate option))"
  shows "delivers (\<lambda>w. True) r ci"
proof (rule deliversI)
  fix k st and res :: mstate
  assume "matchK r ci k st = Some res"
  with assms[of k st] have "k st = Some res" by (auto split: if_splits)
  then show "\<exists>st' w. k st' = Some res \<and> fst (snd st) = w @ fst (snd st') \<and> True"
    by (intro exI[of _ st] exI[of _ "[]"]) simp
qed

lemma delivers_char:
  assumes "\<And>k pre rest caps. matchK r ci k (pre, rest, caps) =
             (case rest of [] \<Rightarrow> (None :: mstate option)
              | x # xs \<Rightarrow> if p x then k (x # pre, xs, caps) else None)"
    and "\<And>x. p x \<Longrightarrow> Q [x]"
  shows "delivers Q r ci"
proof (rule deliversI)
  fix k st and res :: mstate
  assume m: "matchK r ci k st = Some res"
  obtain pre rest caps where st: "st = (pre, rest, caps)" by (cases st)
  with m assms(1)[of k pre rest caps]
  obtain x xs where r: "rest = x # xs" "p x" "k (x # pre, xs, caps) = Some res"
    by (auto split: list.splits if_splits)
  from r(2) assms(2) have "Q [x]" by simp
  with r st show "\<exists>st' w. k st' = Some res \<and> fst (snd st) = w @ fst (snd st') \<and> Q w"
    by (intro exI[of _ "(x # pre, xs, caps)"] exI[of _ "[x]"]) simp
qed

lemma delivers_any: "delivers (\<lambda>w. True) r ci"
proof (induction r)
  case (Chr c)
  show ?case
    by (rule delivers_char[where p = "\<lambda>x. if ci then lowerChar x = lowerChar c else x = c"]) simp_all
next
  case (CharSet p)
  show ?case
    by (rule delivers_char[where p = p]) simp_all
next
  case Eps
  show ?case by (rule delivers_stay[where c = "\<lambda>st. True"]) simp
next
  case (Seq a b)
  from delivers_seq[OF Seq.IH] show ?case by (rule delivers_mono) simp
next
  case (Alt a b)
  show ?case
  proof (rule deliversI)
    fix k st and res :: mstate
    assume "matchK (Alt a b) ci k st = Some res"
    then have "matchK a ci k st = Some res \<or> matchK b ci k st = Some res"
      by (auto split: option.splits)
    then show "\<exists>st' w. k st' = Some res \<and> fst (snd st) = w @ fst (snd st') \<and> True"
    proof
      assume "matchK a ci k st = Some res"
      from deliversD[OF Alt.IH(1) this] show ?thesis by metis
    next
      assume "matchK b ci k st = Some res"
      from deliversD[OF Alt.IH(2) this] show ?thesis by metis
    qed
  qed
next
  case (Star g a)
  show ?case
  proof (rule deliversI)
    fix k st and res :: mstate
    assume "matchK (Star g a) ci k st = Some res"
    then have "starK g (matchK a ci) (length (fst (snd st))) k st = Some res" by simp
    from delivers_starK[OF Star.IH this]
    show "\<exists>st' w. k st' = Some res \<and> fst (snd st) = w @ fst (snd st') \<and> True" by simp
  qed
next
  case (Group n a)
  show ?case
  proof (rule deliversI)
    fix k st and res :: mstate
    assume "matchK (Group n a) ci k st = Some res"
    then have "matchK a ci (\<lambda>st'. k (capture n st st')) st = Some res" by simp
    from deliversD[OF Group.IH this] obtain st1 u where
      1: "k (capture n st st1) = Some res" "fst (snd st) = u @ fst (snd st1)" by blast
    have "fst (snd (capture n st st1)) = fst (snd st1)"
      by (simp add: capture_def split: prod.splits)
    with 1 show "\<exists>st' w. k st' = Some res \<and> fst (snd st) = w @ fst (snd st') \<and> True"
      by (metis)
  qed
next
  case WordBoundary
  show ?case by (rule delivers_stay[where c = atWordBoundary]) simp
next
  case LineStart
  show ?case by (rule delivers_stay[where c = "\<lambda>st. fst st = []"]) simp
next
  case LineEnd
  show ?case by (rule delivers_stay[where c = "\<lambda>st. fst (snd st) = []"]) simp
qed

lemma consumes_charset:
  assumes "\<And>x. p x \<Longrightarrow> P x"
  shows "delivers (hasChar P) (CharSet p) ci"
  by (rule delivers_char[where p = p]) (simp_all add: hasChar_def assms)

lemma consumes_left:
  assumes "delivers (hasChar P) a ci"
  shows "delivers (hasChar P) (Seq a b) ci"
  by (rule delivers_mono[OF delivers_seq[OF assms delivers_any]]) (auto simp: hasChar_def)

lemma consumes_right:
  assumes "delivers (hasChar P) b ci"
  shows "delivers (hasChar P) (Seq a b) ci"
  by (rule delivers_mono[OF delivers_seq[OF delivers_any assms]]) (auto simp: hasChar_def)

lemma consumes_group:
  assumes "delivers (hasChar P) a ci"
  shows "delivers (hasChar P) (Group n a) ci"
proof (rule deliversI)
  fix k st and res :: mstate
  assume "matchK (Group n a) ci k st = Some res"
  then have "matchK a ci (\<lambda>st'. k (capture n st st')) st = Some res" by simp
  from deliversD[OF assms this] obtain st1 u where
    1: "k (capture n st st1) = Some res" "fst (snd st) = u @ fst (snd st1)" "hasChar P u" by blast
  have "fst (snd (capture n st st1)) = fst (snd st1)"
    by (simp add: capture_def split: prod.splits)
  with 1 show "\<exists>st' w. k st' = Some res \<and> fst (snd st) = w @ fst (snd st') \<and> hasChar P w"
    by metis
qed

lemma no_match_without:
  assumes d: "delivers (hasChar P) r ci" and t: "\<not> hasChar P s"
  shows "searchFrom r ci p0 s = None"
  using t
proof (induction s arbitrary: p0)
  case Nil
  have "matchAt r ci p0 [] = None"
  proof (rule ccontr)
    assume "matchAt r ci p0 [] \<noteq> None"
    then obtain res where "matchK r ci Some (p0, [], []) = Some res" by (auto simp: matchAt_def)
    with d have "\<exists>st' w. Some st' = Some res \<and> fst (snd (p0, ([]::string), ([]::(nat \<times> string) list)))
                     = w @ fst (snd st') \<and> hasChar P w"
      unfolding delivers_def by blast
    then show False by (auto simp: hasChar_def)
  qed
  then show ?case by simp
next
  case (Cons x xs)
  have "matchAt r ci p0 (x # xs) = None"
  proof (rule ccontr)
    assume "matchAt r ci p0 (x # xs) \<noteq> None"
    then obtain res where "matchK r ci Some (p0, x # xs, []) = Some res" by (auto simp: matchAt_def)
    with d have "\<exists>st' w. Some st' = Some res \<and> fst (snd (p0, x # xs, ([]::(nat \<times> string) list)))
                     = w @ fst (snd st') \<and> hasChar P w"
      unfolding delivers_def by blast
    then obtain w v where w: "x # xs = w @ v" "hasChar P w" by auto
    then have "set w \<subseteq> set (x # xs)" by (metis set_append sup_ge1)
    with w(2) have "hasChar P (x # xs)" by (auto simp: hasChar_def list_ex_iff)
    with Cons.prems show False by simp
  qed
  moreover from Cons.prems have "\<not> hasChar P xs" by (simp add: hasChar_def)
  ultimately show ?case using Cons.IH by simp
qed

text \<open>The first element that satisfies a predicate, in a list sorted by a key.\<close>

lemma find_first_sorted:
  assumes s: "sorted (map f ys)" and k: "k \<in> set ys" and p: "P k"
    and u: "\<forall>x\<in>set ys. P x \<and> x \<noteq> k \<longrightarrow> f k < f x"
  shows "List.find P ys = Some k"
  using s k u
proof (induction ys)
  case Nil
  then show ?case by simp
next
  case (Cons y ys)
  show ?case
  proof (cases "y = k")
    case True
    with p show ?thesis by simp
  next
    case False
    with Cons.prems(2) have kin: "k \<in> set ys" by simp
    from Cons.prems(1) kin have "f y \<le> f k" by auto
    with Cons.prems(3) False have "\<not> P y" by fastforce
    moreover from Cons.prems have "List.find P ys = Some k"
      by (intro Cons.IH) (use kin in auto)
    ultimately show ?thesis by simp
  qed
qed

lemma find_sort_key:
  assumes "k \<in> set xs" and "P k" and "\<forall>x\<in>set xs. P x \<and> x \<noteq> k \<longrightarrow> f k < f x"
  shows "List.find P (sort_key f xs) = Some k"
  by (rule find_first_sorted[where f = f]) (use assms in auto)

subsection \<open>Texts inside the SQL\<close>

text \<open>\<open>strIncludes s sub\<close> says that \<open>sub\<close> occurs in \<open>s\<close>.\<close>

lemma hasPrefix_iff: "hasPrefix p s \<longleftrightarrow> (\<exists>b. s = p @ b)"
  by (induction p s rule: hasPrefix.induct) auto

lemma strIncludes_iff: "strIncludes s sub \<longleftrightarrow> (\<exists>a b. s = a @ sub @ b)"
proof (induction s)
  case Nil
  then show ?case by simp
next
  case (Cons c cs)
  have "(\<exists>a b. c # cs = a @ sub @ b) \<longleftrightarrow> (\<exists>b. c # cs = sub @ b) \<or> (\<exists>a b. cs = a @ sub @ b)"
  proof
    assume "\<exists>a b. c # cs = a @ sub @ b"
    then obtain a b where ab: "c # cs = a @ sub @ b" by blast
    show "(\<exists>b. c # cs = sub @ b) \<or> (\<exists>a b. cs = a @ sub @ b)"
    proof (cases a)
      case Nil
      with ab show ?thesis by auto
    next
      case (Cons x xs)
      with ab have "cs = xs @ sub @ b" by simp
      then show ?thesis by blast
    qed
  next
    assume "(\<exists>b. c # cs = sub @ b) \<or> (\<exists>a b. cs = a @ sub @ b)"
    then show "\<exists>a b. c # cs = a @ sub @ b"
    proof
      assume "\<exists>b. c # cs = sub @ b"
      then obtain b where "c # cs = [] @ sub @ b" by auto
      then show ?thesis by blast
    next
      assume "\<exists>a b. cs = a @ sub @ b"
      then obtain a b where "c # cs = (c # a) @ sub @ b" by auto
      then show ?thesis by blast
    qed
  qed
  with Cons show ?case by (simp add: hasPrefix_iff)
qed

lemma strIncludes_trans:
  assumes "strIncludes s l" and "strIncludes l x"
  shows "strIncludes s x"
proof -
  from assms obtain a b c d where "s = a @ l @ b" "l = c @ x @ d"
    unfolding strIncludes_iff by blast
  then have "s = (a @ c) @ x @ (d @ b)" by simp
  then show ?thesis unfolding strIncludes_iff by blast
qed

lemma joinWith_append:
  "xs \<noteq> [] \<Longrightarrow> ys \<noteq> [] \<Longrightarrow> joinWith sep (xs @ ys) = joinWith sep xs @ sep @ joinWith sep ys"
proof (induction sep xs rule: joinWith.induct)
  case (2 sep x)
  then show ?case by (cases ys) simp_all
qed simp_all

lemma joinWith_member:
  "x \<in> set xs \<Longrightarrow> strIncludes (joinWith sep xs) x"
proof (induction sep xs rule: joinWith.induct)
  case (2 sep y)
  then have "joinWith sep [y] = [] @ x @ []" by simp
  then show ?case unfolding strIncludes_iff by blast
next
  case (3 sep y z zs)
  show ?case
  proof (cases "x = y")
    case True
    then have "joinWith sep (y # z # zs) = [] @ x @ (sep @ joinWith sep (z # zs))" by simp
    then show ?thesis unfolding strIncludes_iff by blast
  next
    case False
    with 3 have "strIncludes (joinWith sep (z # zs)) x" by simp
    then obtain a b where "joinWith sep (z # zs) = a @ x @ b" unfolding strIncludes_iff by blast
    then have "joinWith sep (y # z # zs) = (y @ sep @ a) @ x @ b" by simp
    then show ?thesis unfolding strIncludes_iff by blast
  qed
qed simp

text \<open>
  The SQL that \<open>compile\<close> assembles has the line \<open>WHERE\<close> with the where clause,
  between two line breaks, and holds each of the joins.
\<close>

lemma sql_where_line:
  "strIncludes (joinWith ''\<newline>'' (filter (\<lambda>line. line \<noteq> []) (sqlLines J P W ob n)))
     (''\<newline>'' @ (''WHERE '' @ W) @ ''\<newline>'')"
proof -
  let ?ls = "sqlLines J P W ob n"
  let ?ne = "\<lambda>line::string. line \<noteq> []"
  have len: "length ?ls = 40" by (simp add: sqlLines_def)
  have d: "drop 37 ?ls = [''WHERE '' @ W, ''ORDER BY '' @ ob, ''LIMIT '' @ placeholder n]"
    by (simp add: sqlLines_def)
  have h: "''SELECT DISTINCT'' \<in> set (take 37 ?ls)"
    by (simp add: sqlLines_def)
  then have a: "filter ?ne (take 37 ?ls) \<noteq> []"
    by (auto simp: filter_empty_conv)
  have "?ls = take 37 ?ls @ drop 37 ?ls" by simp
  then have "filter ?ne ?ls = filter ?ne (take 37 ?ls) @ filter ?ne (drop 37 ?ls)"
    by (metis filter_append)
  also have "filter ?ne (drop 37 ?ls) = [''WHERE '' @ W, ''ORDER BY '' @ ob, ''LIMIT '' @ placeholder n]"
    unfolding d by simp
  finally have "joinWith ''\<newline>'' (filter ?ne ?ls)
      = joinWith ''\<newline>'' (filter ?ne (take 37 ?ls)) @ ''\<newline>''
        @ joinWith ''\<newline>'' [''WHERE '' @ W, ''ORDER BY '' @ ob, ''LIMIT '' @ placeholder n]"
    using a by (simp add: joinWith_append del: joinWith.simps)
  then have "joinWith ''\<newline>'' (filter ?ne ?ls)
      = joinWith ''\<newline>'' (filter ?ne (take 37 ?ls)) @ (''\<newline>'' @ (''WHERE '' @ W) @ ''\<newline>'')
        @ joinWith ''\<newline>'' [''ORDER BY '' @ ob, ''LIMIT '' @ placeholder n]"
    by simp
  then show ?thesis unfolding strIncludes_iff by blast
qed

lemma sql_join:
  assumes "j \<in> set js" and "j \<noteq> []"
  shows "strIncludes (joinWith ''\<newline>'' (filter (\<lambda>line. line \<noteq> [])
                        (sqlLines (joinWith ''\<newline>'' js) P W ob n))) j"
proof -
  have 1: "strIncludes (joinWith ''\<newline>'' js) j" using assms(1) by (rule joinWith_member)
  then obtain a b where "joinWith ''\<newline>'' js = a @ j @ b" unfolding strIncludes_iff by blast
  with assms(2) have ne: "joinWith ''\<newline>'' js \<noteq> []" by auto
  have "joinWith ''\<newline>'' js \<in> set (sqlLines (joinWith ''\<newline>'' js) P W ob n)"
    by (simp add: sqlLines_def)
  with ne have "joinWith ''\<newline>'' js
      \<in> set (filter (\<lambda>line. line \<noteq> []) (sqlLines (joinWith ''\<newline>'' js) P W ob n))"
    by simp
  then have "strIncludes (joinWith ''\<newline>'' (filter (\<lambda>line. line \<noteq> [])
                        (sqlLines (joinWith ''\<newline>'' js) P W ob n))) (joinWith ''\<newline>'' js)"
    by (rule joinWith_member)
  from strIncludes_trans[OF this 1] show ?thesis .
qed
section \<open>Claims about the validator\<close>

text \<open>
  Claim C2, as stated: two constant comparisons on one field at the same AND level are
  accepted only if their intersection is non-empty, and
  \<open>{and:[{pe_ratio > 50},{pe_ratio < 5}]}\<close> is rejected with a LogicalConflict error.
  The validator has no such check: the tree of the example is accepted without any
  error.
\<close>

theorem conflicting_comparisons_counterexample:
  "validate (dslOf (JObj [(''and'', JArr [cmp ''pe_ratio'' ''>'' (JNum 50), cmp ''pe_ratio'' ''<'' (JNum 5)])]))
     = Inr \<lparr>valid = True, errors = [],
             sanitizedDSL = dslOf (JObj [(''and'', JArr [cmp ''pe_ratio'' ''>'' (JNum 50),
                                                          cmp ''pe_ratio'' ''<'' (JNum 5)])])\<rparr>"
  by (simp add: validate_def dslOf_def cmp_def validateFilter_JObj ownKeyOrder_def arrayIndexOf_def isCondition_def validateCondition_def
        valueShapeErrors_def
        ALLOWED_LOGICAL_OPERATORS_def ALLOWED_FIELDS_def ALLOWED_OPERATORS_def)

text \<open>
  Claim C2, amended: for every allowed field and every two comparison operators with
  numeric constants, the validator accepts the conjunction of the two conditions,
  whether or not the two constraints can hold together; it reports no error and
  returns the tree unchanged.
\<close>

theorem no_conflict_check:
  assumes "f \<in> set ALLOWED_FIELDS" and "op1 \<in> set comparisonOperators" and "op2 \<in> set comparisonOperators"
  shows "validate (dslOf (JObj [(''and'', JArr [cmp f op1 (JNum a), cmp f op2 (JNum b)])]))
         = Inr \<lparr>valid = True, errors = [],
                 sanitizedDSL = dslOf (JObj [(''and'', JArr [cmp f op1 (JNum a), cmp f op2 (JNum b)])])\<rparr>"
  using comparison_condition_ok[OF assms(1) assms(2)] comparison_condition_ok[OF assms(1) assms(3)]
  by (simp add: validate_def dslOf_def validateFilter_JObj ownKeyOrder_def arrayIndexOf_def ALLOWED_LOGICAL_OPERATORS_def)

theorem no_conflict_check_witness:
  "''pe_ratio'' \<in> set ALLOWED_FIELDS \<and> ''>'' \<in> set comparisonOperators \<and> ''<'' \<in> set comparisonOperators \<and>
   validate (dslOf (JObj [(''and'', JArr [cmp ''pe_ratio'' ''>'' (JNum 50), cmp ''pe_ratio'' ''<'' (JNum 5)])]))
         = Inr \<lparr>valid = True, errors = [],
                 sanitizedDSL = dslOf (JObj [(''and'', JArr [cmp ''pe_ratio'' ''>'' (JNum 50), cmp ''pe_ratio'' ''<'' (JNum 5)])])\<rparr>"
proof -
  have h1: "''pe_ratio'' \<in> set ALLOWED_FIELDS" by (simp add: ALLOWED_FIELDS_def)
  have h2: "''>'' \<in> set comparisonOperators" by (simp add: comparisonOperators_def)
  have h3: "''<'' \<in> set comparisonOperators" by (simp add: comparisonOperators_def)
  show ?thesis using h1 h2 h3 no_conflict_check[OF h1 h2 h3, of 50 5] by simp
qed




text \<open>
  Claim C6, as stated: a period is accepted for five period types and eight
  aggregations. The validator rejects the type \<open>last_n_years\<close> and the aggregation
  \<open>min\<close>.
\<close>

theorem period_types_counterexample:
  "fst (validateCondition (cmpPeriod ''net_income'' ''>'' (JNum 0) (periodOf ''last_n_years'' 4 ''all'')))
     = [PeriodTypeMustBeLastNQuarters] \<and>
   fst (validateCondition (cmpPeriod ''net_income'' ''>'' (JNum 0) (periodOf ''last_n_quarters'' 4 ''min'')))
     = [InvalidPeriodAggregation (JStr ''min'')]"
  by (simp add: validateCondition_errors cmpPeriod_def periodOf_def valueShapeErrors_def periodErrors_def
        ALLOWED_FIELDS_def ALLOWED_OPERATORS_def ALLOWED_AGGREGATIONS_def)

text \<open>
  Claim C6, amended: on a condition that is otherwise valid, a period is accepted
  exactly when it is an object whose \<open>type\<close> is \<open>last_n_quarters\<close>, whose \<open>n\<close> is a
  number in [1, 20], and whose \<open>aggregation\<close> is absent (falsy) or one of \<open>all\<close>,
  \<open>any\<close>, \<open>avg\<close>, \<open>sum\<close>, \<open>latest\<close>.
\<close>

theorem period_accepted_iff:
  assumes "f \<in> set ALLOWED_FIELDS" and "op \<in> set comparisonOperators" and "truthy p"
  shows "fst (validateCondition (cmpPeriod f op (JNum v) p)) = [] \<longleftrightarrow>
           typeof p = TObject \<and>
           jget p ''type'' = JStr ''last_n_quarters'' \<and>
           (\<exists>r. jget p ''n'' = JNum r \<and> 1 \<le> r \<and> r \<le> 20) \<and>
           (truthy (jget p ''aggregation'') \<longrightarrow>
              jsIncludes ALLOWED_AGGREGATIONS (jget p ''aggregation''))"
proof (cases "typeof p = TObject")
  case True
  show ?thesis
    using allowed_field_nonempty[OF assms(1)] comparisonOperators_props[OF assms(2)] assms(1,3) True
    by (simp add: validateCondition_errors cmpPeriod_def valueShapeErrors_def
          periodErrors_empty_iff[OF True])
next
  case False
  show ?thesis
    using allowed_field_nonempty[OF assms(1)] comparisonOperators_props[OF assms(2)] assms(1,3) False
    by (simp add: validateCondition_errors cmpPeriod_def valueShapeErrors_def periodErrors_def)
qed

theorem period_accepted_iff_witness:
  "''net_income'' \<in> set ALLOWED_FIELDS \<and> ''>'' \<in> set comparisonOperators \<and>
   truthy (periodOf ''last_n_quarters'' 4 ''all'') \<and>
   fst (validateCondition (cmpPeriod ''net_income'' ''>'' (JNum 0) (periodOf ''last_n_quarters'' 4 ''all''))) = []"
proof -
  have h1: "''net_income'' \<in> set ALLOWED_FIELDS" by (simp add: ALLOWED_FIELDS_def)
  have h2: "''>'' \<in> set comparisonOperators" by (simp add: comparisonOperators_def)
  have h3: "truthy (periodOf ''last_n_quarters'' 4 ''all'')" by (simp add: periodOf_def)
  show ?thesis
    using h1 h2 h3 period_accepted_iff[OF h1 h2 h3, of 0]
    by (simp add: periodOf_def ALLOWED_AGGREGATIONS_def)
qed

text \<open>
  Claim C7, as stated: a \<open>between\<close> pair with equal or inverted bounds is rejected.
  The validator checks the shape only: the inverted pair [20, 10] and the equal pair
  [10, 10] are accepted.
\<close>

theorem between_inverted_counterexample:
  "fst (validateCondition (cmp ''pe_ratio'' ''between'' (JArr [JNum 20, JNum 10]))) = [] \<and>
   fst (validateCondition (cmp ''pe_ratio'' ''between'' (JArr [JNum 10, JNum 10]))) = []"
  by (simp add: cmp_def validateCondition_def valueShapeErrors_def
        ALLOWED_FIELDS_def ALLOWED_OPERATORS_def)

text \<open>
  Claim C7, amended: for a condition on an allowed field with operator \<open>between\<close>
  (not a cross-field comparison, no period), the validator accepts the value exactly
  when it is an array of two elements, in any order.
\<close>

theorem between_accepts_any_pair:
  assumes "jsIncludes ALLOWED_FIELDS (jget c ''field'')"
    and "jget c ''operator'' = JStr ''between''"
    and "\<not> truthy (jget c ''value_is_field'')"
    and "\<not> truthy (jget c ''period'')"
  shows "fst (validateCondition c) = [] \<longleftrightarrow> (\<exists>a b. jget c ''value'' = JArr [a, b])"
proof -
  have f: "truthy (jget c ''field'')" using assms(1) by (cases "jget c ''field''") (auto simp: ALLOWED_FIELDS_def)
  have l: "(length xs = 2) = (\<exists>a b. xs = [a, b])" for xs :: "jsval list"
    by (auto simp: length_Suc_conv numeral_2_eq_2)
  show ?thesis using assms f
    apply (simp add: validateCondition_errors ALLOWED_OPERATORS_def valueShapeErrors_def)
    apply (cases "jget c ''value''")
            apply (auto simp: l)
    done
qed

theorem between_accepts_any_pair_witness:
  "jsIncludes ALLOWED_FIELDS (jget (cmp ''pe_ratio'' ''between'' (JArr [JNum 20, JNum 10])) ''field'') \<and>
   jget (cmp ''pe_ratio'' ''between'' (JArr [JNum 20, JNum 10])) ''operator'' = JStr ''between'' \<and>
   \<not> truthy (jget (cmp ''pe_ratio'' ''between'' (JArr [JNum 20, JNum 10])) ''value_is_field'') \<and>
   \<not> truthy (jget (cmp ''pe_ratio'' ''between'' (JArr [JNum 20, JNum 10])) ''period'') \<and>
   fst (validateCondition (cmp ''pe_ratio'' ''between'' (JArr [JNum 20, JNum 10]))) = []"
proof -
  let ?c = "cmp ''pe_ratio'' ''between'' (JArr [JNum 20, JNum 10])"
  have h1: "jsIncludes ALLOWED_FIELDS (jget ?c ''field'')" by (simp add: cmp_def ALLOWED_FIELDS_def)
  have h2: "jget ?c ''operator'' = JStr ''between''" by (simp add: cmp_def)
  have h3: "\<not> truthy (jget ?c ''value_is_field'')" by (simp add: cmp_def)
  have h4: "\<not> truthy (jget ?c ''period'')" by (simp add: cmp_def)
  have h5: "\<exists>a b. jget ?c ''value'' = JArr [a, b]" by (simp add: cmp_def)
  show ?thesis using h1 h2 h3 h4 h5 between_accepts_any_pair[OF h1 h2 h3 h4] by simp
qed

section \<open>Claims about the compiler\<close>

text \<open>
  Claim C3, as stated: every condition with period aggregation \<open>all\<close> on a
  \<open>fundamentals_quarterly\<close> field compiles to a NOT EXISTS subquery with the inverted
  operator. The field \<open>debt_to_fcf\<close> belongs to \<open>fundamentals_quarterly\<close> and the
  validator accepts a period on it, but the compiler takes the derived-field branch
  first: no subquery, and N is not a parameter.
\<close>

theorem period_all_derived_counterexample:
  "map_option table (map_of FIELD_TABLE_MAP ''debt_to_fcf'') = Some ''fundamentals_quarterly'' \<and>
   fst (validateCondition (cmpPeriod ''debt_to_fcf'' ''<'' (JNum 3) (periodOf ''last_n_quarters'' 4 ''all''))) = [] \<and>
   compileCondition (cmpPeriod ''debt_to_fcf'' ''<'' (JNum 3) (periodOf ''last_n_quarters'' 4 ''all''))
       initialContext
     = Inr (''(fq.total_debt::numeric / NULLIF(fq.free_cash_flow::numeric, 0)) < $1'',
            \<lparr>params = [JNum 3], paramCounter = 2,
             requiredTables = [''companies'', ''fundamentals_quarterly''], periodSubqueries = []\<rparr>)"
  by code_simp

text \<open>
  Claim C3, amended: for every condition that is not a cross-field comparison, on a
  plain (not derived) column of \<open>fundamentals_quarterly\<close>, with one of the six
  comparison operators and a period whose aggregation is \<open>all\<close> (or left out), the
  compiler emits the NOT EXISTS subquery over the last N non-null rows (ordered by id
  DESC, LIMIT a placeholder) whose inner WHERE uses the logical inverse of the
  operator, and pushes the comparison value and then N as parameters.
\<close>

theorem period_all_not_exists:
  assumes f: "f \<in> set fqColumns"
    and op: "op \<in> set comparisonOperators"
    and c: "jget c ''field'' = JStr f" "jget c ''operator'' = JStr op"
           "\<not> truthy (jget c ''value_is_field'')" "truthy (jget c ''period'')"
    and agg: "jget (jget c ''period'') ''aggregation'' = JStr ''all''
              \<or> jget (jget c ''period'') ''aggregation'' = JUndefined"
  shows "compileCondition c ctx =
     Inr (joinWith '' ''
            [''NOT EXISTS ('',
             ''  SELECT 1 FROM ('',
             ''    SELECT '' @ f @ '' FROM fundamentals_quarterly'',
             ''    WHERE ticker = c.ticker AND '' @ f @ '' IS NOT NULL'',
             ''    ORDER BY id DESC LIMIT '' @ placeholder (paramCounter ctx + 1),
             ''  ) pq_'' @ showNat (paramCounter ctx),
             ''  WHERE pq_'' @ showNat (paramCounter ctx) @ ''.'' @ f @ '' '' @ logicalInverse op @ '' ''
               @ placeholder (paramCounter ctx),
             '')''],
          ctx\<lparr>params := params ctx @ [jget c ''value'', jget (jget c ''period'') ''n''],
              paramCounter := paramCounter ctx + 2\<rparr>)"
proof -
  have nf: "f \<notin> set [''sector'', ''exchange'', ''industry'']"
      "f \<notin> set [''last_buyback_date'', ''next_earnings_date'']"
    using f unfolding fqColumns_eq by auto
  have a: "(if jget (jget c ''period'') ''aggregation'' = JUndefined then JStr ''all''
            else jget (jget c ''period'') ''aggregation'') = JStr ''all''"
    using agg by auto
  have p: "compilePeriodCondition c \<lparr>table = ''fundamentals_quarterly'', column = f, derived = False, sql = None\<rparr> ctx
     = Inr (joinWith '' ''
            [''NOT EXISTS ('',
             ''  SELECT 1 FROM ('',
             ''    SELECT '' @ f @ '' FROM fundamentals_quarterly'',
             ''    WHERE ticker = c.ticker AND '' @ f @ '' IS NOT NULL'',
             ''    ORDER BY id DESC LIMIT '' @ placeholder (paramCounter ctx + 1),
             ''  ) pq_'' @ showNat (paramCounter ctx),
             ''  WHERE pq_'' @ showNat (paramCounter ctx) @ ''.'' @ f @ '' '' @ logicalInverse op @ '' ''
               @ placeholder (paramCounter ctx),
             '')''],
          ctx\<lparr>params := params ctx @ [jget c ''value'', jget (jget c ''period'') ''n''],
              paramCounter := paramCounter ctx + 2\<rparr>)"
    unfolding compilePeriodCondition_def Let_def a
    by (simp add: c invert_comparison[OF op] lastRowsSubquery_def)
  show ?thesis
    unfolding compileCondition_def Let_def c lookup_fq[OF f]
    using nf c p by (simp add: PERIOD_CAPABLE_TABLES_def)
qed

theorem period_all_not_exists_witness:
  "''net_income'' \<in> set fqColumns \<and> ''>'' \<in> set comparisonOperators \<and>
   compileCondition (cmpPeriod ''net_income'' ''>'' (JNum 0) (periodOf ''last_n_quarters'' 4 ''all''))
       initialContext
     = Inr (''NOT EXISTS (   SELECT 1 FROM (     SELECT net_income FROM fundamentals_quarterly     WHERE ticker = c.ticker AND net_income IS NOT NULL     ORDER BY id DESC LIMIT $2   ) pq_1   WHERE pq_1.net_income <= $1 )'',
            \<lparr>params = [JNum 0, JNum 4], paramCounter = 3,
             requiredTables = [''companies''], periodSubqueries = []\<rparr>)"
proof -
  let ?c = "cmpPeriod ''net_income'' ''>'' (JNum 0) (periodOf ''last_n_quarters'' 4 ''all'')"
  have h1: "''net_income'' \<in> set fqColumns" by (simp add: fqColumns_eq)
  have h2: "''>'' \<in> set comparisonOperators" by (simp add: comparisonOperators_def)
  have h3: "jget ?c ''field'' = JStr ''net_income''" by (simp add: cmpPeriod_def)
  have h4: "jget ?c ''operator'' = JStr ''>''" by (simp add: cmpPeriod_def)
  have h5: "\<not> truthy (jget ?c ''value_is_field'')" by (simp add: cmpPeriod_def)
  have h6: "truthy (jget ?c ''period'')" by (simp add: cmpPeriod_def periodOf_def)
  have h7: "jget (jget ?c ''period'') ''aggregation'' = JStr ''all''
              \<or> jget (jget ?c ''period'') ''aggregation'' = JUndefined"
    by (simp add: cmpPeriod_def periodOf_def)
  show ?thesis
    using h1 h2 period_all_not_exists[OF h1 h2 h3 h4 h5 h6 h7, of initialContext]
    by (simp add: cmpPeriod_def periodOf_def initialContext_def placeholder_def showNat.simps
          digitChar_def logicalInverse_def)
qed

text \<open>
  Claim C1: the validator lists \<open>all_quarters\<close> among its allowed operators, and the
  compiler has no case for it. This tree is accepted by \<open>validate\<close>, and
  \<open>compile\<close> throws \<open>Unsupported operator: all_quarters\<close> on it.
\<close>

theorem accepted_tree_compile_throws:
  "validate (dslOf (JObj [(''and'', JArr [cmp ''pe_ratio'' ''all_quarters'' (JNum 4)])]))
     = Inr \<lparr>valid = True, errors = [],
             sanitizedDSL = dslOf (JObj [(''and'', JArr [cmp ''pe_ratio'' ''all_quarters'' (JNum 4)])])\<rparr> \<and>
   compile (dslOf (JObj [(''and'', JArr [cmp ''pe_ratio'' ''all_quarters'' (JNum 4)])]))
     = Inl (UnsupportedOperatorError (JStr ''all_quarters''))"
  by code_simp

theorem accepted_tree_compile_throws_witness:
  "(\<exists>r. validate (dslOf (JObj [(''and'', JArr [cmp ''pe_ratio'' ''all_quarters'' (JNum 4)])])) = Inr r
        \<and> valid r) \<and>
   (\<exists>e. compile (dslOf (JObj [(''and'', JArr [cmp ''pe_ratio'' ''all_quarters'' (JNum 4)])])) = Inl e)"
  using accepted_tree_compile_throws by simp

section \<open>Claims about the alert processor\<close>

text \<open>
  Claim C10: an alert of type \<open>price_threshold\<close> or \<open>fundamental_condition\<close> whose
  comparison value is the number 0 never triggers, whatever quote, metadata and
  fundamentals were fetched and whatever the runtime does with other values: the
  evaluation creates no notification and leaves the database as it is.
\<close>

theorem zero_value_never_triggers:
  assumes "(alert_type alert = JStr ''price_threshold'' \<and> jget (condition_json alert) ''value'' = JNum 0)
         \<or> (alert_type alert = JStr ''fundamental_condition''
              \<and> jget (condition_json alert) ''fundamental_value'' = JNum 0)"
  shows "(\<forall>msg. alertDecision rt now alert quote metadata fundamentals \<noteq> Inr (True, msg))
         \<and> evaluateAlert rt now alert quote metadata fundamentals db = db"
proof -
  have d: "\<forall>msg. alertDecision rt now alert quote metadata fundamentals \<noteq> Inr (True, msg)"
    using assms
  proof
    assume a: "alert_type alert = JStr ''price_threshold'' \<and> jget (condition_json alert) ''value'' = JNum 0"
    then have "jor (condition_json alert) (JObj []) = condition_json alert"
      by (intro zero_value_object[of _ "''value''"]) auto
    with a show ?thesis
      by (auto simp: alertDecision_def checkPriceThreshold_def Let_def)
  next
    assume a: "alert_type alert = JStr ''fundamental_condition''
              \<and> jget (condition_json alert) ''fundamental_value'' = JNum 0"
    then have "jor (condition_json alert) (JObj []) = condition_json alert"
      by (intro zero_value_object[of _ "''fundamental_value''"]) auto
    with a show ?thesis
      by (auto simp: alertDecision_def checkFundamentalCondition_def Let_def split: jsval.splits)
  qed
  then show ?thesis
    by (auto simp: evaluateAlert_def split: sum.splits)
qed

theorem zero_value_never_triggers_witness:
  "((alert_type zeroPriceAlert = JStr ''price_threshold''
       \<and> jget (condition_json zeroPriceAlert) ''value'' = JNum 0)
    \<or> (alert_type zeroPriceAlert = JStr ''fundamental_condition''
       \<and> jget (condition_json zeroPriceAlert) ''fundamental_value'' = JNum 0)) \<and>
   (\<forall>msg. alertDecision plainRuntime 0 zeroPriceAlert (JObj [(''price'', JNum 3500)]) JNull JNull
            \<noteq> Inr (True, msg)) \<and>
   evaluateAlert plainRuntime 0 zeroPriceAlert (JObj [(''price'', JNum 3500)]) JNull JNull
       \<lparr>alert_subscriptions = [zeroPriceAlert], notifications = []\<rparr>
     = \<lparr>alert_subscriptions = [zeroPriceAlert], notifications = []\<rparr>"
proof -
  have h: "(alert_type zeroPriceAlert = JStr ''price_threshold''
       \<and> jget (condition_json zeroPriceAlert) ''value'' = JNum 0)
    \<or> (alert_type zeroPriceAlert = JStr ''fundamental_condition''
       \<and> jget (condition_json zeroPriceAlert) ''fundamental_value'' = JNum 0)"
    by (simp add: zeroPriceAlert_def)
  show ?thesis
    using h zero_value_never_triggers[OF h, of plainRuntime 0 "JObj [(''price'', JNum 3500)]" JNull JNull
        "\<lparr>alert_subscriptions = [zeroPriceAlert], notifications = []\<rparr>"]
    by blast
qed

text \<open>
  A refused UPDATE leaves the notification in the log and \<open>last_triggered\<close> as
  it was, so the next cycle selects the subscription and notifies again, a minute
  later, although the two cycles do not overlap.
\<close>

lemma refused_update_notifies_again:
  "map (\<lambda>n. (n_alert_id n, triggered_at n))
     (notifications (fst (start refusingRuntime peFetch
        [Tick 0, Resume 0 1000, Tick checkInterval, Resume 0 61000]
        \<lparr>alert_subscriptions = [peAlert], notifications = []\<rparr>)))
     = [(1, 1000), (1, 61000)]"
  by code_simp

text \<open>
  Claim C9, which the processor does not keep: a subscription emits at most one
  notification per window of one day. The timer of \<open>start\<close> calls \<open>processAlerts\<close>
  every 60 seconds without waiting for the cycle before. Here the first cycle selects
  the subscription at time 0 and is still waiting for its data when the second cycle
  selects it again at 60000 ms, \<open>last_triggered\<close> being still NULL. Both cycles then
  evaluate the row they hold and both trigger: two notifications of subscription 1,
  one second apart. \<open>evaluateAlert\<close> never reads \<open>last_triggered\<close> again.
  When the first cycle ends before the second begins, the same data give one
  notification.
\<close>

theorem overlapping_cycles_notify_twice:
  "map (\<lambda>n. (n_alert_id n, triggered_at n))
     (notifications (fst (start plainRuntime peFetch
        [Tick 0, Tick checkInterval, Resume 0 61000, Resume 0 62000]
        \<lparr>alert_subscriptions = [peAlert], notifications = []\<rparr>)))
     = [(1, 61000), (1, 62000)] \<and>
   \<not> spaced (notifications (fst (start plainRuntime peFetch
        [Tick 0, Tick checkInterval, Resume 0 61000, Resume 0 62000]
        \<lparr>alert_subscriptions = [peAlert], notifications = []\<rparr>))) \<and>
   map (\<lambda>n. (n_alert_id n, triggered_at n))
     (notifications (fst (start plainRuntime peFetch
        [Tick 0, Resume 0 1000, Tick checkInterval, Resume 0 61000]
        \<lparr>alert_subscriptions = [peAlert], notifications = []\<rparr>)))
     = [(1, 1000)]"
  by code_simp

theorem overlapping_cycles_notify_twice_witness:
  "\<exists>actions. \<not> spaced (notifications (fst (start plainRuntime peFetch actions
        \<lparr>alert_subscriptions = [peAlert], notifications = []\<rparr>)))"
  using overlapping_cycles_notify_twice by blast

section \<open>Claims about the translator\<close>

text \<open>
  The two patterns of the translator that need a number have no match in a query
  without a digit.
\<close>

lemma needs_number_comparison:
  "delivers (hasChar (\<lambda>c. isDigit c \<or> c = CHR '','' \<or> c = CHR ''.'')) comparisonPattern True"
  unfolding comparisonPattern_def cat_def plus_def foldr.simps o_apply
  by (intro consumes_right[of _ _ _ "Group 1 _"] consumes_right[of _ _ _ spaces]
        consumes_right[of _ _ _ "Group 2 _"] consumes_left consumes_group consumes_charset)

lemma needs_digit_between:
  "delivers (hasChar isDigit) betweenPattern True"
  unfolding betweenPattern_def decimalNumber_def digits1_def cat_def plus_def foldr.simps o_apply
  by (intro consumes_right[of _ _ _ "Group 1 _"] consumes_right[of _ _ _ spaces1]
        consumes_right[of _ _ _ "str _"] consumes_left consumes_group consumes_charset)

text \<open>
  The translator on the query \<open>current price below analyst target\<close>, function by
  function.
\<close>

lemma q8_lower: "trim (toLowerCase ''current price below analyst target'') = ''current price below analyst target''"
  by (simp add: toLowerCase_def trim_def lower_facts space_facts)

lemma q8_sector: "extractSector ''current price below analyst target'' = JNull"
  by (simp add: extractSector_def SECTOR_ALIASES_def sectorPattern_def stocksCompaniesShares_def regex_eval)

lemma q8_exchange: "extractExchange ''current price below analyst target'' = JNull"
  by (simp add: extractExchange_def EXCHANGE_ALIASES_def exchangePattern_def regex_eval)

lemma q8_industry: "extractIndustry ''current price below analyst target'' = []"
  by (simp add: extractIndustry_def INDUSTRY_KEYWORDS_def)

lemma q8_cross: "extractCrossFieldComparison ''current price below analyst target'' = crossField ''<''"
  by (simp add: extractCrossFieldComparison_def priceVsTarget_def regex_eval)

lemma q8_buyback: "extractBuyback ''current price below analyst target'' = JNull"
  by (simp add: extractBuyback_def regex_eval)

lemma q8_clean: "cleanMetricQuery ''current price below analyst target'' = ''current price below analyst target''"
  by (simp add: cleanMetricQuery_def replaceAll_def replaceFirst_def expand_def regex_eval verbs_def
        sectorWords_def stocksCompaniesShares_def trim_def)

lemma q8_no_or: "regexTest orSeparator True ''current price below analyst target'' = False"
  by (simp add: orSeparator_def regex_eval)

lemma q8_protect: "replaceAll betweenProtect True [Lit ''between '', Ref 1, Lit ''_AND_'', Ref 2] ''current price below analyst target'' = ''current price below analyst target''"
  by (simp add: betweenProtect_def decimalNumber_def replaceAll_def expand_def regex_eval)

lemma q8_split: "regexSplit andSeparator True ''current price below analyst target'' = [''current price below analyst target'']"
  by (simp add: andSeparator_def regexSplit_def regex_eval)

lemma q8_restore: "trim (replaceAll (str ''_AND_'') False [Lit '' and ''] ''current price below analyst target'') = ''current price below analyst target''"
  by (simp add: replaceAll_def expand_def regex_eval trim_def)

lemma q8_no_digit: "\<not> hasChar isDigit ''current price below analyst target''"
  by (simp add: hasChar_def digit_facts)

lemma q8_no_number: "\<not> hasChar (\<lambda>c. isDigit c \<or> c = CHR '','' \<or> c = CHR ''.'') ''current price below analyst target''"
  by (simp add: hasChar_def digit_facts)

lemma q8_between: "regexMatch betweenPattern True ''current price below analyst target'' = None"
  unfolding regexMatch_def no_match_without[OF needs_digit_between q8_no_digit] by simp

lemma q8_comparison: "regexMatch comparisonPattern True ''current price below analyst target'' = None"
  unfolding regexMatch_def no_match_without[OF needs_number_comparison q8_no_number] by simp

lemma q8_preamble: "stripConditionPreamble ''current price below analyst target'' = ''current price below analyst target''"
  by (simp add: stripConditionPreamble_def replaceFirst_def expand_def regex_eval verbs_def
        stocksCompaniesShares_def trim_def)

lemma q8_positive: "regexMatch positivePattern True ''current price below analyst target'' = None"
  by (simp add: positivePattern_def periodClause_def regex_eval)

lemma q8_growing: "regexMatch growingPattern True ''current price below analyst target'' = None"
  by (simp add: growingPattern_def periodClause_def regex_eval)

lemma q8_digit: "regexMatch (CharSet isDigit) False ''current price below analyst target'' = None"
  by (simp add: regex_eval)

lemma q8_normal: "normalizePhrase ''current price below analyst target'' = ''current price below analyst target''"
  by (simp add: normalizePhrase_def toLowerCase_def replaceAll_def expand_def regex_eval
       trim_def metricChar_facts)

lemma q8_longest:
  "List.find (\<lambda>key. strIncludes ''current price below analyst target'' key)
     (sort_key (\<lambda>key. - int (length key)) (map fst METRIC_MAP)) = Some ''analyst target''"
  by (rule find_sort_key) (simp_all add: METRIC_MAP_def)

lemma q8_metric: "findMetricField ''current price below analyst target'' = JStr ''price_target_avg''"
  unfolding findMetricField_def q8_normal Let_def q8_longest
  by (simp add: METRIC_MAP_def objectPrototypeNames_def)

lemma q8_condition: "parseCondition ''current price below analyst target'' = Inr JNull"
  by (simp add: parseCondition_def q8_preamble q8_positive parseGrowing_def q8_growing
        parseStandalone_def q8_metric q8_digit GROWTH_FIELD_MAP_def parseStandard_def q8_comparison)

lemma q8_and: "parseAndConditions ''current price below analyst target'' = Inr []"
  unfolding parseAndConditions_def q8_protect q8_split
  by (simp add: parsePart_def q8_restore q8_between q8_condition)

lemma q8_metrics: "extractMetricConditions ''current price below analyst target'' = Inr []"
  by (simp add: extractMetricConditions_def q8_clean q8_no_or q8_and)

lemma q8_translated:
  "translateNLToDSL ''current price below analyst target'' = Inr (dslOf (JObj [(''and'', JArr [crossField ''<''])]))"
  unfolding translateNLToDSL_def Let_def q8_lower q8_sector q8_exchange q8_industry q8_cross
    q8_buyback q8_metrics
  by (simp add: isAscii_def dslOf_def crossField_def)

lemma q8_filter:
  "compileFilter (JObj [(''and'', JArr [crossField ''<''])]) initialContext
     = Inr (''ph.close < ae.price_target_avg'',
            \<lparr>params = [], paramCounter = 1,
             requiredTables = [''companies'', ''price_history'', ''analyst_estimates''],
             periodSubqueries = []\<rparr>)"
  by (simp add: compileFilter.simps crossField_def isConditionC_def compileCondition_def
        lookupField_def FIELD_TABLE_MAP_def plainField_def getTableAlias_def addTable_def setAdd_def
        initialContext_def)

lemma q8_compiled:
  "compile (dslOf (JObj [(''and'', JArr [crossField ''<''])]))
     = Inr \<lparr>resultSql =
          joinWith ''\<newline>''
            (filter (\<lambda>line. line \<noteq> [])
               (sqlLines
                  (joinWith ''\<newline>''
                     [lateralJoin ''fundamentals_quarterly'' ''id'' ''fq'',
                      lateralJoin ''price_history'' ''time'' ''ph'',
                      lateralJoin ''analyst_estimates'' ''estimate_date'' ''ae''])
                  [] ''ph.close < ae.price_target_avg'' ''c.market_cap DESC NULLS LAST'' 1)),
        resultParams = [JNum 100],
        resultTables = [''companies'', ''price_history'', ''analyst_estimates'',
                        ''fundamentals_quarterly'']\<rparr>"
  unfolding compile_def dslOf_def
  by (simp add: q8_filter generateJoins_def addTable_def setAdd_def jor_def
        del: joinWith.simps(2) joinWith.simps(3) filter.simps)

text \<open>
  Claim C8: for the query \<open>current price below analyst target\<close> the translator
  produces the single condition
  \<open>{field: 'close', operator: '<', value: 'price_target_avg', value_is_field: true}\<close>
  (under \<open>filter.and\<close>). Compiling that tree raises nothing; the SQL has the line
  \<open>WHERE ph.close < ae.price_target_avg\<close>, and it holds the \<open>LEFT JOIN LATERAL\<close>
  blocks of \<open>price_history\<close> with alias \<open>ph\<close> and of \<open>analyst_estimates\<close> with
  alias \<open>ae\<close> (next to the one of \<open>fundamentals_quarterly\<close>, which is always
  there). The only parameter is the default limit.
\<close>

theorem price_below_target:
  "translateNLToDSL ''current price below analyst target''
     = Inr (JObj [(''filter'', JObj [(''and'', JArr
              [JObj [(''field'', JStr ''close''), (''operator'', JStr ''<''),
                     (''value'', JStr ''price_target_avg''), (''value_is_field'', JBool True)]])])]) \<and>
   (\<exists>r. compile (JObj [(''filter'', JObj [(''and'', JArr
              [JObj [(''field'', JStr ''close''), (''operator'', JStr ''<''),
                     (''value'', JStr ''price_target_avg''), (''value_is_field'', JBool True)]])])]) = Inr r \<and>
      resultSql r =
          joinWith ''\<newline>''
            (filter (\<lambda>line. line \<noteq> [])
               (sqlLines
                  (joinWith ''\<newline>''
                     [lateralJoin ''fundamentals_quarterly'' ''id'' ''fq'',
                      lateralJoin ''price_history'' ''time'' ''ph'',
                      lateralJoin ''analyst_estimates'' ''estimate_date'' ''ae''])
                  [] ''ph.close < ae.price_target_avg'' ''c.market_cap DESC NULLS LAST'' 1)) \<and>
      strIncludes (resultSql r) ''\<newline>WHERE ph.close < ae.price_target_avg\<newline>'' \<and>
      strIncludes (resultSql r)
        ''LEFT JOIN LATERAL (\<newline>  SELECT * FROM price_history\<newline>  WHERE ticker = c.ticker\<newline>  ORDER BY time DESC\<newline>  LIMIT 1\<newline>) ph ON true'' \<and>
      strIncludes (resultSql r)
        ''LEFT JOIN LATERAL (\<newline>  SELECT * FROM analyst_estimates\<newline>  WHERE ticker = c.ticker\<newline>  ORDER BY estimate_date DESC\<newline>  LIMIT 1\<newline>) ae ON true'' \<and>
      resultParams r = [JNum 100] \<and>
      resultTables r = [''companies'', ''price_history'', ''analyst_estimates'',
                        ''fundamentals_quarterly''])"
proof -
  let ?sql = "joinWith ''\<newline>''
            (filter (\<lambda>line. line \<noteq> [])
               (sqlLines
                  (joinWith ''\<newline>''
                     [lateralJoin ''fundamentals_quarterly'' ''id'' ''fq'',
                      lateralJoin ''price_history'' ''time'' ''ph'',
                      lateralJoin ''analyst_estimates'' ''estimate_date'' ''ae''])
                  [] ''ph.close < ae.price_target_avg'' ''c.market_cap DESC NULLS LAST'' 1))"
  have t: "translateNLToDSL ''current price below analyst target''
     = Inr (JObj [(''filter'', JObj [(''and'', JArr
              [JObj [(''field'', JStr ''close''), (''operator'', JStr ''<''),
                     (''value'', JStr ''price_target_avg''), (''value_is_field'', JBool True)]])])])"
    using q8_translated by (simp only: dslOf_def crossField_def)
  have c: "compile (JObj [(''filter'', JObj [(''and'', JArr
              [JObj [(''field'', JStr ''close''), (''operator'', JStr ''<''),
                     (''value'', JStr ''price_target_avg''), (''value_is_field'', JBool True)]])])])
     = Inr \<lparr>resultSql = ?sql, resultParams = [JNum 100],
            resultTables = [''companies'', ''price_history'', ''analyst_estimates'',
                            ''fundamentals_quarterly'']\<rparr>"
    using q8_compiled by (simp only: dslOf_def crossField_def)
  have w: "strIncludes ?sql ''\<newline>WHERE ph.close < ae.price_target_avg\<newline>''"
    using sql_where_line[of "joinWith ''\<newline>''
                     [lateralJoin ''fundamentals_quarterly'' ''id'' ''fq'',
                      lateralJoin ''price_history'' ''time'' ''ph'',
                      lateralJoin ''analyst_estimates'' ''estimate_date'' ''ae'']" "[]"
           "''ph.close < ae.price_target_avg''" "''c.market_cap DESC NULLS LAST''" 1]
    by simp
  have ph: "lateralJoin ''price_history'' ''time'' ''ph'' =
        ''LEFT JOIN LATERAL (\<newline>  SELECT * FROM price_history\<newline>  WHERE ticker = c.ticker\<newline>  ORDER BY time DESC\<newline>  LIMIT 1\<newline>) ph ON true''"
    by (simp add: lateralJoin_def)
  have ae: "lateralJoin ''analyst_estimates'' ''estimate_date'' ''ae'' =
        ''LEFT JOIN LATERAL (\<newline>  SELECT * FROM analyst_estimates\<newline>  WHERE ticker = c.ticker\<newline>  ORDER BY estimate_date DESC\<newline>  LIMIT 1\<newline>) ae ON true''"
    by (simp add: lateralJoin_def)
  have jp: "strIncludes ?sql (lateralJoin ''price_history'' ''time'' ''ph'')"
    by (rule sql_join) (simp_all add: lateralJoin_def)
  have ja: "strIncludes ?sql (lateralJoin ''analyst_estimates'' ''estimate_date'' ''ae'')"
    by (rule sql_join) (simp_all add: lateralJoin_def)
  from jp ja have j: "strIncludes ?sql
        ''LEFT JOIN LATERAL (\<newline>  SELECT * FROM price_history\<newline>  WHERE ticker = c.ticker\<newline>  ORDER BY time DESC\<newline>  LIMIT 1\<newline>) ph ON true''"
      "strIncludes ?sql
        ''LEFT JOIN LATERAL (\<newline>  SELECT * FROM analyst_estimates\<newline>  WHERE ticker = c.ticker\<newline>  ORDER BY estimate_date DESC\<newline>  LIMIT 1\<newline>) ae ON true''"
    unfolding ph ae by blast+
  show ?thesis
    unfolding t c using w j by simp
qed

theorem price_below_target_witness:
  "\<exists>dsl r. translateNLToDSL ''current price below analyst target'' = Inr dsl \<and>
     compile dsl = Inr r \<and>
     strIncludes (resultSql r) ''\<newline>WHERE ph.close < ae.price_target_avg\<newline>''"
  using price_below_target by blast

text \<open>The pipeline on the empty query, step by step.\<close>

lemma empty_translated: "translateNLToDSL [] = Inr (JObj [(''filter'', JObj [])])"
  by code_simp

lemma empty_validated:
  "validate (JObj [(''filter'', JObj [])])
     = Inr \<lparr>valid = True, errors = [], sanitizedDSL = JObj [(''filter'', JObj [])]\<rparr>"
  by (simp add: validate_def validateFilter_JObj ownKeyOrder_def)

lemma empty_compiled:
  "compile (JObj [(''filter'', JObj [])])
     = Inr \<lparr>resultSql =
          joinWith ''\<newline>''
            (filter (\<lambda>line. line \<noteq> [])
               (sqlLines
                  (joinWith ''\<newline>''
                     [lateralJoin ''fundamentals_quarterly'' ''id'' ''fq'',
                      lateralJoin ''price_history'' ''time'' ''ph''])
                  [] ''1=1'' ''c.market_cap DESC NULLS LAST'' 1)),
        resultParams = [JNum 100],
        resultTables = [''companies'', ''price_history'', ''fundamentals_quarterly'']\<rparr>"
  unfolding compile_def
  by (simp add: compileFilter.simps initialContext_def generateJoins_def addTable_def setAdd_def
        jor_def del: joinWith.simps(2) joinWith.simps(3) filter.simps)

text \<open>
  Claim C4: on the empty query the translator returns \<open>{filter: {}}\<close>; the validator
  accepts that tree and hands it on unchanged; and the compiler returns its SQL
  without raising anything. The where clause is \<open>1=1\<close>: the SQL has the line
  \<open>WHERE 1=1\<close>, and the only parameter is the default limit.
\<close>

theorem empty_query_pipeline:
  "translateNLToDSL [] = Inr (JObj [(''filter'', JObj [])]) \<and>
   validate (JObj [(''filter'', JObj [])])
     = Inr \<lparr>valid = True, errors = [], sanitizedDSL = JObj [(''filter'', JObj [])]\<rparr> \<and>
   (\<exists>r. compile (JObj [(''filter'', JObj [])]) = Inr r \<and>
      resultSql r =
          joinWith ''\<newline>''
            (filter (\<lambda>line. line \<noteq> [])
               (sqlLines
                  (joinWith ''\<newline>''
                     [lateralJoin ''fundamentals_quarterly'' ''id'' ''fq'',
                      lateralJoin ''price_history'' ''time'' ''ph''])
                  [] ''1=1'' ''c.market_cap DESC NULLS LAST'' 1)) \<and>
      strIncludes (resultSql r) ''\<newline>WHERE 1=1\<newline>'' \<and>
      resultParams r = [JNum 100] \<and>
      resultTables r = [''companies'', ''price_history'', ''fundamentals_quarterly''])"
proof -
  let ?sql = "joinWith ''\<newline>''
            (filter (\<lambda>line. line \<noteq> [])
               (sqlLines
                  (joinWith ''\<newline>''
                     [lateralJoin ''fundamentals_quarterly'' ''id'' ''fq'',
                      lateralJoin ''price_history'' ''time'' ''ph''])
                  [] ''1=1'' ''c.market_cap DESC NULLS LAST'' 1))"
  have w: "strIncludes ?sql ''\<newline>WHERE 1=1\<newline>''"
    using sql_where_line[of "joinWith ''\<newline>''
                     [lateralJoin ''fundamentals_quarterly'' ''id'' ''fq'',
                      lateralJoin ''price_history'' ''time'' ''ph'']" "[]"
           "''1=1''" "''c.market_cap DESC NULLS LAST''" 1]
    by simp
  show ?thesis
    unfolding empty_translated empty_validated empty_compiled using w by simp
qed

theorem empty_query_pipeline_witness:
  "\<exists>dsl v r. translateNLToDSL [] = Inr dsl \<and> validate dsl = Inr v \<and> valid v \<and>
     compile (sanitizedDSL v) = Inr r \<and> strIncludes (resultSql r) ''\<newline>WHERE 1=1\<newline>''"
proof -
  from empty_query_pipeline obtain r where
    "translateNLToDSL [] = Inr (JObj [(''filter'', JObj [])])"
    "validate (JObj [(''filter'', JObj [])])
       = Inr \<lparr>valid = True, errors = [], sanitizedDSL = JObj [(''filter'', JObj [])]\<rparr>"
    "compile (JObj [(''filter'', JObj [])]) = Inr r"
    "strIncludes (resultSql r) ''\<newline>WHERE 1=1\<newline>''"
    by blast
  then show ?thesis by fastforce
qed

end
